(* ===== verification/Prelude.thy ===== *)
theory Prelude
  imports Main "HOL-Library.Word"
begin

text \<open>
  The computations in which the handlers of both devices are written, and the rules their
  proofs use.

  A Rust function that can fail, panic and call out of the crate is a function from the
  state to an outcome, the state afterwards and the list of calls it made to code outside the
  crate, in order.  An outcome is \<open>Ok\<close> (the value of a \<open>Result\<close> or of a plain
  function), \<open>Err\<close> (an \<open>Err\<close> that the \<open>?\<close> operator hands on) or
  \<open>Panic\<close>.  The state is never lost: what a function did before it failed is kept,
  as it is in the program.

  Groups of lemmas: the rules of \<open>post\<close> (a postcondition of one run), collected in
  \<open>post_simps\<close>; the laws of sequencing; the rules of the two forms of
  \<open>for\<close> loop; the equations of \<open>rust_loop\<close>, the unbounded \<open>loop\<close>; the
  little-endian encodings of \<open>u16\<close> and \<open>u32\<close> and their round trips.
\<close>

unbundle bit_operations_syntax

named_theorems post_simps \<open>the rules that compute the postcondition of a run\<close>

type_synonym u8 = "8 word"
type_synonym u16 = "16 word"
type_synonym u32 = "32 word"
type_synonym u64 = "64 word"

section \<open>Outcomes and computations\<close>

datatype panic =
    Unwrap_None
  | Unwrap_Err
  | Index_Out_Of_Bounds
  | Lock_Poisoned
  | Explicit_Panic

datatype ('e, 'a) outcome = Ok 'a | Err 'e | Panic panic

type_synonym ('s, 'x, 'e, 'a) comp = "'s \<Rightarrow> ('e, 'a) outcome \<times> 's \<times> 'x list"

definition ret :: "'a \<Rightarrow> ('s, 'x, 'e, 'a) comp" where
  "ret a s = (Ok a, s, [])"

definition fail :: "'e \<Rightarrow> ('s, 'x, 'e, 'a) comp" where
  "fail e s = (Err e, s, [])"

definition panic :: "panic \<Rightarrow> ('s, 'x, 'e, 'a) comp" where
  "panic p s = (Panic p, s, [])"

text \<open>\<open>bind m f\<close> is \<open>let a = m?; f(a)\<close>: an error or a panic of \<open>m\<close> ends it.\<close>

definition bind ::
  "('s, 'x, 'e, 'a) comp \<Rightarrow> ('a \<Rightarrow> ('s, 'x, 'e, 'b) comp) \<Rightarrow> ('s, 'x, 'e, 'b) comp" where
  "bind m f s =
     (case m s of
        (Ok a, s1, es1) \<Rightarrow> (case f a s1 of (r, s2, es2) \<Rightarrow> (r, s2, es1 @ es2))
      | (Err e, s1, es1) \<Rightarrow> (Err e, s1, es1)
      | (Panic p, s1, es1) \<Rightarrow> (Panic p, s1, es1))"

definition get :: "('s \<Rightarrow> 'a) \<Rightarrow> ('s, 'x, 'e, 'a) comp" where
  "get f s = (Ok (f s), s, [])"

definition modify :: "('s \<Rightarrow> 's) \<Rightarrow> ('s, 'x, 'e, unit) comp" where
  "modify f s = (Ok (), f s, [])"

text \<open>\<open>ensure b e\<close> is \<open>if !b { return Err(e) }\<close>.\<close>

definition ensure :: "bool \<Rightarrow> 'e \<Rightarrow> ('s, 'x, 'e, unit) comp" where
  "ensure b e = (if b then ret () else fail e)"

text \<open>\<open>ok_or e\<close> is \<open>.map_err(|_| e)?\<close> on a result whose error carries nothing of use.\<close>

definition ok_or :: "'e \<Rightarrow> 'a option \<Rightarrow> ('s, 'x, 'e, 'a) comp" where
  "ok_or e x = (case x of Some a \<Rightarrow> ret a | None \<Rightarrow> fail e)"

text \<open>\<open>unwrap p\<close> is \<open>.unwrap()\<close>; \<open>p\<close> says whether it unwraps an option or a result.\<close>

definition unwrap :: "panic \<Rightarrow> 'a option \<Rightarrow> ('s, 'x, 'e, 'a) comp" where
  "unwrap p x = (case x of Some a \<Rightarrow> ret a | None \<Rightarrow> panic p)"

definition unwrap_ok :: "bool \<Rightarrow> ('s, 'x, 'e, unit) comp" where
  "unwrap_ok b = (if b then ret () else panic Unwrap_Err)"

text \<open>
  \<open>attempt m\<close> is the value of type \<open>Result\<close> itself: a \<open>match\<close> on it follows.
  A panic is not caught.
\<close>

definition attempt :: "('s, 'x, 'e, 'a) comp \<Rightarrow> ('s, 'x, 'f, 'e + 'a) comp" where
  "attempt m s =
     (case m s of
        (Ok a, s1, es) \<Rightarrow> (Ok (Inr a), s1, es)
      | (Err e, s1, es) \<Rightarrow> (Ok (Inl e), s1, es)
      | (Panic p, s1, es) \<Rightarrow> (Panic p, s1, es))"

text \<open>\<open>map_err f m\<close> converts the error, as the \<open>From\<close> instance behind \<open>?\<close> does.\<close>

definition map_err :: "('e \<Rightarrow> 'f) \<Rightarrow> ('s, 'x, 'e, 'a) comp \<Rightarrow> ('s, 'x, 'f, 'a) comp" where
  "map_err f m s =
     (case m s of
        (Ok a, s1, es) \<Rightarrow> (Ok a, s1, es)
      | (Err e, s1, es) \<Rightarrow> (Err (f e), s1, es)
      | (Panic p, s1, es) \<Rightarrow> (Panic p, s1, es))"

text \<open>A pure part of a function, with its early returns as \<open>Inl\<close>.\<close>

definition of_sum :: "'e + 'a \<Rightarrow> ('s, 'x, 'e, 'a) comp" where
  "of_sum x = (case x of Inl e \<Rightarrow> fail e | Inr a \<Rightarrow> ret a)"

text \<open>A slice index: \<open>xs[i]\<close> panics out of range.\<close>

definition index :: "'a list \<Rightarrow> nat \<Rightarrow> ('s, 'x, 'e, 'a) comp" where
  "index xs i = (if i < length xs then ret (xs ! i) else panic Index_Out_Of_Bounds)"

section \<open>Postconditions of a run\<close>

definition post ::
  "('s, 'x, 'e, 'a) comp \<Rightarrow> 's \<Rightarrow> (('e, 'a) outcome \<Rightarrow> 's \<Rightarrow> 'x list \<Rightarrow> bool) \<Rightarrow> bool" where
  "post m s Q = (case m s of (r, s', es) \<Rightarrow> Q r s' es)"

lemma postD: "post m s Q \<Longrightarrow> m s = (r, s', es) \<Longrightarrow> Q r s' es"
  by (simp add: post_def)

lemma post_run: "(\<And>r s' es. m s = (r, s', es) \<Longrightarrow> Q r s' es) \<Longrightarrow> post m s Q"
  by (simp add: post_def split: prod.split)

lemma post_mono:
  "post m s Q \<Longrightarrow> (\<And>r s' es. m s = (r, s', es) \<Longrightarrow> Q r s' es \<Longrightarrow> R r s' es) \<Longrightarrow> post m s R"
  by (simp add: post_def split: prod.splits)

lemma post_conj: "post m s (\<lambda>r s' es. Q r s' es \<and> R r s' es) \<longleftrightarrow> post m s Q \<and> post m s R"
  by (simp add: post_def split: prod.split)

lemma post_ret [post_simps]: "post (ret a) s Q \<longleftrightarrow> Q (Ok a) s []"
  by (simp add: post_def ret_def)

lemma post_fail [post_simps]: "post (fail e) s Q \<longleftrightarrow> Q (Err e) s []"
  by (simp add: post_def fail_def)

lemma post_panic [post_simps]: "post (panic p) s Q \<longleftrightarrow> Q (Panic p) s []"
  by (simp add: post_def panic_def)

lemma post_get [post_simps]: "post (get f) s Q \<longleftrightarrow> Q (Ok (f s)) s []"
  by (simp add: post_def get_def)

lemma post_modify [post_simps]: "post (modify g) s Q \<longleftrightarrow> Q (Ok ()) (g s) []"
  by (simp add: post_def modify_def)

lemma post_bind [post_simps]:
  "post (bind m f) s Q \<longleftrightarrow>
     post m s (\<lambda>r s1 es1. case r of
         Ok a \<Rightarrow> post (f a) s1 (\<lambda>r2 s2 es2. Q r2 s2 (es1 @ es2))
       | Err e \<Rightarrow> Q (Err e) s1 es1
       | Panic p \<Rightarrow> Q (Panic p) s1 es1)"
  by (simp add: post_def bind_def split: prod.split outcome.split)

lemma post_attempt [post_simps]:
  "post (attempt m) s Q \<longleftrightarrow>
     post m s (\<lambda>r s1 es1. case r of
         Ok a \<Rightarrow> Q (Ok (Inr a)) s1 es1
       | Err e \<Rightarrow> Q (Ok (Inl e)) s1 es1
       | Panic p \<Rightarrow> Q (Panic p) s1 es1)"
  by (simp add: post_def attempt_def split: prod.split outcome.split)

lemma post_ensure [post_simps]:
  "post (ensure b e) s Q \<longleftrightarrow> (if b then Q (Ok ()) s [] else Q (Err e) s [])"
  by (simp add: ensure_def post_simps)

lemma post_ok_or [post_simps]:
  "post (ok_or e x) s Q \<longleftrightarrow> (case x of Some a \<Rightarrow> Q (Ok a) s [] | None \<Rightarrow> Q (Err e) s [])"
  by (simp add: ok_or_def post_simps split: option.split)

lemma post_unwrap [post_simps]:
  "post (unwrap p x) s Q \<longleftrightarrow> (case x of Some a \<Rightarrow> Q (Ok a) s [] | None \<Rightarrow> Q (Panic p) s [])"
  by (simp add: unwrap_def post_simps split: option.split)

lemma post_unwrap_ok [post_simps]:
  "post (unwrap_ok b) s Q \<longleftrightarrow> (if b then Q (Ok ()) s [] else Q (Panic Unwrap_Err) s [])"
  by (simp add: unwrap_ok_def post_simps)

lemma post_map_err [post_simps]:
  "post (map_err f m) s Q \<longleftrightarrow>
     post m s (\<lambda>r s1 es1. case r of
         Ok a \<Rightarrow> Q (Ok a) s1 es1
       | Err e \<Rightarrow> Q (Err (f e)) s1 es1
       | Panic p \<Rightarrow> Q (Panic p) s1 es1)"
  by (simp add: post_def map_err_def split: prod.split outcome.split)

lemma post_of_sum [post_simps]:
  "post (of_sum x) s Q \<longleftrightarrow> (case x of Inl e \<Rightarrow> Q (Err e) s [] | Inr a \<Rightarrow> Q (Ok a) s [])"
  by (simp add: of_sum_def post_simps split: sum.split)

lemma post_index [post_simps]:
  "post (index xs i) s Q \<longleftrightarrow>
     (if i < length xs then Q (Ok (xs ! i)) s [] else Q (Panic Index_Out_Of_Bounds) s [])"
  by (simp add: index_def post_simps)

lemma post_if [post_simps]: "post (if b then m else n) s Q \<longleftrightarrow> (if b then post m s Q else post n s Q)"
  by simp

lemma post_Let [post_simps]: "post (Let v f) s Q \<longleftrightarrow> post (f v) s Q"
  by simp

lemma post_case_option [post_simps]:
  "post (case x of Some a \<Rightarrow> f a | None \<Rightarrow> n) s Q \<longleftrightarrow>
     (case x of Some a \<Rightarrow> post (f a) s Q | None \<Rightarrow> post n s Q)"
  by (simp split: option.split)

lemma post_case_sum [post_simps]:
  "post (case x of Inl a \<Rightarrow> f a | Inr b \<Rightarrow> g b) s Q \<longleftrightarrow>
     (case x of Inl a \<Rightarrow> post (f a) s Q | Inr b \<Rightarrow> post (g b) s Q)"
  by (simp split: sum.split)

section \<open>Laws of sequencing\<close>

lemma bind_ret_left [simp]: "bind (ret a) f = f a"
  by (rule ext) (simp add: bind_def ret_def split: prod.split)

lemma bind_ret_right [simp]: "bind m ret = m"
  by (rule ext) (simp add: bind_def ret_def split: prod.split outcome.split)

lemma bind_fail [simp]: "bind (fail e) f = fail e"
  by (rule ext) (simp add: bind_def fail_def)

lemma bind_panic [simp]: "bind (panic p) f = panic p"
  by (rule ext) (simp add: bind_def panic_def)

lemma bind_assoc: "bind (bind m f) g = bind m (\<lambda>a. bind (f a) g)"
  by (rule ext) (simp add: bind_def split: prod.split outcome.split)

section \<open>The two forms of for loop\<close>

text \<open>
  \<open>mfor f xs\<close> runs \<open>f\<close> on each element; the loop ends at the first error or panic.
  \<open>mfor_until\<close> is for a body that can also \<open>return\<close>: \<open>Some v\<close> of the body is
  \<open>return Ok(v)\<close> of the function around the loop, \<open>None\<close> goes on.
\<close>

primrec mfor_until ::
  "('c \<Rightarrow> ('s, 'x, 'e, 'v option) comp) \<Rightarrow> 'c list \<Rightarrow> ('s, 'x, 'e, 'v option) comp" where
  "mfor_until f [] = ret None"
| "mfor_until f (c # cs) =
     bind (f c) (\<lambda>v. case v of Some x \<Rightarrow> ret (Some x) | None \<Rightarrow> mfor_until f cs)"

definition mfor ::
  "('c \<Rightarrow> ('s, 'x, 'e, unit) comp) \<Rightarrow> 'c list \<Rightarrow> ('s, 'x, 'e, unit) comp" where
  "mfor f cs =
     bind (mfor_until (\<lambda>c. bind (f c) (\<lambda>_. ret (None :: unit option))) cs) (\<lambda>_. ret ())"

lemma mfor_Nil [simp]: "mfor f [] = ret ()"
  by (simp add: mfor_def)

lemma mfor_Cons [simp]: "mfor f (c # cs) = bind (f c) (\<lambda>_. mfor f cs)"
  by (simp add: mfor_def bind_assoc)

section \<open>What every run of a computation keeps\<close>

text \<open>
  \<open>keeps R m\<close>: whatever the outcome, \<open>R\<close> relates the state before \<open>m\<close>, the calls made and
  the state after.  When \<open>R\<close> holds of doing nothing and composes along a sequence of
  steps, every combinator hands it on; the locale proves this once.  It is interpreted for
  the relations the devices are about: which calls are made at all (\<open>emitting\<close>, below),
  fields that are never written, flags that are never reset, the balance of a queue,
  measures that do not grow.
\<close>

definition keeps :: "('s \<Rightarrow> 'x list \<Rightarrow> 's \<Rightarrow> bool) \<Rightarrow> ('s, 'x, 'e, 'a) comp \<Rightarrow> bool" where
  "keeps R m \<longleftrightarrow> (\<forall>s. post m s (\<lambda>r s' es. R s es s'))"

lemma keepsD: "keeps R m \<Longrightarrow> m s = (r, s', es) \<Longrightarrow> R s es s'"
  by (auto simp: keeps_def dest: postD)

lemma keepsI: "(\<And>s. post m s (\<lambda>r s' es. R s es s')) \<Longrightarrow> keeps R m"
  by (simp add: keeps_def)

locale run_relation =
  fixes R :: "'s \<Rightarrow> 'x list \<Rightarrow> 's \<Rightarrow> bool"
  assumes R_refl: "R s [] s"
    and R_trans: "R s es t \<Longrightarrow> R t es' u \<Longrightarrow> R s (es @ es') u"
begin

lemma keeps_bind:
  assumes m: "keeps R m" and f: "\<And>a. keeps R (f a)"
  shows "keeps R (bind m f)"
proof (rule keepsI)
  fix s
  have "R s (es1 @ es2) s2" if "m s = (Ok a, s1, es1)" and "f a s1 = (r, s2, es2)"
    for a s1 es1 r s2 es2
    using keepsD [OF m that(1)] keepsD [OF f that(2)] by (rule R_trans)
  then show "post (bind m f) s (\<lambda>r s' es. R s es s')"
    by (auto simp: post_bind split: outcome.split intro!: post_run dest: keepsD [OF m])
qed

lemma keeps_pure:
  "keeps R (ret a)" "keeps R (fail e)" "keeps R (panic p)" "keeps R (get f)"
  "keeps R (ensure b e)" "keeps R (ok_or e x)" "keeps R (unwrap p x)" "keeps R (unwrap_ok b)"
  "keeps R (index xs i)" "keeps R (of_sum y)"
  by (simp_all add: keeps_def post_simps R_refl split: option.split sum.split)

lemma keeps_modify: "(\<And>s. R s [] (g s)) \<Longrightarrow> keeps R (modify g)"
  by (simp add: keeps_def post_simps)

lemma keeps_attempt: "keeps R m \<Longrightarrow> keeps R (attempt m)"
  by (rule keepsI)
     (auto simp: post_attempt split: outcome.split intro!: post_run dest: keepsD)

lemma keeps_map_err: "keeps R m \<Longrightarrow> keeps R (map_err f m)"
  by (rule keepsI)
     (auto simp: post_map_err split: outcome.split intro!: post_run dest: keepsD)

lemma keeps_cases:
  "keeps R m \<Longrightarrow> keeps R n \<Longrightarrow> keeps R (if b then m else n)"
  "(\<And>a. keeps R (g a)) \<Longrightarrow> keeps R n \<Longrightarrow> keeps R (case x of Some a \<Rightarrow> g a | None \<Rightarrow> n)"
  "(\<And>a. keeps R (h a)) \<Longrightarrow> (\<And>b. keeps R (k b)) \<Longrightarrow>
     keeps R (case y of Inl a \<Rightarrow> h a | Inr b \<Rightarrow> k b)"
  "keeps R n \<Longrightarrow> (\<And>z zs. keeps R (l z zs)) \<Longrightarrow>
     keeps R (case xs of [] \<Rightarrow> n | z # zs \<Rightarrow> l z zs)"
  "keeps R (f v) \<Longrightarrow> keeps R (Let v f)"
  by (simp_all split: option.split sum.split list.split)

lemma keeps_mfor_until: "(\<And>c. keeps R (f c)) \<Longrightarrow> keeps R (mfor_until f cs)"
  by (induction cs) (auto intro!: keeps_bind keeps_pure keeps_cases)

lemma keeps_mfor: "(\<And>c. keeps R (f c)) \<Longrightarrow> keeps R (mfor f cs)"
  unfolding mfor_def by (auto intro!: keeps_bind keeps_pure keeps_mfor_until)

lemmas keeps_rules =
  keeps_bind keeps_pure keeps_attempt keeps_map_err keeps_cases keeps_mfor_until keeps_mfor

end

definition emitting :: "('x \<Rightarrow> bool) \<Rightarrow> 's \<Rightarrow> 'x list \<Rightarrow> 's \<Rightarrow> bool" where
  "emitting P s es s' \<longleftrightarrow> list_all P es"

interpretation emit: run_relation "emitting P" for P
  by unfold_locales (simp_all add: emitting_def)

section \<open>The unbounded loop\<close>

text \<open>
  \<open>loop { body }\<close>: \<open>Some v\<close> of the body is \<open>break v\<close>.  A loop that never
  ends has the value \<open>None\<close>.
\<close>

type_synonym ('s, 'x, 'e, 'a) run = "(('e, 'a) outcome \<times> 's \<times> 'x list) option"

partial_function (option) rust_loop ::
  "('s, 'x, 'e, 'v option) comp \<Rightarrow> 's \<Rightarrow> ('s, 'x, 'e, 'v) run" where
  "rust_loop body s =
     (case body s of
        (r, s1, es1) \<Rightarrow>
          (case r of
             Ok v \<Rightarrow>
               (case v of
                  Some x \<Rightarrow> Some (Ok x, s1, es1)
                | None \<Rightarrow>
                    Option.bind (rust_loop body s1)
                      (\<lambda>z. Some (fst z, fst (snd z), es1 @ snd (snd z))))
           | Err e \<Rightarrow> Some (Err e, s1, es1)
           | Panic p \<Rightarrow> Some (Panic p, s1, es1)))"

text \<open>A computation that ends, followed by one that may not.\<close>

definition bind_run ::
  "('s, 'x, 'e, 'a) comp \<Rightarrow> ('a \<Rightarrow> 's \<Rightarrow> ('s, 'x, 'e, 'b) run) \<Rightarrow> 's \<Rightarrow> ('s, 'x, 'e, 'b) run" where
  "bind_run m f s =
     (case m s of
        (Ok a, s1, es1) \<Rightarrow> map_option (\<lambda>(r, s2, es2). (r, s2, es1 @ es2)) (f a s1)
      | (Err e, s1, es1) \<Rightarrow> Some (Err e, s1, es1)
      | (Panic p, s1, es1) \<Rightarrow> Some (Panic p, s1, es1))"

lemma bind_run_cases:
  assumes "bind_run m f s = Some (r, s', es)"
  obtains (ok) a s1 es1 es2 where "m s = (Ok a, s1, es1)" "f a s1 = Some (r, s', es2)" "es = es1 @ es2"
  | (err) e where "m s = (Err e, s', es)" "r = Err e"
  | (panic) p where "m s = (Panic p, s', es)" "r = Panic p"
  using assms by (auto simp: bind_run_def split: prod.splits outcome.splits)

lemma rust_loop_break:
  "body s = (Ok (Some x), s1, es1) \<Longrightarrow> rust_loop body s = Some (Ok x, s1, es1)"
  by (subst rust_loop.simps) simp

lemma rust_loop_err:
  "body s = (Err e, s1, es1) \<Longrightarrow> rust_loop body s = Some (Err e, s1, es1)"
  by (subst rust_loop.simps) simp

lemma rust_loop_panic:
  "body s = (Panic p, s1, es1) \<Longrightarrow> rust_loop body s = Some (Panic p, s1, es1)"
  by (subst rust_loop.simps) simp

lemma rust_loop_continue:
  "body s = (Ok None, s1, es1) \<Longrightarrow>
     rust_loop body s = map_option (\<lambda>(r, s2, es2). (r, s2, es1 @ es2)) (rust_loop body s1)"
  by (subst rust_loop.simps) (simp add: map_conv_bind_option split_beta comp_def)

text \<open>
  Partial correctness of the loop: a property of one round that is closed under going round
  again holds of the whole run.
\<close>

lemma rust_loop_induct:
  assumes ret: "rust_loop body s = Some (r, s', es)"
    and stop: "\<And>s r s1 es1. body s = (r, s1, es1) \<Longrightarrow> r \<noteq> Ok None \<Longrightarrow>
       P s (case r of Ok v \<Rightarrow> Ok (the v) | Err e \<Rightarrow> Err e | Panic p \<Rightarrow> Panic p) s1 es1"
    and step: "\<And>s s1 es1 r s2 es2. body s = (Ok None, s1, es1) \<Longrightarrow> P s1 r s2 es2 \<Longrightarrow>
       P s r s2 (es1 @ es2)"
  shows "P s r s' es"
proof -
  have "(\<lambda>s z. P s (fst z) (fst (snd z)) (snd (snd z))) s (r, s', es)"
  proof (rule rust_loop.raw_induct [where P = "\<lambda>b s z. b = body \<longrightarrow>
      P s (fst z) (fst (snd z)) (snd (snd z))" and body = body and s = s, THEN mp, OF _ ret refl])
    fix loop b s z
    assume IH: "\<And>b s z. loop b s = Some z \<Longrightarrow> b = body \<longrightarrow> P s (fst z) (fst (snd z)) (snd (snd z))"
      and eq: "(case b s of (r, s1, es1) \<Rightarrow>
          (case r of
             Ok v \<Rightarrow> (case v of
                  Some x \<Rightarrow> Some (Ok x, s1, es1)
                | None \<Rightarrow> Option.bind (loop b s1)
                      (\<lambda>z. Some (fst z, fst (snd z), es1 @ snd (snd z))))
           | Err e \<Rightarrow> Some (Err e, s1, es1)
           | Panic p \<Rightarrow> Some (Panic p, s1, es1))) = Some z"
    show "b = body \<longrightarrow> P s (fst z) (fst (snd z)) (snd (snd z))"
    proof
      assume b: "b = body"
      obtain r s1 es1 where run: "body s = (r, s1, es1)"
        by (cases "body s") auto
      show "P s (fst z) (fst (snd z)) (snd (snd z))"
      proof (cases "r = Ok None")
        case True
        with eq run b obtain z' where l: "loop body s1 = Some z'"
          and z: "z = (fst z', fst (snd z'), es1 @ snd (snd z'))"
          by (auto simp: bind_eq_Some_conv)
        from IH [OF l] have "P s1 (fst z') (fst (snd z')) (snd (snd z'))" by simp
        from step [OF run [unfolded True] this] z show ?thesis by simp
      next
        case False
        from stop [OF run False] eq run b False show ?thesis
          by (auto split: outcome.splits option.splits)
      qed
    qed
  qed
  then show ?thesis by simp
qed

context run_relation
begin

lemma keeps_loop:
  assumes body: "keeps R body" and run: "rust_loop body s = Some (r, s', es)"
  shows "R s es s'"
  using run
  by (rule rust_loop_induct) (auto dest: keepsD [OF body] intro: R_trans)

lemma keeps_bind_run:
  assumes "bind_run m f s = Some (r, s', es)" and "keeps R m"
    and "\<And>a s r s' es. f a s = Some (r, s', es) \<Longrightarrow> R s es s'"
  shows "R s es s'"
  using assms(1)
  by (cases rule: bind_run_cases) (auto dest: keepsD [OF assms(2)] assms(3) intro: R_trans)

end

text \<open>
  Total correctness: if every round that goes on makes a measure smaller, the loop ends.
\<close>

lemma rust_loop_terminates:
  assumes "\<And>s s1 es1. I s \<Longrightarrow> body s = (Ok None, s1, es1) \<Longrightarrow> I s1 \<and> \<mu> s1 < (\<mu> s :: nat)"
    and "I s"
  shows "\<exists>z. rust_loop body s = Some z"
  using assms(2)
proof (induction "\<mu> s" arbitrary: s rule: less_induct)
  case less
  obtain r s1 es1 where run: "body s = (r, s1, es1)"
    by (cases "body s") auto
  show ?case
  proof (cases "r = Ok None")
    case True
    with run assms(1) [OF less.prems] have "I s1" "\<mu> s1 < \<mu> s" by auto
    from less.hyps [OF this(2,1)] run True show ?thesis
      by (auto simp: rust_loop_continue)
  next
    case False
    show ?thesis
    proof (cases r)
      case (Ok v)
      with False obtain x where "r = Ok (Some x)" by (cases v) auto
      with run show ?thesis by (simp add: rust_loop_break)
    next
      case (Err e)
      with run show ?thesis by (simp add: rust_loop_err)
    next
      case (Panic p)
      with run show ?thesis by (simp add: rust_loop_panic)
    qed
  qed
qed

section \<open>Little-endian encodings\<close>

definition le16_bytes :: "u16 \<Rightarrow> u8 list" where
  "le16_bytes w = [ucast w, ucast (drop_bit 8 w)]"

definition le32_bytes :: "u32 \<Rightarrow> u8 list" where
  "le32_bytes w = [ucast w, ucast (drop_bit 8 w), ucast (drop_bit 16 w), ucast (drop_bit 24 w)]"

definition le16_of :: "u8 \<Rightarrow> u8 \<Rightarrow> u16" where
  "le16_of a b = ucast a OR push_bit 8 (ucast b)"

definition le32_of :: "u8 \<Rightarrow> u8 \<Rightarrow> u8 \<Rightarrow> u8 \<Rightarrow> u32" where
  "le32_of a b c d =
     ucast a OR push_bit 8 (ucast b) OR push_bit 16 (ucast c) OR push_bit 24 (ucast d)"

lemma length_le16_bytes [simp]: "length (le16_bytes w) = 2"
  and length_le32_bytes [simp]: "length (le32_bytes v) = 4"
  by (simp_all add: le16_bytes_def le32_bytes_def)

lemma le16_of_bytes [simp]: "le16_of (ucast w) (ucast (drop_bit 8 w)) = w"
  unfolding le16_of_def
  by (rule bit_word_eqI) (auto simp: bit_simps)

lemma le32_of_bytes [simp]:
  "le32_of (ucast w) (ucast (drop_bit 8 w)) (ucast (drop_bit 16 w)) (ucast (drop_bit 24 w)) = w"
  unfolding le32_of_def
proof (rule bit_word_eqI)
  fix n :: nat
  assume "n < LENGTH(32)"
  then show "bit ((ucast (ucast w :: u8) :: u32) OR push_bit 8 (ucast (ucast (drop_bit 8 w) :: u8))
      OR push_bit 16 (ucast (ucast (drop_bit 16 w) :: u8))
      OR push_bit 24 (ucast (ucast (drop_bit 24 w) :: u8))) n = bit w n"
    by (cases "n < 8"; cases "n < 16"; cases "n < 24") (auto simp: bit_simps)
qed

lemma le16_bytes_of [simp]: "le16_bytes (le16_of a b) = [a, b]"
  unfolding le16_bytes_def le16_of_def
  by (simp, intro conjI; rule bit_word_eqI) (auto simp: bit_simps dest: bit_imp_le_length)

lemma le32_bytes_of [simp]: "le32_bytes (le32_of a b c d) = [a, b, c, d]"
  unfolding le32_bytes_def le32_of_def
  by (simp, intro conjI; rule bit_word_eqI) (auto simp: bit_simps dest: bit_imp_le_length)

end
