(* ===== verification/RustStd.thy ===== *)
theory RustStd
  imports Prelude
begin

text \<open>
  What the two crates use of the Rust standard library's strings and locks.

  A \<open>char\<close> is a Unicode scalar value and a \<open>String\<close> the list of its characters;
  \<open>as_bytes\<close> is its UTF-8 form.  \<open>from_utf8\<close> decodes it, rejecting every ill-formed
  sequence (overlong forms, surrogates, values above 10FFFF, truncated sequences), and
  \<open>trim\<close> drops the characters with the Unicode property White Space at both ends.  The
  lemmas show that encoding and decoding are inverse to one another.

  \<open>RwLock\<close>: a guard taken by \<open>write().unwrap()\<close> or \<open>read().unwrap()\<close> panics on a poisoned
  lock, and a panic while a write guard is held poisons it.
\<close>

section \<open>Characters and UTF-8\<close>

type_synonym rust_char = nat
type_synonym rust_string = "rust_char list"

definition is_char :: "rust_char \<Rightarrow> bool" where
  "is_char c \<longleftrightarrow> c < 0xD800 \<or> (0xE000 \<le> c \<and> c \<le> 0x10FFFF)"

text \<open>A literal of the source, all of whose characters are ASCII.\<close>

definition str :: "string \<Rightarrow> rust_string" where
  "str s = map of_char s"

definition utf8_encode :: "rust_char \<Rightarrow> nat list" where
  "utf8_encode c =
     (if c < 0x80 then [c]
      else if c < 0x800 then [0xC0 + c div 64, 0x80 + c mod 64]
      else if c < 0x10000 then [0xE0 + c div 4096, 0x80 + c div 64 mod 64, 0x80 + c mod 64]
      else [0xF0 + c div 262144, 0x80 + c div 4096 mod 64, 0x80 + c div 64 mod 64,
            0x80 + c mod 64])"

definition is_cont :: "nat \<Rightarrow> bool" where
  "is_cont b \<longleftrightarrow> 0x80 \<le> b \<and> b < 0xC0"

fun utf8_decode :: "nat list \<Rightarrow> (rust_char \<times> nat list) option" where
  "utf8_decode [] = None"
| "utf8_decode (b0 # bs) =
     (if b0 < 0x80 then Some (b0, bs)
      else if 0xC2 \<le> b0 \<and> b0 < 0xE0 then
        (case bs of
           b1 # rest \<Rightarrow>
             if is_cont b1 then Some ((b0 - 0xC0) * 64 + (b1 - 0x80), rest) else None
         | _ \<Rightarrow> None)
      else if 0xE0 \<le> b0 \<and> b0 < 0xF0 then
        (case bs of
           b1 # b2 # rest \<Rightarrow>
             if is_cont b1 \<and> is_cont b2 \<and> (b0 = 0xE0 \<longrightarrow> 0xA0 \<le> b1) \<and> (b0 = 0xED \<longrightarrow> b1 < 0xA0)
             then Some ((b0 - 0xE0) * 4096 + (b1 - 0x80) * 64 + (b2 - 0x80), rest) else None
         | _ \<Rightarrow> None)
      else if 0xF0 \<le> b0 \<and> b0 < 0xF5 then
        (case bs of
           b1 # b2 # b3 # rest \<Rightarrow>
             if is_cont b1 \<and> is_cont b2 \<and> is_cont b3 \<and>
                (b0 = 0xF0 \<longrightarrow> 0x90 \<le> b1) \<and> (b0 = 0xF4 \<longrightarrow> b1 < 0x90)
             then Some ((b0 - 0xF0) * 262144 + (b1 - 0x80) * 4096 + (b2 - 0x80) * 64
                        + (b3 - 0x80), rest)
             else None
         | _ \<Rightarrow> None)
      else None)"

lemma utf8_decode_shorter: "utf8_decode bs = Some (c, rest) \<Longrightarrow> length rest < length bs"
  by (cases bs) (auto split: if_splits list.splits)

function utf8_chars :: "nat list \<Rightarrow> rust_string option" where
  "utf8_chars bs =
     (if bs = [] then Some []
      else (case utf8_decode bs of
              None \<Rightarrow> None
            | Some (c, rest) \<Rightarrow> map_option (Cons c) (utf8_chars rest)))"
  by pat_completeness auto
termination
  by (relation "measure length") (auto dest: utf8_decode_shorter)

declare utf8_chars.simps [simp del]

definition as_bytes :: "rust_string \<Rightarrow> u8 list" where
  "as_bytes s = map of_nat (concat (map utf8_encode s))"

definition from_utf8 :: "u8 list \<Rightarrow> rust_string option" where
  "from_utf8 bs = utf8_chars (map unat bs)"

lemma utf8_encode_byte: "is_char c \<Longrightarrow> b \<in> set (utf8_encode c) \<Longrightarrow> b < 256"
  by (auto simp: utf8_encode_def is_char_def split: if_splits)

lemma length_utf8_encode: "1 \<le> length (utf8_encode c) \<and> length (utf8_encode c) \<le> 4"
  by (simp add: utf8_encode_def)

text \<open>The digits to base 64 that the encoding cuts a character into.\<close>

lemma base64_2: "y < 64 \<Longrightarrow> (x * 64 + y) div 64 = x \<and> (x * 64 + y) mod 64 = (y :: nat)"
  by simp

lemma base64_3:
  fixes x y z :: nat
  assumes "y < 64" and "z < 64"
  shows "(x * 4096 + y * 64 + z) div 4096 = x \<and> (x * 4096 + y * 64 + z) div 64 mod 64 = y \<and>
         (x * 4096 + y * 64 + z) mod 64 = z"
proof -
  have e: "x * 4096 + y * 64 + z = (x * 64 + y) * 64 + z" by simp
  have d: "((x * 64 + y) * 64 + z) div 4096 = ((x * 64 + y) * 64 + z) div 64 div 64"
    by (simp add: div_mult2_eq [symmetric])
  show ?thesis
    unfolding e d using base64_2 [OF assms(1), of x] base64_2 [OF assms(2), of "x * 64 + y"] by simp
qed

lemma base64_4:
  fixes x y z u :: nat
  assumes "y < 64" and "z < 64" and "u < 64"
  shows "(x * 262144 + y * 4096 + z * 64 + u) div 262144 = x \<and>
         (x * 262144 + y * 4096 + z * 64 + u) div 4096 mod 64 = y \<and>
         (x * 262144 + y * 4096 + z * 64 + u) div 64 mod 64 = z \<and>
         (x * 262144 + y * 4096 + z * 64 + u) mod 64 = u"
proof -
  have e: "x * 262144 + y * 4096 + z * 64 + u = (x * 64 + y) * 4096 + z * 64 + u" by simp
  have d: "((x * 64 + y) * 4096 + z * 64 + u) div 262144
      = ((x * 64 + y) * 4096 + z * 64 + u) div 4096 div 64"
    by (simp add: div_mult2_eq [symmetric])
  show ?thesis
    unfolding e d using base64_2 [OF assms(1), of x] base64_3 [OF assms(2,3), of "x * 64 + y"] by simp
qed

lemma base64_split2: "\<exists>x y. (c :: nat) = x * 64 + y \<and> y < 64"
  by (intro exI [of _ "c div 64"] exI [of _ "c mod 64"]) simp

lemma base64_split3: "\<exists>x y z. (c :: nat) = x * 4096 + y * 64 + z \<and> y < 64 \<and> z < 64"
proof -
  obtain k z where "c = k * 64 + z" "z < 64" using base64_split2 [of c] by blast
  moreover obtain x y where "k = x * 64 + y" "y < 64" using base64_split2 [of k] by blast
  ultimately show ?thesis by (intro exI [of _ x] exI [of _ y] exI [of _ z]) simp
qed

lemma base64_split4:
  "\<exists>x y z u. (c :: nat) = x * 262144 + y * 4096 + z * 64 + u \<and> y < 64 \<and> z < 64 \<and> u < 64"
proof -
  obtain k z u where "c = k * 4096 + z * 64 + u" "z < 64" "u < 64" using base64_split3 [of c] by blast
  moreover obtain x y where "k = x * 64 + y" "y < 64" using base64_split2 [of k] by blast
  ultimately show ?thesis by (intro exI [of _ x] exI [of _ y] exI [of _ z] exI [of _ u]) simp
qed

lemma utf8_decode_2:
  assumes "2 \<le> x" and "x < 32" and "y < 64"
  shows "utf8_decode ((0xC0 + x) # (0x80 + y) # rest) = Some (x * 64 + y, rest)"
  using assms by (simp add: is_cont_def)

lemma utf8_decode_3:
  assumes "x < 16" and "y < 64" and "z < 64" and "x = 0 \<Longrightarrow> 0x20 \<le> y" and "x = 0xD \<Longrightarrow> y < 0x20"
  shows "utf8_decode ((0xE0 + x) # (0x80 + y) # (0x80 + z) # rest) = Some (x * 4096 + y * 64 + z, rest)"
  using assms by (auto simp: is_cont_def)

lemma utf8_decode_4:
  assumes "x < 5" and "y < 64" and "z < 64" and "u < 64"
    and "x = 0 \<Longrightarrow> 0x10 \<le> y" and "x = 4 \<Longrightarrow> y < 0x10"
  shows "utf8_decode ((0xF0 + x) # (0x80 + y) # (0x80 + z) # (0x80 + u) # rest)
           = Some (x * 262144 + y * 4096 + z * 64 + u, rest)"
  using assms by (auto simp: is_cont_def)

lemma utf8_encode_2:
  assumes "2 \<le> x" and "x < 32" and "y < 64"
  shows "utf8_encode (x * 64 + y) = [0xC0 + x, 0x80 + y]"
  using assms by (simp add: utf8_encode_def)

lemma utf8_encode_3:
  assumes "x < 16" and "y < 64" and "z < 64" and "x = 0 \<Longrightarrow> 0x20 \<le> y"
  shows "utf8_encode (x * 4096 + y * 64 + z) = [0xE0 + x, 0x80 + y, 0x80 + z]"
proof -
  have "0x800 \<le> x * 4096 + y * 64 + z" using assms by (cases "x = 0") linarith+
  with assms base64_3 [OF assms(2,3), of x] show ?thesis
    by (simp add: utf8_encode_def)
qed

lemma utf8_encode_4:
  assumes "y < 64" and "z < 64" and "u < 64" and "x = 0 \<Longrightarrow> 0x10 \<le> y"
  shows "utf8_encode (x * 262144 + y * 4096 + z * 64 + u)
           = [0xF0 + x, 0x80 + y, 0x80 + z, 0x80 + u]"
proof -
  have "0x10000 \<le> x * 262144 + y * 4096 + z * 64 + u" using assms by (cases "x = 0") linarith+
  with base64_4 [OF assms(1-3), of x] show ?thesis
    by (simp add: utf8_encode_def)
qed


lemma utf8_decode_encode:
  assumes c: "is_char c"
  shows "utf8_decode (utf8_encode c @ rest) = Some (c, rest)"
proof -
  consider "c < 0x80" | "0x80 \<le> c" "c < 0x800" | "0x800 \<le> c" "c < 0x10000" | "0x10000 \<le> c"
    by linarith
  then show ?thesis
  proof cases
    case 1
    then show ?thesis by (simp add: utf8_encode_def)
  next
    case 2
    obtain x y where "c = x * 64 + y" "y < 64" using base64_split2 [of c] by blast
    with 2 utf8_encode_2 [of x y] utf8_decode_2 [of x y] show ?thesis by simp
  next
    case 3
    obtain x y z where d: "c = x * 4096 + y * 64 + z" "y < 64" "z < 64"
      using base64_split3 [of c] by blast
    with 3 have x: "x < 16" "x = 0 \<Longrightarrow> 0x20 \<le> y" by auto
    from c d 3 have "x = 0xD \<Longrightarrow> y < 0x20" by (auto simp: is_char_def)
    with d x utf8_encode_3 [of x y z] utf8_decode_3 [of x y z] show ?thesis by simp
  next
    case 4
    obtain x y z u where d: "c = x * 262144 + y * 4096 + z * 64 + u" "y < 64" "z < 64" "u < 64"
      using base64_split4 [of c] by blast
    with 4 have x: "x = 0 \<Longrightarrow> 0x10 \<le> y" by auto
    from c d 4 have "x < 5" "x = 4 \<Longrightarrow> y < 0x10" by (auto simp: is_char_def)
    with d x utf8_encode_4 [of y z u x] utf8_decode_4 [of x y z u] show ?thesis by simp
  qed
qed

lemma is_cont_obtain:
  assumes "is_cont b"
  obtains y where "b = 0x80 + y" and "y < 64"
  using assms le_Suc_ex [of "0x80" b] by (auto simp: is_cont_def)

lemma utf8_decode_cases:
  assumes "utf8_decode bs = Some (c, rest)"
  obtains (one) "c < 0x80" "bs = c # rest"
  | (two) x y where "2 \<le> x" "x < 32" "y < 64" "c = x * 64 + y" "bs = (0xC0 + x) # (0x80 + y) # rest"
  | (three) x y z where "x < 16" "y < 64" "z < 64" "x = 0 \<Longrightarrow> 0x20 \<le> y" "x = 0xD \<Longrightarrow> y < 0x20"
      "c = x * 4096 + y * 64 + z" "bs = (0xE0 + x) # (0x80 + y) # (0x80 + z) # rest"
  | (four) x y z u where "x < 5" "y < 64" "z < 64" "u < 64" "x = 0 \<Longrightarrow> 0x10 \<le> y" "x = 4 \<Longrightarrow> y < 0x10"
      "c = x * 262144 + y * 4096 + z * 64 + u"
      "bs = (0xF0 + x) # (0x80 + y) # (0x80 + z) # (0x80 + u) # rest"
proof (cases bs)
  case Nil
  with assms show thesis by simp
next
  case (Cons b0 bs')
  consider "b0 < 0x80" | "0xC2 \<le> b0" "b0 < 0xE0" | "0xE0 \<le> b0" "b0 < 0xF0" | "0xF0 \<le> b0" "b0 < 0xF5"
    using assms Cons by (force split: if_splits)
  then show thesis
  proof cases
    case 1
    with assms Cons one show thesis by simp
  next
    case 2
    then obtain x where x: "b0 = 0xC0 + x" using le_Suc_ex [of "0xC0" b0] by auto
    from 2 assms Cons obtain b1 where bs': "bs' = b1 # rest" and "is_cont b1"
      and c: "c = (b0 - 0xC0) * 64 + (b1 - 0x80)"
      by (auto split: list.splits if_splits)
    from this(2) obtain y where "b1 = 0x80 + y" "y < 64" by (rule is_cont_obtain)
    with 2 x bs' c Cons two [of x y] show thesis by simp
  next
    case 3
    then obtain x where x: "b0 = 0xE0 + x" using le_Suc_ex [of "0xE0" b0] by auto
    from 3 assms Cons obtain b1 b2 where bs': "bs' = b1 # b2 # rest" and k: "is_cont b1" "is_cont b2"
      and r: "b0 = 0xE0 \<longrightarrow> 0xA0 \<le> b1" "b0 = 0xED \<longrightarrow> b1 < 0xA0"
      and c: "c = (b0 - 0xE0) * 4096 + (b1 - 0x80) * 64 + (b2 - 0x80)"
      by (auto split: list.splits if_splits)
    from k obtain y z where "b1 = 0x80 + y" "y < 64" "b2 = 0x80 + z" "z < 64"
      by (metis is_cont_obtain)
    with 3 x bs' c r Cons three [of x y z] show thesis by simp
  next
    case 4
    then obtain x where x: "b0 = 0xF0 + x" using le_Suc_ex [of "0xF0" b0] by auto
    from 4 assms Cons obtain b1 b2 b3 where bs': "bs' = b1 # b2 # b3 # rest"
      and k: "is_cont b1" "is_cont b2" "is_cont b3"
      and r: "b0 = 0xF0 \<longrightarrow> 0x90 \<le> b1" "b0 = 0xF4 \<longrightarrow> b1 < 0x90"
      and c: "c = (b0 - 0xF0) * 262144 + (b1 - 0x80) * 4096 + (b2 - 0x80) * 64 + (b3 - 0x80)"
      by (auto split: list.splits if_splits)
    from k obtain y z u where "b1 = 0x80 + y" "y < 64" "b2 = 0x80 + z" "z < 64" "b3 = 0x80 + u" "u < 64"
      by (metis is_cont_obtain)
    with 4 x bs' c r Cons four [of x y z u] show thesis by simp
  qed
qed

lemma utf8_encode_decode:
  assumes "utf8_decode bs = Some (c, rest)"
  shows "is_char c \<and> utf8_encode c @ rest = bs"
  using assms
proof (cases rule: utf8_decode_cases)
  case one
  then show ?thesis by (simp add: is_char_def utf8_encode_def)
next
  case (two x y)
  then show ?thesis by (simp add: utf8_encode_2 is_char_def)
next
  case (three x y z)
  then have "is_char c"
    by (cases "x < 13"; cases "x = 13") (auto simp: is_char_def)
  with three show ?thesis by (simp add: utf8_encode_3)
next
  case (four x y z u)
  then have "is_char c"
    by (cases "x = 0"; cases "x = 4") (auto simp: is_char_def)
  with four show ?thesis by (simp add: utf8_encode_4)
qed

lemma utf8_chars_encode:
  "list_all is_char s \<Longrightarrow> utf8_chars (concat (map utf8_encode s)) = Some s"
proof (induction s)
  case Nil
  then show ?case by (simp add: utf8_chars.simps)
next
  case (Cons c s)
  have "utf8_encode c \<noteq> []" by (simp add: utf8_encode_def)
  with Cons show ?case
    by (subst utf8_chars.simps) (simp add: utf8_decode_encode)
qed

lemma utf8_chars_sound:
  "utf8_chars bs = Some s \<Longrightarrow> list_all is_char s \<and> concat (map utf8_encode s) = bs"
proof (induction bs arbitrary: s rule: utf8_chars.induct)
  case (1 bs)
  show ?case
  proof (cases "bs = []")
    case True
    with "1.prems" show ?thesis by (simp add: utf8_chars.simps)
  next
    case False
    with "1.prems" obtain c rest s' where d: "utf8_decode bs = Some (c, rest)"
      and r: "utf8_chars rest = Some s'" and s: "s = c # s'"
      by (subst (asm) utf8_chars.simps) (auto split: option.splits)
    from "1.IH" [OF False d refl r] utf8_encode_decode [OF d] s show ?thesis by auto
  qed
qed

lemma from_utf8_as_bytes: "list_all is_char s \<Longrightarrow> from_utf8 (as_bytes s) = Some s"
proof -
  assume s: "list_all is_char s"
  then have "map (unat \<circ> (of_nat :: nat \<Rightarrow> u8)) (concat (map utf8_encode s)) =
      concat (map utf8_encode s)"
    by (intro map_idI)
       (auto simp: list_all_iff unat_of_nat dest!: bspec utf8_encode_byte)
  with utf8_chars_encode [OF s] show ?thesis by (simp add: from_utf8_def as_bytes_def)
qed

lemma as_bytes_from_utf8: "from_utf8 bs = Some s \<Longrightarrow> as_bytes s = bs \<and> list_all is_char s"
  unfolding from_utf8_def as_bytes_def
  by (auto dest!: utf8_chars_sound simp: comp_def)

lemma as_bytes_single: "1 \<le> length (as_bytes [c]) \<and> length (as_bytes [c]) \<le> 4"
  using length_utf8_encode [of c] by (simp add: as_bytes_def)

section \<open>Trimming\<close>

definition is_whitespace :: "rust_char \<Rightarrow> bool" where
  "is_whitespace c \<longleftrightarrow>
     (9 \<le> c \<and> c \<le> 13) \<or> c \<in> {0x20, 0x85, 0xA0, 0x1680} \<or> (0x2000 \<le> c \<and> c \<le> 0x200A) \<or>
     c \<in> {0x2028, 0x2029, 0x202F, 0x205F, 0x3000}"

definition trim :: "rust_string \<Rightarrow> rust_string" where
  "trim s = rev (dropWhile is_whitespace (rev (dropWhile is_whitespace s)))"

lemma trim_decomp:
  "\<exists>l r. s = l @ trim s @ r \<and> list_all is_whitespace l \<and> list_all is_whitespace r"
proof -
  define t where "t = dropWhile is_whitespace s"
  have "s = takeWhile is_whitespace s @ t"
    by (simp add: t_def)
  moreover have "t = trim s @ rev (takeWhile is_whitespace (rev t))"
    unfolding trim_def t_def [symmetric]
    by (metis rev_append rev_rev_ident takeWhile_dropWhile_id)
  moreover have "list_all is_whitespace (takeWhile is_whitespace s)"
    "list_all is_whitespace (rev (takeWhile is_whitespace (rev t)))"
    by (auto simp: list_all_iff dest: set_takeWhileD)
  ultimately show ?thesis by (metis append.assoc)
qed

lemma trim_ends:
  assumes "trim s \<noteq> []"
  shows "\<not> is_whitespace (hd (trim s)) \<and> \<not> is_whitespace (last (trim s))"
proof -
  define t where "t = dropWhile is_whitespace s"
  have tr: "trim s = rev (dropWhile is_whitespace (rev t))" by (simp add: trim_def t_def)
  with assms have "\<not> is_whitespace (last (trim s))"
    by (simp add: last_rev hd_dropWhile)
  moreover from assms tr have "t \<noteq> []" by auto
  then have "\<not> is_whitespace (hd t)" unfolding t_def by (rule hd_dropWhile)
  moreover have "hd (trim s) = hd t"
    by (metis assms tr hd_append2 rev_append rev_rev_ident takeWhile_dropWhile_id)
  ultimately show ?thesis by simp
qed

lemma trim_idem: "trim (trim s) = trim s"
proof (cases "trim s = []")
  case True
  then show ?thesis by (simp add: trim_def [of "[]"])
next
  case False
  with trim_ends [OF False] obtain c cs where c: "trim s = c # cs" "\<not> is_whitespace c"
    by (cases "trim s") auto
  from trim_ends [OF False] False have "\<not> is_whitespace (hd (rev (trim s)))"
    by (simp add: hd_rev)
  then have "dropWhile is_whitespace (rev (trim s)) = rev (trim s)"
    using False by (cases "rev (trim s)") auto
  moreover have "dropWhile is_whitespace (trim s) = trim s" using c by simp
  ultimately show ?thesis by (simp add: trim_def [of "trim s"])
qed

section \<open>Read-write locks\<close>

text \<open>
  \<open>lock_write\<close> is a statement that runs \<open>m\<close> while it holds the guard of
  \<open>lock.write().unwrap()\<close>, \<open>lock_read\<close> one with the guard of \<open>lock.read().unwrap()\<close>.
  \<open>poisoned\<close> reads the flag of the lock in the state, \<open>poison\<close> sets it.
\<close>

definition lock_write ::
  "('s \<Rightarrow> bool) \<Rightarrow> ('s \<Rightarrow> 's) \<Rightarrow> ('s, 'x, 'e, 'a) comp \<Rightarrow> ('s, 'x, 'e, 'a) comp" where
  "lock_write poisoned poison m s =
     (if poisoned s then (Panic Lock_Poisoned, s, [])
      else (case m s of
              (Panic p, s1, es) \<Rightarrow> (Panic p, poison s1, es)
            | z \<Rightarrow> z))"

definition lock_read :: "('s \<Rightarrow> bool) \<Rightarrow> ('s, 'x, 'e, 'a) comp \<Rightarrow> ('s, 'x, 'e, 'a) comp" where
  "lock_read poisoned m s = (if poisoned s then (Panic Lock_Poisoned, s, []) else m s)"

lemma post_lock_write [post_simps]:
  "post (lock_write poisoned poison m) s Q \<longleftrightarrow>
     (if poisoned s then Q (Panic Lock_Poisoned) s []
      else post m s (\<lambda>r s1 es. case r of Panic p \<Rightarrow> Q (Panic p) (poison s1) es | _ \<Rightarrow> Q r s1 es))"
  by (simp add: post_def lock_write_def split: prod.split outcome.split)

lemma post_lock_read [post_simps]:
  "post (lock_read poisoned m) s Q \<longleftrightarrow>
     (if poisoned s then Q (Panic Lock_Poisoned) s [] else post m s Q)"
  by (simp add: post_def lock_read_def)

context run_relation
begin

lemma keeps_lock_write:
  assumes m: "keeps R m" and poison: "\<And>s. R s [] (poison s)"
  shows "keeps R (lock_write poisoned poison m)"
proof (rule keepsI)
  fix s
  have "R s es (poison s1)" if "m s = (r, s1, es)" for r s1 es
    using R_trans [OF keepsD [OF m that] poison] by simp
  then show "post (lock_write poisoned poison m) s (\<lambda>r s' es. R s es s')"
    by (auto simp: post_simps R_refl split: outcome.split intro!: post_run dest: keepsD [OF m])
qed

lemma keeps_lock_read: "keeps R m \<Longrightarrow> keeps R (lock_read poisoned m)"
  by (rule keepsI) (auto simp: post_simps R_refl intro!: post_run dest: keepsD)

end

end
