(* ===== verification/Vhost.thy ===== *)
theory Vhost
  imports RustStd "HOL-Library.Sublist"
begin

text \<open>
  What both devices use of the crates around them: \<open>vhost-user-backend\<close> and
  \<open>virtio-queue\<close> (the virtqueues and their descriptor chains), \<open>vm-memory\<close> (the guest's
  memory) and \<open>vmm-sys-util\<close> (eventfds).  None of that code is in the repository, so it
  is a parameter: a record \<open>vhost\<close> of functions, one per method the devices call, each from
  the state \<open>'w\<close> of everything outside the two crates (the guest included) to an answer
  and the next state.  Nothing is assumed of them here; the theorems hold for every such
  record, and the few that need more say so in a hypothesis.

  Each call leaves an event in the trace of the computation (the list of \<open>comp\<close>), with
  its arguments and its answer.  What a device does to the guest is a statement about that
  trace: the descriptor chains it returns (\<open>used_on\<close>), where it writes guest memory
  (\<open>guarded_writes\<close>), when it notifies.

  The locales \<open>chain_loop\<close> and \<open>chain_loop_until\<close> are the contract of the
  \<open>for desc_chain in requests\<close> loops, \<open>queue_handler\<close> and \<open>in_order_handler\<close> that of the
  \<open>process_..._requests\<close> functions; the device theories interpret them for their own.
  What serving a queue, and serving an event with \<open>EVENT_IDX\<close>, then do to the guest is
  proved here once, as is that such an event is served in finitely many rounds when the
  guest has finitely many chains to add (\<open>supply_laws\<close>).
\<close>

section \<open>Handles and the interface record\<close>

text \<open>
  A virtqueue, a guest memory object and an eventfd are only passed on by the code: they are
  numbers.  Of a descriptor chain the code asks the head index and the descriptors; of a
  descriptor its address, its length and whether it is write-only.
\<close>

type_synonym vring = nat
type_synonym guest_memory = nat
type_synonym eventfd = nat

record desc_chain =
  head_index :: u16
  chain_handle :: nat

record descriptor =
  addr :: u64
  len :: u32
  is_write_only :: bool

datatype event_set = EventSet_IN | EventSet_Other u32

datatype wait_result = Stopped | Connection_Closed | Wait_Failed

record 'w vhost =
  queue_iter :: "vring \<Rightarrow> guest_memory \<Rightarrow> 'w \<Rightarrow> desc_chain list option \<times> 'w"
  chain_collect :: "desc_chain \<Rightarrow> 'w \<Rightarrow> descriptor list \<times> 'w"
  memory_read :: "desc_chain \<Rightarrow> u64 \<Rightarrow> nat \<Rightarrow> 'w \<Rightarrow> (nat \<Rightarrow> u8) option \<times> 'w"
  memory_write :: "desc_chain \<Rightarrow> u8 list \<Rightarrow> u64 \<Rightarrow> 'w \<Rightarrow> bool \<times> 'w"
  vring_add_used :: "vring \<Rightarrow> u16 \<Rightarrow> u32 \<Rightarrow> 'w \<Rightarrow> bool \<times> 'w"
  vring_signal_used_queue :: "vring \<Rightarrow> 'w \<Rightarrow> bool \<times> 'w"
  vring_disable_notification :: "vring \<Rightarrow> 'w \<Rightarrow> bool \<times> 'w"
  vring_enable_notification :: "vring \<Rightarrow> 'w \<Rightarrow> bool option \<times> 'w"
  vring_get_kick :: "vring \<Rightarrow> 'w \<Rightarrow> bool \<times> 'w"
  eventfd_new :: "'w \<Rightarrow> eventfd option \<times> 'w"
  eventfd_write :: "eventfd \<Rightarrow> u64 \<Rightarrow> 'w \<Rightarrow> bool \<times> 'w"
  eventfd_read :: "eventfd \<Rightarrow> 'w \<Rightarrow> u64 option \<times> 'w"
  register_listener :: "eventfd \<Rightarrow> event_set \<Rightarrow> u64 \<Rightarrow> 'w \<Rightarrow> bool \<times> 'w"
  daemon_new :: "rust_string \<Rightarrow> 'w \<Rightarrow> bool \<times> 'w"
  daemon_epoll_handlers :: "'w \<Rightarrow> nat \<times> 'w"
  listener_new :: "rust_string \<Rightarrow> bool \<Rightarrow> 'w \<Rightarrow> bool \<times> 'w"
  daemon_start :: "'w \<Rightarrow> bool \<times> 'w"
  daemon_wait :: "'w \<Rightarrow> wait_result \<times> 'w"

record 'w sys =
  world :: 'w

datatype 'x event =
    Queue_Iter vring "desc_chain list option"
  | Chain_Collect desc_chain "descriptor list"
  | Memory_Read desc_chain u64 nat "u8 list option"
  | Memory_Write desc_chain "u8 list" u64 bool
  | Add_Used vring u16 u32 bool
  | Signal_Used vring bool
  | Disable_Notification vring bool
  | Enable_Notification vring "bool option"
  | Get_Kick vring bool
  | Eventfd_New "eventfd option"
  | Eventfd_Write eventfd u64 bool
  | Eventfd_Read eventfd "u64 option"
  | Register_Listener eventfd event_set u64 bool
  | Daemon_New rust_string bool
  | Epoll_Handlers nat
  | Listener_New rust_string bool bool
  | Daemon_Start bool
  | Daemon_Wait wait_result
  | Thread_Spawn
  | Device 'x

section \<open>Feature bits\<close>

text \<open>
  The bit numbers of \<open>virtio-bindings\<close> and the bits of the \<open>vhost\<close> crate that the devices
  offer are parameters; \<open>documented_bindings\<close> are the numbers of the standards.
\<close>

record bindings =
  VIRTIO_F_VERSION_1 :: nat
  VIRTIO_F_NOTIFY_ON_EMPTY :: nat
  VIRTIO_RING_F_EVENT_IDX :: nat
  VIRTIO_RING_F_INDIRECT_DESC :: nat
  PROTOCOL_FEATURES :: u64
  PROTOCOL_MQ :: u64
  PROTOCOL_CONFIG :: u64
  PROTOCOL_REPLY_ACK :: u64

definition documented_bindings :: "bindings \<Rightarrow> bool" where
  "documented_bindings B \<longleftrightarrow>
     VIRTIO_F_VERSION_1 B = 32 \<and> VIRTIO_F_NOTIFY_ON_EMPTY B = 24 \<and>
     VIRTIO_RING_F_EVENT_IDX B = 29 \<and> VIRTIO_RING_F_INDIRECT_DESC B = 28 \<and>
     PROTOCOL_FEATURES B = push_bit 30 1"

lemma single_bit: "bit (push_bit k 1 :: u64) n \<longleftrightarrow> n = k \<and> k < 64"
  by (auto simp: push_bit_of_1 bit_exp_iff possible_bit_def)

definition example_bindings :: bindings where
  "example_bindings = \<lparr>VIRTIO_F_VERSION_1 = 32, VIRTIO_F_NOTIFY_ON_EMPTY = 24,
     VIRTIO_RING_F_EVENT_IDX = 29, VIRTIO_RING_F_INDIRECT_DESC = 28,
     PROTOCOL_FEATURES = 0x40000000, PROTOCOL_MQ = 1, PROTOCOL_CONFIG = 0x200,
     PROTOCOL_REPLY_ACK = 8\<rparr>"

lemma example_bindings_documented: "documented_bindings example_bindings"
  by (simp add: documented_bindings_def example_bindings_def)

section \<open>Calls out of the crate\<close>

definition ext ::
  "('w \<Rightarrow> 'a \<times> 'w) \<Rightarrow> ('a \<Rightarrow> 'x) \<Rightarrow> (('w, 'z) sys_scheme, 'x, 'e, 'a) comp" where
  "ext f mk s = (case f (world s) of (a, w) \<Rightarrow> (Ok a, s\<lparr>world := w\<rparr>, [mk a]))"

text \<open>
  \<open>read_mem\<close> is \<open>Bytes::read_obj\<close> or \<open>read_slice\<close>: the answer of the memory is
  the byte at each offset, so the bytes read are always as many as asked for.
\<close>

definition iter_queue where
  "iter_queue H v m = ext (queue_iter H v m) (Queue_Iter v)"

definition collect_chain where
  "collect_chain H c = ext (chain_collect H c) (Chain_Collect c)"

definition read_mem where
  "read_mem H c a n =
     ext (\<lambda>w. case memory_read H c a n w of
            (x, w') \<Rightarrow> (map_option (\<lambda>f. map f [0..<n]) x, w'))
         (Memory_Read c a n)"

definition write_slice where
  "write_slice H c bs a = ext (memory_write H c bs a) (Memory_Write c bs a)"

definition add_used where
  "add_used H v h n = ext (vring_add_used H v h n) (Add_Used v h n)"

definition signal_used_queue where
  "signal_used_queue H v = ext (vring_signal_used_queue H v) (Signal_Used v)"

definition disable_notification where
  "disable_notification H v = ext (vring_disable_notification H v) (Disable_Notification v)"

definition enable_notification where
  "enable_notification H v = ext (vring_enable_notification H v) (Enable_Notification v)"

definition get_kick where
  "get_kick H v = ext (vring_get_kick H v) (Get_Kick v)"

definition new_eventfd where
  "new_eventfd H = ext (eventfd_new H) Eventfd_New"

definition write_eventfd where
  "write_eventfd H fd n = ext (eventfd_write H fd n) (Eventfd_Write fd n)"

definition read_eventfd where
  "read_eventfd H fd = ext (eventfd_read H fd) (Eventfd_Read fd)"

definition listen where
  "listen H fd ev d = ext (register_listener H fd ev d) (Register_Listener fd ev d)"

definition new_daemon where
  "new_daemon H name = ext (daemon_new H name) (Daemon_New name)"

definition epoll_handlers where
  "epoll_handlers H = ext (daemon_epoll_handlers H) Epoll_Handlers"

definition new_listener where
  "new_listener H path unlink = ext (listener_new H path unlink) (Listener_New path unlink)"

definition start_daemon where
  "start_daemon H = ext (daemon_start H) Daemon_Start"

definition wait_daemon where
  "wait_daemon H = ext (daemon_wait H) Daemon_Wait"

text \<open>Starting a thread: what it does is not part of this computation.\<close>

definition spawn :: "('s, 'x event, 'e, unit) comp" where
  "spawn s = (Ok (), s, [Thread_Spawn])"

lemmas daemon_calls =
  new_daemon_def epoll_handlers_def new_listener_def start_daemon_def wait_daemon_def

lemmas vhost_calls =
  iter_queue_def collect_chain_def read_mem_def write_slice_def add_used_def
  signal_used_queue_def disable_notification_def enable_notification_def get_kick_def
  new_eventfd_def write_eventfd_def read_eventfd_def listen_def

lemma post_ext [post_simps]:
  "post (ext f mk) s Q \<longleftrightarrow>
     (case f (world s) of (a, w) \<Rightarrow> Q (Ok a) (s\<lparr>world := w\<rparr>) [mk a])"
  by (simp add: post_def ext_def split: prod.split)

lemma post_spawn [post_simps]: "post spawn s Q \<longleftrightarrow> Q (Ok ()) s [Thread_Spawn]"
  by (simp add: post_def spawn_def)

lemma post_extI:
  "(\<And>a w. f (world s) = (a, w) \<Longrightarrow> Q (Ok a) (s\<lparr>world := w\<rparr>) [mk a]) \<Longrightarrow> post (ext f mk) s Q"
  by (simp add: post_simps split: prod.split)

lemma keeps_ext: "(\<And>s a w. R s [mk a] (s\<lparr>world := w\<rparr>)) \<Longrightarrow> keeps R (ext f mk)"
  by (rule keepsI) (simp add: post_simps split: prod.split)

lemma emit_ext: "(\<And>a. P (mk a)) \<Longrightarrow> keeps (emitting P) (ext f mk)"
  by (rule keeps_ext) (simp add: emitting_def)

text \<open>
  The bytes a read returns are as many as asked for.
\<close>

lemma post_read_mem:
  assumes "\<And>x w. (\<And>bs. x = Some bs \<Longrightarrow> length bs = n) \<Longrightarrow>
      Q (Ok x) (s\<lparr>world := w\<rparr>) [Memory_Read c a n x]"
  shows "post (read_mem H c a n) s Q"
  unfolding read_mem_def
proof (rule post_extI, clarsimp split: prod.splits)
  fix x w
  show "Q (Ok (map_option (\<lambda>f. map f [0..<n]) x)) (s\<lparr>world := w\<rparr>)
      [Memory_Read c a n (map_option (\<lambda>f. map f [0..<n]) x)]"
    by (rule assms) auto
qed

section \<open>What a trace says of the guest\<close>

text \<open>
  \<open>used_on v es\<close>: the heads of the chains returned on queue \<open>v\<close>, in order.
  \<open>guarded_writes seen es\<close>: every write to guest memory starts at the address of a
  write-only descriptor that the device got from the same chain before.
\<close>

fun used_on :: "vring \<Rightarrow> 'x event list \<Rightarrow> u16 list" where
  "used_on v [] = []"
| "used_on v (Add_Used v' h n ok # es) = (if v' = v then h # used_on v es else used_on v es)"
| "used_on v (_ # es) = used_on v es"

lemma used_on_append [simp]: "used_on v (es @ es') = used_on v es @ used_on v es'"
  by (induction v es rule: used_on.induct) auto

lemma used_on_none: "list_all (\<lambda>e. \<forall>h n ok. e \<noteq> Add_Used v h n ok) es \<Longrightarrow> used_on v es = []"
  by (induction v es rule: used_on.induct) auto

fun guarded_writes :: "(desc_chain \<times> descriptor list) set \<Rightarrow> 'x event list \<Rightarrow> bool" where
  "guarded_writes seen [] = True"
| "guarded_writes seen (Chain_Collect c ds # es) = guarded_writes (insert (c, ds) seen) es"
| "guarded_writes seen (Memory_Write c bs a ok # es) =
     ((\<exists>(c', ds) \<in> seen. c' = c \<and> (\<exists>d \<in> set ds. is_write_only d \<and> addr d = a))
      \<and> guarded_writes seen es)"
| "guarded_writes seen (_ # es) = guarded_writes seen es"

lemma guarded_writes_mono:
  "guarded_writes seen es \<Longrightarrow> seen \<subseteq> seen' \<Longrightarrow> guarded_writes seen' es"
proof (induction seen es arbitrary: seen' rule: guarded_writes.induct)
  case (2 seen c ds es)
  then show ?case by (metis guarded_writes.simps(2) insert_mono)
next
  case (3 seen c bs a ok es)
  then show ?case by (simp, blast)
qed simp_all

lemma guarded_writes_append:
  "guarded_writes seen es \<Longrightarrow> guarded_writes {} es' \<Longrightarrow> guarded_writes seen (es @ es')"
  by (induction seen es rule: guarded_writes.induct) (auto intro: guarded_writes_mono)

text \<open>What is written to guest memory, and how often the device looks for new chains.\<close>

fun written :: "'x event list \<Rightarrow> u8 list list" where
  "written [] = []"
| "written (Memory_Write c bs a True # es) = bs # written es"
| "written (_ # es) = written es"

lemma written_append [simp]: "written (es @ es') = written es @ written es'"
  by (induction es rule: written.induct) auto

fun looks_at :: "vring \<Rightarrow> 'x event list \<Rightarrow> nat" where
  "looks_at v [] = 0"
| "looks_at v (Queue_Iter v' cs # es) = (if v' = v then Suc (looks_at v es) else looks_at v es)"
| "looks_at v (_ # es) = looks_at v es"

lemma looks_at_append [simp]: "looks_at v (es @ es') = looks_at v es + looks_at v es'"
  by (induction v es rule: looks_at.induct) auto

section \<open>The loop over the descriptor chains of a queue\<close>

text \<open>
  The contract of one round: it returns its own chain on the queue \<open>vr\<close>, once, exactly when
  it goes on to the next, and it writes guest memory only through write-only descriptors.
  What the whole loop then does is proved once.
\<close>

locale chain_loop_until =
  fixes body :: "desc_chain \<Rightarrow> ('s, 'x event, 'e, 'v option) comp"
    and vr :: vring
  assumes body_used:
      "body c s = (r, s', es) \<Longrightarrow> used_on vr es = (if r = Ok None then [head_index c] else [])"
    and body_writes: "body c s = (r, s', es) \<Longrightarrow> guarded_writes {} es"
begin

lemma loop_used:
  "mfor_until body cs s = (r, s', es) \<Longrightarrow>
     \<exists>k \<le> length cs. used_on vr es = map head_index (take k cs) \<and> (r = Ok None \<longleftrightarrow> k = length cs)"
proof (induction cs arbitrary: s es)
  case Nil
  then show ?case by (simp add: ret_def)
next
  case (Cons c cs)
  obtain r1 s1 es1 where b: "body c s = (r1, s1, es1)" by (cases "body c s") auto
  show ?case
  proof (cases "r1 = Ok None")
    case True
    with Cons.prems b obtain es2 where rest: "mfor_until body cs s1 = (r, s', es2)"
      and es: "es = es1 @ es2" by (auto simp: bind_def split: prod.splits)
    from Cons.IH [OF rest] obtain k where "k \<le> length cs"
      "used_on vr es2 = map head_index (take k cs)" "r = Ok None \<longleftrightarrow> k = length cs" by blast
    with body_used [OF b] True es show ?thesis by (intro exI [of _ "Suc k"]) simp
  next
    case False
    with Cons.prems b have "es = es1 \<and> r \<noteq> Ok None"
      by (auto simp: bind_def ret_def split: prod.splits outcome.splits option.splits)
    with body_used [OF b] False show ?thesis by (intro exI [of _ 0]) simp
  qed
qed

lemma loop_used_all: "mfor_until body cs s = (Ok None, s', es) \<Longrightarrow> used_on vr es = map head_index cs"
  using loop_used [of cs s "Ok None" s' es] by auto

lemma loop_writes: "mfor_until body cs s = (r, s', es) \<Longrightarrow> guarded_writes {} es"
proof (induction cs arbitrary: s es)
  case Nil
  then show ?case by (simp add: ret_def)
next
  case (Cons c cs)
  obtain r1 s1 es1 where b: "body c s = (r1, s1, es1)" by (cases "body c s") auto
  show ?case
  proof (cases "r1 = Ok None")
    case True
    with Cons.prems b obtain es2 where rest: "mfor_until body cs s1 = (r, s', es2)"
      and es: "es = es1 @ es2" by (auto simp: bind_def split: prod.splits)
    from body_writes [OF b] Cons.IH [OF rest] es show ?thesis
      by (simp add: guarded_writes_append)
  next
    case False
    with Cons.prems b have "es = es1"
      by (auto simp: bind_def ret_def split: prod.splits outcome.splits option.splits)
    with body_writes [OF b] show ?thesis by simp
  qed
qed

end

locale chain_loop =
  fixes body :: "desc_chain \<Rightarrow> ('s, 'x event, 'e, unit) comp"
    and vr :: vring
  assumes used: "body c s = (r, s', es) \<Longrightarrow> used_on vr es = (if r = Ok () then [head_index c] else [])"
    and writes: "body c s = (r, s', es) \<Longrightarrow> guarded_writes {} es"

sublocale chain_loop \<subseteq> until: chain_loop_until "\<lambda>c. bind (body c) (\<lambda>_. ret (None :: unit option))" vr
proof
  fix c s r s' es
  assume "bind (body c) (\<lambda>_. ret (None :: unit option)) s = (r, s', es)"
  then obtain r' where run: "body c s = (r', s', es)" and r: "r = Ok None \<longleftrightarrow> r' = Ok ()"
    by (auto simp: bind_def ret_def split: prod.splits outcome.splits)
  show "used_on vr es = (if r = Ok None then [head_index c] else [])"
    using used [OF run] r by simp
  show "guarded_writes {} es" by (rule writes [OF run])
qed

context chain_loop
begin

lemma mfor_used:
  assumes "mfor body cs s = (r, s', es)"
  shows "\<exists>k \<le> length cs. used_on vr es = map head_index (take k cs) \<and> (r = Ok () \<longleftrightarrow> k = length cs)"
proof -
  obtain r1 where run: "mfor_until (\<lambda>c. bind (body c) (\<lambda>_. ret (None :: unit option))) cs s = (r1, s', es)"
    and r: "r = Ok () \<longleftrightarrow> (\<exists>v. r1 = Ok v)"
    using assms by (auto simp: mfor_def bind_def [of "mfor_until _ _"] ret_def
        split: prod.splits outcome.splits)
  have "r1 = Ok v \<Longrightarrow> v = None" for v
    using run
    by (induction cs arbitrary: s es)
       (auto simp: bind_def ret_def split: prod.splits outcome.splits option.splits)
  with until.loop_used [OF run] r show ?thesis by blast
qed

lemma mfor_writes: "mfor body cs s = (r, s', es) \<Longrightarrow> guarded_writes {} es"
  by (auto simp: mfor_def bind_def [of "mfor_until _ _"] ret_def
      dest: until.loop_writes split: prod.splits outcome.splits)

end

section \<open>Serving a queue\<close>

text \<open>
  The body that all the \<open>process_..._queue\<close> functions share: collect the available chains
  with the memory object of the device, hand them to the handler of the queue, and notify
  the guest when it answers \<open>true\<close>.  \<open>not_found\<close> and \<open>failed\<close> are the errors
  \<open>DescriptorNotFound\<close> and \<open>NotificationFailed\<close> of the device.
\<close>

definition serve_queue ::
  "('w, 'y) vhost_scheme \<Rightarrow> (('w, 'z) sys_scheme \<Rightarrow> guest_memory option) \<Rightarrow> 'e \<Rightarrow> 'e \<Rightarrow>
   (desc_chain list \<Rightarrow> vring \<Rightarrow> (('w, 'z) sys_scheme, 'x event, 'e, bool) comp) \<Rightarrow> vring \<Rightarrow>
   (('w, 'z) sys_scheme, 'x event, 'e, unit) comp" where
  "serve_queue H mem not_found failed handler vr =
     bind (get mem) (\<lambda>m.
     bind (unwrap Unwrap_None m) (\<lambda>m.
     bind (iter_queue H vr m) (\<lambda>requests.
     bind (ok_or not_found requests) (\<lambda>requests.
     bind (handler requests vr) (\<lambda>notify.
     if notify then
       bind (signal_used_queue H vr) (\<lambda>ok.
       ensure ok failed)
     else ret ())))))"

section \<open>Serving an event with or without \<open>EVENT_IDX\<close>\<close>

text \<open>
  The tail of both \<open>handle_event\<close> functions: with \<open>event_idx\<close> the queue is served again
  until \<open>enable_notification\<close> answers that nothing new is there; without it, once.
\<close>

definition event_idx_round ::
  "('w, 'y) vhost_scheme \<Rightarrow> vring \<Rightarrow> (('w, 'z) sys_scheme, 'x event, 'e, unit) comp \<Rightarrow>
   (('w, 'z) sys_scheme, 'x event, 'e, unit option) comp" where
  "event_idx_round H v serve =
     bind (disable_notification H v) (\<lambda>ok.
     bind (unwrap_ok ok) (\<lambda>_.
     bind serve (\<lambda>_.
     bind (enable_notification H v) (\<lambda>more.
     bind (unwrap Unwrap_Err more) (\<lambda>more.
     ret (if more then None else Some ()))))))"

definition serve_event ::
  "('w, 'y) vhost_scheme \<Rightarrow> bool \<Rightarrow> vring \<Rightarrow> (('w, 'z) sys_scheme, 'x event, 'e, unit) comp \<Rightarrow>
   ('w, 'z) sys_scheme \<Rightarrow> (('w, 'z) sys_scheme, 'x event, 'e, unit) run" where
  "serve_event H event_idx v serve s =
     (if event_idx then rust_loop (event_idx_round H v serve) s else Some (serve s))"

text \<open>
  Returning from \<open>handle_event\<close>: the value of a run that ends is mapped on.
\<close>

definition then_ret :: "('s, 'x, 'e, unit) run \<Rightarrow> 'a \<Rightarrow> ('s, 'x, 'e, 'a) run" where
  "then_ret z a =
     map_option (\<lambda>(r, s, es). (case r of Ok _ \<Rightarrow> Ok a | Err e \<Rightarrow> Err e | Panic p \<Rightarrow> Panic p, s, es)) z"

lemma then_ret_cases:
  assumes "then_ret z a = Some (r, s, es)"
  obtains r0 where "z = Some (r0, s, es)" and "r = Ok a \<longleftrightarrow> r0 = Ok ()"
proof -
  from assms obtain r0 where "z = Some (r0, s, es)"
    and "r = (case r0 of Ok _ \<Rightarrow> Ok a | Err e \<Rightarrow> Err e | Panic p \<Rightarrow> Panic p)"
    by (auto simp: then_ret_def)
  then show thesis by (cases r0) (auto intro: that)
qed

section \<open>Rules for these parts\<close>

lemma guarded_device [simp]:
  "guarded_writes seen (map Device es @ es') = guarded_writes seen es'"
  "guarded_writes seen (map Device es)"
  by (induction es) auto

lemma used_device [simp]: "used_on v (map Device es) = []"
  by (induction es) auto

text \<open>The ways a run of \<open>serve_queue\<close> can go, and the calls it makes in each.\<close>

lemma post_serve_queue:
  assumes "mem s = None \<Longrightarrow> Q (Panic Unwrap_None) s []"
    and "\<And>w. Q (Err not_found) (s\<lparr>world := w\<rparr>) [Queue_Iter vr None]"
    and "\<And>requests w s1 es1 ok w'. handler requests vr (s\<lparr>world := w\<rparr>) = (Ok True, s1, es1) \<Longrightarrow>
      Q (if ok then Ok () else Err failed) (s1\<lparr>world := w'\<rparr>)
        (Queue_Iter vr (Some requests) # es1 @ [Signal_Used vr ok])"
    and "\<And>requests w r1 s1 es1. handler requests vr (s\<lparr>world := w\<rparr>) = (r1, s1, es1) \<Longrightarrow>
      r1 \<noteq> Ok True \<Longrightarrow>
      Q (case r1 of Ok _ \<Rightarrow> Ok () | Err e \<Rightarrow> Err e | Panic p \<Rightarrow> Panic p) s1
        (Queue_Iter vr (Some requests) # es1)"
  shows "post (serve_queue H mem not_found failed handler vr) s Q"
  unfolding serve_queue_def vhost_calls
  by (simp add: post_simps split: prod.split option.split, intro allI impI conjI)
     (auto simp: bind_def ext_def ensure_def ret_def fail_def
        intro!: assms(1,2) post_run split: prod.splits outcome.splits option.splits if_splits
        dest: assms(3) [where ok = True, simplified] assms(3) [where ok = False, simplified] assms(4))

text \<open>How often a trace notifies the guest of queue \<open>v\<close>.\<close>

fun signals_on :: "vring \<Rightarrow> 'x event list \<Rightarrow> nat" where
  "signals_on v [] = 0"
| "signals_on v (Signal_Used v' ok # es) = (if v' = v then Suc (signals_on v es) else signals_on v es)"
| "signals_on v (_ # es) = signals_on v es"

lemma signals_on_append [simp]: "signals_on v (es @ es') = signals_on v es + signals_on v es'"
  by (induction v es rule: signals_on.induct) auto

text \<open>
  When does the loop of \<open>EVENT_IDX\<close> end?  Each time \<open>enable_notification\<close> answers that
  there is more, the guest has made new chains available.  \<open>supply_laws\<close> says that it has
  only so many to give while the handler runs: \<open>\<mu>\<close> counts what it may still add.
\<close>

definition supply_laws :: "('w, 'y) vhost_scheme \<Rightarrow> ('w \<Rightarrow> nat) \<Rightarrow> bool" where
  "supply_laws H \<mu> \<longleftrightarrow>
     (\<forall>v m w. \<mu> (snd (queue_iter H v m w)) \<le> \<mu> w) \<and>
     (\<forall>c w. \<mu> (snd (chain_collect H c w)) \<le> \<mu> w) \<and>
     (\<forall>c a n w. \<mu> (snd (memory_read H c a n w)) \<le> \<mu> w) \<and>
     (\<forall>c bs a w. \<mu> (snd (memory_write H c bs a w)) \<le> \<mu> w) \<and>
     (\<forall>v h n w. \<mu> (snd (vring_add_used H v h n w)) \<le> \<mu> w) \<and>
     (\<forall>v w. \<mu> (snd (vring_signal_used_queue H v w)) \<le> \<mu> w) \<and>
     (\<forall>v w. \<mu> (snd (vring_disable_notification H v w)) \<le> \<mu> w) \<and>
     (\<forall>v w. \<mu> (snd (vring_enable_notification H v w)) \<le> \<mu> w) \<and>
     (\<forall>v w. \<mu> (snd (vring_get_kick H v w)) \<le> \<mu> w) \<and>
     (\<forall>fd n w. \<mu> (snd (eventfd_write H fd n w)) \<le> \<mu> w) \<and>
     (\<forall>fd w. \<mu> (snd (eventfd_read H fd w)) \<le> \<mu> w) \<and>
     (\<forall>v w w'. vring_enable_notification H v w = (Some True, w') \<longrightarrow> \<mu> w' < \<mu> w)"

definition supply_shrinks ::
  "('w \<Rightarrow> nat) \<Rightarrow> ('w, 'z) sys_scheme \<Rightarrow> 'x list \<Rightarrow> ('w, 'z) sys_scheme \<Rightarrow> bool" where
  "supply_shrinks \<mu> s es s' \<longleftrightarrow> \<mu> (world s') \<le> \<mu> (world s)"

interpretation shrink: run_relation "supply_shrinks \<mu>" for \<mu>
  by unfold_locales (simp_all add: supply_shrinks_def)

lemma supply_ext: "(\<And>w. \<mu> (snd (f w)) \<le> \<mu> w) \<Longrightarrow> keeps (supply_shrinks \<mu>) (ext f mk)"
  by (rule keepsI) (simp add: post_simps supply_shrinks_def split: prod.split, metis snd_conv)

lemma supply_vhost:
  assumes "supply_laws H \<mu>"
  shows "keeps (supply_shrinks \<mu>) (iter_queue H v m)" "keeps (supply_shrinks \<mu>) (collect_chain H c)"
    "keeps (supply_shrinks \<mu>) (read_mem H c a n)" "keeps (supply_shrinks \<mu>) (write_slice H c bs a)"
    "keeps (supply_shrinks \<mu>) (add_used H v h l)" "keeps (supply_shrinks \<mu>) (signal_used_queue H v)"
    "keeps (supply_shrinks \<mu>) (disable_notification H v)"
    "keeps (supply_shrinks \<mu>) (enable_notification H v)" "keeps (supply_shrinks \<mu>) (get_kick H v)"
    "keeps (supply_shrinks \<mu>) (write_eventfd H fd k)" "keeps (supply_shrinks \<mu>) (read_eventfd H fd)"
  using assms
  by (auto simp: vhost_calls supply_laws_def split_beta intro!: supply_ext)

lemma shrink_serve_queue:
  assumes "supply_laws H \<mu>" and "\<And>cs. keeps (supply_shrinks \<mu>) (handler cs vr)"
  shows "keeps (supply_shrinks \<mu>) (serve_queue H mem nf failed handler vr)"
  unfolding serve_queue_def by (intro shrink.keeps_rules supply_vhost [OF assms(1)] assms(2))

lemma event_idx_round_shrinks:
  assumes laws: "supply_laws H \<mu>" and serve: "keeps (supply_shrinks \<mu>) serve"
    and run: "event_idx_round H v serve s = (Ok None, s', es)"
  shows "\<mu> (world s') < \<mu> (world s)"
proof -
  have d: "\<mu> (snd (vring_disable_notification H v w)) \<le> \<mu> w"
    and e: "vring_enable_notification H v w = (Some True, w') \<Longrightarrow> \<mu> w' < \<mu> w" for w w'
    using laws by (auto simp: supply_laws_def)
  from run obtain w1 s2 es2 w3
    where "vring_disable_notification H v (world s) = (True, w1)"
      and s2: "serve (s\<lparr>world := w1\<rparr>) = (Ok (), s2, es2)"
      and "vring_enable_notification H v (world s2) = (Some True, w3)" and "s' = s2\<lparr>world := w3\<rparr>"
    by (auto simp: event_idx_round_def vhost_calls bind_def ext_def unwrap_ok_def unwrap_def
        ret_def panic_def split: prod.splits outcome.splits option.splits if_splits)
  with d [of "world s"] e [of "world s2" w3] keepsD [OF serve s2] show ?thesis
    by (simp add: supply_shrinks_def)
qed

lemma serve_event_returns:
  assumes "supply_laws H \<mu>" and "keeps (supply_shrinks \<mu>) serve"
  shows "\<exists>z. serve_event H idx v serve s = Some z"
proof (cases idx)
  case True
  have "\<exists>z. rust_loop (event_idx_round H v serve) s = Some z"
    by (rule rust_loop_terminates [where I = "\<lambda>_. True" and \<mu> = "\<lambda>s. \<mu> (world s)"])
       (use event_idx_round_shrinks [OF assms] in auto)
  with True show ?thesis by (simp add: serve_event_def)
next
  case False
  then show ?thesis by (cases "serve s" rule: prod_cases3) (simp add: serve_event_def)
qed

text \<open>What the handlers keep, the serving of a queue and of an event keeps.\<close>

lemma keeps_serve_queue:
  assumes "run_relation R" and "\<And>rs. keeps R (handler rs vr)"
    and "\<And>s x w. R s [Queue_Iter vr x] (s\<lparr>world := w\<rparr>)"
    and "\<And>s x w. R s [Signal_Used vr x] (s\<lparr>world := w\<rparr>)"
  shows "keeps R (serve_queue H mem nf failed handler vr)"
  unfolding serve_queue_def vhost_calls
  by (intro run_relation.keeps_rules [OF assms(1)] keeps_ext assms(2-))

lemma keeps_event_idx_round:
  assumes "run_relation R" and "keeps R serve"
    and "\<And>s x w. R s [Disable_Notification v x] (s\<lparr>world := w\<rparr>)"
    and "\<And>s x w. R s [Enable_Notification v x] (s\<lparr>world := w\<rparr>)"
  shows "keeps R (event_idx_round H v serve)"
  unfolding event_idx_round_def vhost_calls
  by (intro run_relation.keeps_rules [OF assms(1)] keeps_ext assms(2-))

lemma keeps_serve_event:
  assumes "serve_event H idx v serve s = Some (r, s', es)" and R: "run_relation R"
    and serve: "keeps R serve"
    and notification: "\<And>s x w. R s [Disable_Notification v x] (s\<lparr>world := w\<rparr>)"
      "\<And>s x w. R s [Enable_Notification v x] (s\<lparr>world := w\<rparr>)"
  shows "R s es s'"
proof (cases idx)
  case True
  with assms(1) have "rust_loop (event_idx_round H v serve) s = Some (r, s', es)"
    by (simp add: serve_event_def)
  with keeps_event_idx_round [OF R serve notification] show ?thesis
    by (rule run_relation.keeps_loop [OF R])
next
  case False
  with assms(1) have "serve s = (r, s', es)" by (simp add: serve_event_def)
  with serve show ?thesis by (rule keepsD)
qed

section \<open>The contract of a queue handler\<close>

text \<open>
  \<open>offered_on v es\<close>: the heads of the chains that the guest had made available on queue \<open>v\<close>
  when the device asked for them, in order.

  A handler of a queue returns chains it was given, in their order and each at most once, and
  writes only where the guest said it may (\<open>queue_handler\<close>).  A handler that works in order
  (\<open>in_order_handler\<close>) skips none of them, and has returned all when it succeeds.
\<close>

fun offered_on :: "vring \<Rightarrow> 'x event list \<Rightarrow> u16 list" where
  "offered_on v [] = []"
| "offered_on v (Queue_Iter v' (Some cs) # es) =
     (if v' = v then map head_index cs @ offered_on v es else offered_on v es)"
| "offered_on v (_ # es) = offered_on v es"

lemma offered_on_append [simp]: "offered_on v (es @ es') = offered_on v es @ offered_on v es'"
  by (induction v es rule: offered_on.induct) auto

lemma offered_device [simp]: "offered_on v (map Device es) = []"
  by (induction es) auto

locale queue_handler =
  fixes handler :: "desc_chain list \<Rightarrow> vring \<Rightarrow> (('w, 'z) sys_scheme, 'x event, 'e, bool) comp"
    and vr :: vring
  assumes handler_used: "handler cs vr s = (r, s', es) \<Longrightarrow> subseq (used_on vr es) (map head_index cs)"
    and handler_offered: "handler cs vr s = (r, s', es) \<Longrightarrow> offered_on vr es = []"
    and handler_writes: "handler cs vr s = (r, s', es) \<Longrightarrow> guarded_writes {} es"
begin

lemma serve_used:
  assumes "serve_queue H mem nf failed handler vr s = (r, s', es)"
  shows "subseq (used_on vr es) (offered_on vr es)"
proof (rule postD [OF post_serve_queue assms])
  fix requests w s1 es1 ok w'
  assume "handler requests vr (s\<lparr>world := w\<rparr>) = (Ok True, s1, es1)"
  with handler_used handler_offered
  show "subseq (used_on vr (Queue_Iter vr (Some requests) # es1 @ [Signal_Used vr ok]))
      (offered_on vr (Queue_Iter vr (Some requests) # es1 @ [Signal_Used vr ok]))" by simp
next
  fix requests w r1 s1 es1
  assume "handler requests vr (s\<lparr>world := w\<rparr>) = (r1, s1, es1)"
  with handler_used handler_offered
  show "subseq (used_on vr (Queue_Iter vr (Some requests) # es1))
      (offered_on vr (Queue_Iter vr (Some requests) # es1))" by simp
qed simp_all

lemma serve_writes:
  assumes "serve_queue H mem nf failed handler vr s = (r, s', es)"
  shows "guarded_writes {} es"
  by (rule postD [OF post_serve_queue assms])
     (auto dest!: handler_writes intro: guarded_writes_append)

end

locale in_order_handler = queue_handler +
  assumes handler_prefix: "handler cs vr s = (r, s', es) \<Longrightarrow> prefix (used_on vr es) (map head_index cs)"
    and handler_complete: "handler cs vr s = (Ok b, s', es) \<Longrightarrow> used_on vr es = map head_index cs"
begin

lemma serve_in_order:
  assumes "serve_queue H mem nf failed handler vr s = (r, s', es)"
  shows "prefix (used_on vr es) (offered_on vr es) \<and>
    (r = Ok () \<longrightarrow> used_on vr es = offered_on vr es)"
proof (rule postD [OF post_serve_queue assms])
  fix requests w s1 es1 ok w'
  assume "handler requests vr (s\<lparr>world := w\<rparr>) = (Ok True, s1, es1)"
  with handler_complete handler_offered
  show "prefix (used_on vr (Queue_Iter vr (Some requests) # es1 @ [Signal_Used vr ok]))
      (offered_on vr (Queue_Iter vr (Some requests) # es1 @ [Signal_Used vr ok])) \<and>
      ((if ok then Ok () else Err failed) = Ok () \<longrightarrow>
       used_on vr (Queue_Iter vr (Some requests) # es1 @ [Signal_Used vr ok]) =
       offered_on vr (Queue_Iter vr (Some requests) # es1 @ [Signal_Used vr ok]))" by simp
next
  fix requests w r1 s1 es1
  assume "handler requests vr (s\<lparr>world := w\<rparr>) = (r1, s1, es1)"
  with handler_prefix handler_complete handler_offered
  show "prefix (used_on vr (Queue_Iter vr (Some requests) # es1))
      (offered_on vr (Queue_Iter vr (Some requests) # es1)) \<and>
      ((case r1 of Ok _ \<Rightarrow> Ok () | Err e \<Rightarrow> Err e | Panic p \<Rightarrow> Panic p) = Ok () \<longrightarrow>
       used_on vr (Queue_Iter vr (Some requests) # es1) =
       offered_on vr (Queue_Iter vr (Some requests) # es1))" by (cases r1) auto
qed simp_all

end

text \<open>
  Serving an event hands on what each serving of the queue does: in order as long as every
  round before the last completes, which is when the loop goes on.
\<close>

lemma serve_event_in_order:
  assumes run: "serve_event H idx v serve s = Some (r, s', es)"
    and serve: "\<And>s r s' es. serve s = (r, s', es) \<Longrightarrow>
      prefix (used_on v es) (offered_on v es) \<and> (r = Ok () \<longrightarrow> used_on v es = offered_on v es)"
  shows "prefix (used_on v es) (offered_on v es) \<and> (r = Ok () \<longrightarrow> used_on v es = offered_on v es)"
proof -
  have round: "prefix (used_on v es) (offered_on v es) \<and>
      (\<forall>x. r = Ok x \<longrightarrow> used_on v es = offered_on v es)"
    if "event_idx_round H v serve s = (r, s', es)" for s r s' es
    using that
    by (auto simp: event_idx_round_def vhost_calls bind_def ext_def unwrap_ok_def unwrap_def
        ret_def panic_def dest!: serve split: prod.splits outcome.splits option.splits if_splits)
  show ?thesis
  proof (cases idx)
    case True
    with run have "rust_loop (event_idx_round H v serve) s = Some (r, s', es)"
      by (simp add: serve_event_def)
    then show ?thesis
      by (rule rust_loop_induct) (auto dest!: round split: outcome.splits)
  next
    case False
    with run have "serve s = (r, s', es)" by (simp add: serve_event_def)
    then show ?thesis by (rule serve)
  qed
qed

definition returns_offered :: "vring \<Rightarrow> 's \<Rightarrow> 'x event list \<Rightarrow> 's \<Rightarrow> bool" where
  "returns_offered v s es s' \<longleftrightarrow> subseq (used_on v es) (offered_on v es)"

definition writes_guarded :: "'s \<Rightarrow> 'x event list \<Rightarrow> 's \<Rightarrow> bool" where
  "writes_guarded s es s' \<longleftrightarrow> guarded_writes {} es"

interpretation returns: run_relation "returns_offered v" for v
  by unfold_locales (auto simp: returns_offered_def intro: list_emb_append_mono)

interpretation writes: run_relation writes_guarded
  by unfold_locales (auto simp: writes_guarded_def intro: guarded_writes_append)

context queue_handler
begin

lemma event_used:
  assumes "serve_event H idx vr serve s = Some (r, s', es)"
    and "serve = map_err f (serve_queue H mem nf failed handler vr)"
  shows "subseq (used_on vr es) (offered_on vr es)"
proof -
  have "keeps (returns_offered vr) (serve_queue H mem nf failed handler vr)"
    by (rule keepsI, rule post_run) (simp add: returns_offered_def serve_used)
  then have "keeps (returns_offered vr) serve"
    unfolding assms(2) by (rule returns.keeps_map_err)
  then show ?thesis
    using keeps_serve_event [OF assms(1) returns.run_relation_axioms]
    by (simp add: returns_offered_def)
qed

lemma event_writes:
  assumes "serve_event H idx vr serve s = Some (r, s', es)"
    and "serve = map_err f (serve_queue H mem nf failed handler vr)"
  shows "guarded_writes {} es"
proof -
  have "keeps writes_guarded (serve_queue H mem nf failed handler vr)"
    by (rule keepsI, rule post_run) (simp add: writes_guarded_def serve_writes)
  then have "keeps writes_guarded serve"
    unfolding assms(2) by (rule writes.keeps_map_err)
  then show ?thesis
    using keeps_serve_event [OF assms(1) writes.run_relation_axioms]
    by (simp add: writes_guarded_def)
qed

end

context in_order_handler
begin

lemma event_in_order:
  assumes "serve_event H idx vr serve s = Some (r, s', es)"
    and "serve = map_err f (serve_queue H mem nf failed handler vr)"
  shows "prefix (used_on vr es) (offered_on vr es) \<and> (r = Ok () \<longrightarrow> used_on vr es = offered_on vr es)"
proof (rule serve_event_in_order [OF assms(1)])
  fix s r s' es
  assume "serve s = (r, s', es)"
  then show "prefix (used_on vr es) (offered_on vr es) \<and>
      (r = Ok () \<longrightarrow> used_on vr es = offered_on vr es)"
    unfolding assms(2)
    by (auto simp: map_err_def dest!: serve_in_order split: prod.splits outcome.splits)
qed

end

section \<open>Handlers that are one loop\<close>

text \<open>
  The handler of queue \<open>v\<close> is given the chains of that queue and does not ask for others.
\<close>

fun is_handler_event :: "vring \<Rightarrow> 'x event \<Rightarrow> bool" where
  "is_handler_event v (Queue_Iter v' _) \<longleftrightarrow> v' \<noteq> v"
| "is_handler_event v _ \<longleftrightarrow> True"

lemma offered_none: "emitting (is_handler_event v) s es s' \<Longrightarrow> offered_on v es = []"
  unfolding emitting_def by (induction v es rule: offered_on.induct) auto

context chain_loop
begin

lemma loop_handler:
  assumes "(if cs = [] then ret b0 else bind (mfor body cs) (\<lambda>_. ret b1)) s = (r, s', es)"
  shows "prefix (used_on vr es) (map head_index cs)"
    and "r = Ok b \<Longrightarrow> used_on vr es = map head_index cs"
    and "guarded_writes {} es"
proof -
  have "\<exists>k \<le> length cs. used_on vr es = map head_index (take k cs) \<and> (r = Ok b \<longrightarrow> k = length cs)
      \<and> guarded_writes {} es" for b
  proof (cases "cs = []")
    case True
    with assms show ?thesis by (simp add: ret_def)
  next
    case False
    with assms obtain r1 where run: "mfor body cs s = (r1, s', es)" and r: "r = Ok b \<longrightarrow> r1 = Ok ()"
      by (auto simp: bind_def ret_def split: prod.splits outcome.splits)
    with mfor_used [OF run] mfor_writes [OF run] show ?thesis by auto
  qed
  then show "prefix (used_on vr es) (map head_index cs)"
    and "r = Ok b \<Longrightarrow> used_on vr es = map head_index cs"
    and "guarded_writes {} es"
    by (metis take_is_prefix map_mono_prefix, metis take_all_iff order_refl, blast)
qed

end

text \<open>
  The shape of the handlers that run such a loop and nothing else.
\<close>

locale chain_handler = chain_loop body vr
  for body :: "desc_chain \<Rightarrow> (('w, 'z) sys_scheme, 'x event, 'e, unit) comp" and vr :: vring +
  fixes handler :: "desc_chain list \<Rightarrow> vring \<Rightarrow> (('w, 'z) sys_scheme, 'x event, 'e, bool) comp"
  assumes handler_eq:
      "handler cs vr = (if cs = [] then ret True else bind (mfor body cs) (\<lambda>_. ret True))"
    and body_events: "keeps (emitting (is_handler_event vr)) (body c)"

sublocale chain_handler \<subseteq> in_order_handler handler vr
proof
  fix cs s r s' es
  assume run: "handler cs vr s = (r, s', es)"
  note loop = loop_handler [OF run [unfolded handler_eq]]
  show "prefix (used_on vr es) (map head_index cs)" by (rule loop(1))
  then show "subseq (used_on vr es) (map head_index cs)" by (rule prefix_imp_subseq)
  have "keeps (emitting (is_handler_event vr)) (handler cs vr)"
    unfolding handler_eq by (intro emit.keeps_rules body_events)
  then have "emitting (is_handler_event vr) s es s'" using run by (rule keepsD)
  then show "offered_on vr es = []" by (rule offered_none)
  show "guarded_writes {} es" by (rule loop(3))
next
  fix cs s b s' es
  assume "handler cs vr s = (Ok b, s', es)"
  then show "used_on vr es = map head_index cs"
    unfolding handler_eq by (rule loop_handler(2)) simp
qed

context chain_handler
begin

lemmas chain_serve_used = serve_used
lemmas chain_serve_writes = serve_writes
lemmas chain_serve_in_order = serve_in_order

end

end
