(* ===== verification/CanFrame.thy ===== *)
theory CanFrame
  imports Prelude
begin

text \<open>
  The messages of the CAN device (\<open>vhost-device-can\<close>, the structures of \<open>vhu_can.rs\<close> and the
  constants of \<open>can.rs\<close>) and their form in guest memory.

  A \<open>Le16\<close> or \<open>Le32\<close> field is its native value; \<open>frame_bytes\<close> and \<open>frame_of\<close> are
  \<open>as_slice\<close> and \<open>read_obj\<close> of the \<open>repr(C)\<close> structure, whose layout has no padding.
  \<open>[u8; 64]\<close> is a list with the invariant \<open>frame_wf\<close>.  The lemmas are the two round trips
  and the size of the encoding.
\<close>

section \<open>Constants\<close>

definition VIRTIO_CAN_FLAGS_EXTENDED :: u32 where "VIRTIO_CAN_FLAGS_EXTENDED = 0x8000"
definition VIRTIO_CAN_FLAGS_FD :: u32 where "VIRTIO_CAN_FLAGS_FD = 0x4000"
definition VIRTIO_CAN_FLAGS_RTR :: u32 where "VIRTIO_CAN_FLAGS_RTR = 0x2000"

definition VIRTIO_CAN_TX :: u16 where "VIRTIO_CAN_TX = 0x0001"
definition VIRTIO_CAN_RX :: u16 where "VIRTIO_CAN_RX = 0x0101"

definition CAN_EFF_FLAG :: u32 where "CAN_EFF_FLAG = 0x80000000"
definition CAN_RTR_FLAG :: u32 where "CAN_RTR_FLAG = 0x40000000"
definition CAN_ERR_FLAG :: u32 where "CAN_ERR_FLAG = 0x20000000"
definition CAN_SFF_MASK :: u32 where "CAN_SFF_MASK = 0x000007FF"
definition CAN_EFF_MASK :: u32 where "CAN_EFF_MASK = 0x1FFFFFFF"
definition CAN_FRMF_TYPE_FD :: u32 where "CAN_FRMF_TYPE_FD = 0x10"
definition CAN_ERR_BUSOFF :: u32 where "CAN_ERR_BUSOFF = 0x00000040"

lemmas can_flag_defs =
  VIRTIO_CAN_FLAGS_EXTENDED_def VIRTIO_CAN_FLAGS_FD_def VIRTIO_CAN_FLAGS_RTR_def
  CAN_EFF_FLAG_def CAN_RTR_FLAG_def CAN_ERR_FLAG_def CAN_SFF_MASK_def CAN_EFF_MASK_def
  CAN_FRMF_TYPE_FD_def CAN_ERR_BUSOFF_def

definition VIRTIO_CAN_F_CAN_CLASSIC :: u16 where "VIRTIO_CAN_F_CAN_CLASSIC = 0"
definition VIRTIO_CAN_F_CAN_FD :: u16 where "VIRTIO_CAN_F_CAN_FD = 1"
definition VIRTIO_CAN_F_RTR_FRAMES :: u16 where "VIRTIO_CAN_F_RTR_FRAMES = 3"

definition VIRTIO_CAN_STATUS_OK :: u8 where "VIRTIO_CAN_STATUS_OK = 0x0"
definition VIRTIO_CAN_STATUS_ERR :: u8 where "VIRTIO_CAN_STATUS_ERR = 0x1"

definition VIRTIO_CAN_SET_CTRL_MODE_START :: u16 where "VIRTIO_CAN_SET_CTRL_MODE_START = 0x0201"
definition VIRTIO_CAN_SET_CTRL_MODE_STOP :: u16 where "VIRTIO_CAN_SET_CTRL_MODE_STOP = 0x0202"

section \<open>Structures\<close>

text \<open>\<open>sdu_length\<close> is the field \<open>length\<close>.\<close>

record VirtioCanFrame =
  msg_type :: u16
  sdu_length :: u16
  reserved :: u32
  flags :: u32
  can_id :: u32
  sdu :: "u8 list"

definition default_frame :: VirtioCanFrame where
  "default_frame =
     \<lparr>msg_type = 0, sdu_length = 0, reserved = 0, flags = 0, can_id = 0, sdu = replicate 64 0\<rparr>"

definition frame_wf :: "VirtioCanFrame \<Rightarrow> bool" where
  "frame_wf f \<longleftrightarrow> length (sdu f) = 64"

definition size_of_frame :: nat where "size_of_frame = 80"

definition frame_bytes :: "VirtioCanFrame \<Rightarrow> u8 list" where
  "frame_bytes f =
     le16_bytes (msg_type f) @ le16_bytes (sdu_length f) @ le32_bytes (reserved f) @
     le32_bytes (flags f) @ le32_bytes (can_id f) @ sdu f"

definition frame_of :: "u8 list \<Rightarrow> VirtioCanFrame" where
  "frame_of bs =
     \<lparr>msg_type = le16_of (bs ! 0) (bs ! 1),
      sdu_length = le16_of (bs ! 2) (bs ! 3),
      reserved = le32_of (bs ! 4) (bs ! 5) (bs ! 6) (bs ! 7),
      flags = le32_of (bs ! 8) (bs ! 9) (bs ! 10) (bs ! 11),
      can_id = le32_of (bs ! 12) (bs ! 13) (bs ! 14) (bs ! 15),
      sdu = drop 16 bs\<rparr>"

text \<open>\<open>VirtioCanCtrlRequest\<close> is its one field \<open>msg_type\<close>.\<close>

definition size_of_ctrl_request :: nat where "size_of_ctrl_request = 2"

definition ctrl_request_of :: "u8 list \<Rightarrow> u16" where
  "ctrl_request_of bs = le16_of (bs ! 0) (bs ! 1)"

lemma default_frame_wf [simp]: "frame_wf default_frame"
  by (simp add: frame_wf_def default_frame_def)

lemma length_frame_bytes: "frame_wf f \<Longrightarrow> length (frame_bytes f) = size_of_frame"
  by (simp add: frame_bytes_def frame_wf_def size_of_frame_def)

lemma frame_of_wf: "length bs = size_of_frame \<Longrightarrow> frame_wf (frame_of bs)"
  by (simp add: frame_of_def frame_wf_def size_of_frame_def)

lemma frame_of_frame_bytes: "frame_of (frame_bytes f) = f"
  by (simp add: frame_of_def frame_bytes_def le16_bytes_def le32_bytes_def nth_append)

lemma frame_bytes_frame_of:
  assumes "length bs = size_of_frame"
  shows "frame_bytes (frame_of bs) = bs"
proof -
  obtain hs ts where bs: "bs = hs @ ts" and "length hs = 16"
    using assms by (metis append_take_drop_id length_take min.absorb2 size_of_frame_def
        le_numeral_extra(4) numeral_le_iff semiring_norm)
  then show ?thesis
    by (auto simp: frame_of_def frame_bytes_def nth_append numeral_eq_Suc length_Suc_conv)
qed



end
