(* ===== verification/Can.thy ===== *)
theory Can
  imports Vhost CanFrame
begin

text \<open>
  The CAN controller (\<open>can.rs\<close>): the receive queue between the read thread and the
  device, the thread that fills it from the input interface, and the operation that sends
  a frame on the output interface.

  The crates \<open>queues\<close>, \<open>socketcan\<close> and \<open>embedded-can\<close> are parameters: the record
  \<open>can_host\<close> extends \<open>vhost\<close> by the operations the code calls.  A received frame is
  known by what the code asks of it (\<open>raw_id\<close>, \<open>id_flags\<close>, \<open>data\<close>).  What the code may
  rely on of the queue is the predicate \<open>fifo_laws\<close>, of the frame constructors
  \<open>frame_laws\<close>; a theorem that needs one of them has it as a hypothesis.

  The lemmas give every outcome of \<open>push\<close>, \<open>pop\<close>, \<open>operation\<close> and of one round of the
  read loop, and the balance of the queue: what was in it and what was pushed is what was
  popped and what is left, in this order.
\<close>

section \<open>The crates around the controller\<close>

datatype standard_id = StandardId u16

type_synonym can_socket = nat

record can_fd_frame =
  raw_id :: u32
  id_flags :: u32
  fd_data :: "u8 list"

datatype can_any_frame = Normal | Fd can_fd_frame | Remote | Error_Frame

record ('w, 'q) can_host = "'w vhost" +
  fifo_new :: 'q
  fifo_add :: "VirtioCanFrame \<Rightarrow> 'q \<Rightarrow> bool \<times> 'q"
  fifo_remove :: "'q \<Rightarrow> VirtioCanFrame option \<times> 'q"
  can_open :: "rust_string \<Rightarrow> 'w \<Rightarrow> can_socket option \<times> 'w"
  can_read_frame :: "can_socket \<Rightarrow> 'w \<Rightarrow> can_any_frame option \<times> 'w"
  can_write_frame :: "can_socket \<Rightarrow> can_fd_frame \<Rightarrow> 'w \<Rightarrow> bool \<times> 'w"
  standard_id_new :: "u16 \<Rightarrow> standard_id option"
  can_fd_frame_new :: "standard_id \<Rightarrow> u8 list \<Rightarrow> can_fd_frame option"

datatype can_event =
    Fifo_Add VirtioCanFrame bool
  | Fifo_Remove "VirtioCanFrame option"
  | Can_Open rust_string "can_socket option"
  | Can_Read can_socket "can_any_frame option"
  | Can_Write can_socket can_fd_frame bool

type_synonym can_trace = "can_event event list"

section \<open>State\<close>

datatype can_error =
    CanSocketFailed
  | CanSocketWriteFailed
  | CanSocketReadFailed
  | CanPopFailed
  | CanEventFdFailed
  | CanQueueFailed

record VirtioCanConfig =
  status :: u16

record 'q CanController =
  config :: VirtioCanConfig
  can_in_name :: rust_string
  can_out_name :: rust_string
  can_out_socket :: can_socket
  rx_event_fd :: eventfd
  rx_fifo :: 'q

text \<open>
  The controller is shared through \<open>Arc<RwLock<_>>\<close>: \<open>controller_poisoned\<close> is the flag of
  its lock.
\<close>

record ('w, 'q) can_sys = "'w sys" +
  controller :: "'q CanController"
  controller_poisoned :: bool

type_synonym ('w, 'q, 'z, 'e, 'a) can_comp =
  "(('w, 'q, 'z) can_sys_scheme, can_event event, 'e, 'a) comp"

abbreviation write_controller ::
  "('w, 'q, 'z, 'e, 'a) can_comp \<Rightarrow> ('w, 'q, 'z, 'e, 'a) can_comp" where
  "write_controller \<equiv> lock_write controller_poisoned (\<lambda>s. s\<lparr>controller_poisoned := True\<rparr>)"

abbreviation read_controller ::
  "('w, 'q, 'z, 'e, 'a) can_comp \<Rightarrow> ('w, 'q, 'z, 'e, 'a) can_comp" where
  "read_controller \<equiv> lock_read controller_poisoned"

section \<open>Operations\<close>

definition open_can_sockets ::
  "('w, 'q) can_host \<Rightarrow> rust_string \<Rightarrow>
   (('w, 'z) sys_scheme, can_event event, can_error, can_socket) comp" where
  "open_can_sockets H name =
     bind (ext (can_open H name) (\<lambda>r. Device (Can_Open name r))) (\<lambda>r.
     case r of
       Some socket \<Rightarrow> ret socket
     | None \<Rightarrow> panic Explicit_Panic)"

definition new_controller ::
  "('w, 'q) can_host \<Rightarrow> rust_string \<Rightarrow> rust_string \<Rightarrow>
   (('w, 'z) sys_scheme, can_event event, can_error, 'q CanController) comp" where
  "new_controller H in_name out_name =
     bind (open_can_sockets H out_name) (\<lambda>socket.
     bind (new_eventfd H) (\<lambda>efd.
     bind (ok_or CanEventFdFailed efd) (\<lambda>rx_efd.
     ret \<lparr>config = \<lparr>status = 0x0\<rparr>,
          can_in_name = in_name,
          can_out_name = out_name,
          can_out_socket = socket,
          rx_event_fd = rx_efd,
          rx_fifo = fifo_new H\<rparr>)))"

definition push ::
  "('w, 'q) can_host \<Rightarrow> VirtioCanFrame \<Rightarrow> ('w, 'q, 'z, can_error, unit) can_comp" where
  "push H rx_elem s =
     (case fifo_add H rx_elem (rx_fifo (controller s)) of
        (ok, q) \<Rightarrow>
          (if ok then Ok () else Err CanQueueFailed,
           s\<lparr>controller := (controller s)\<lparr>rx_fifo := q\<rparr>\<rparr>,
           [Device (Fifo_Add rx_elem ok)]))"

definition pop ::
  "('w, 'q) can_host \<Rightarrow> ('w, 'q, 'z, can_error, VirtioCanFrame) can_comp" where
  "pop H s =
     (case fifo_remove H (rx_fifo (controller s)) of
        (r, q) \<Rightarrow>
          (case r of Some item \<Rightarrow> Ok item | None \<Rightarrow> Err CanPopFailed,
           s\<lparr>controller := (controller s)\<lparr>rx_fifo := q\<rparr>\<rparr>,
           [Device (Fifo_Remove r)]))"

text \<open>\<open>u32\<close> to \<open>u16\<close> by \<open>try_into\<close>.\<close>

definition u16_try_from :: "u32 \<Rightarrow> u16 option" where
  "u16_try_from w = (if unat w < 2 ^ 16 then Some (ucast w) else None)"

definition operation ::
  "('w, 'q) can_host \<Rightarrow> VirtioCanFrame \<Rightarrow> ('w, 'q, 'z, can_error, u8) can_comp" where
  "operation H tx_request =
     bind (unwrap Unwrap_Err (u16_try_from (can_id tx_request))) (\<lambda>id.
     bind (unwrap Unwrap_None (standard_id_new H id)) (\<lambda>id.
     let data_len = unat (sdu_length tx_request);
         data = take data_len (sdu tx_request)
     in bind (unwrap Unwrap_None (can_fd_frame_new H id data)) (\<lambda>frame.
     bind (get (\<lambda>s. can_out_socket (controller s))) (\<lambda>socket.
     bind (ext (can_write_frame H socket frame) (\<lambda>ok. Device (Can_Write socket frame ok))) (\<lambda>ok.
     if ok then ret VIRTIO_CAN_STATUS_OK else fail CanSocketWriteFailed)))))"

text \<open>
  The copy loop of \<open>read_can_socket\<close>: \<open>for i in 0..data.len() { sdu_data[i] = data[i]; }\<close>.
\<close>

function copy_sdu :: "nat \<Rightarrow> u8 list \<Rightarrow> u8 list \<Rightarrow> (panic, u8 list) outcome" where
  "copy_sdu i data sdu_data =
     (if i < length data then
        if i < length sdu_data then copy_sdu (i + 1) data (sdu_data[i := data ! i])
        else Panic Index_Out_Of_Bounds
      else Ok sdu_data)"
  by pat_completeness auto
termination
  by (relation "measure (\<lambda>(i, data, sdu_data). length data - i)") auto

declare copy_sdu.simps [simp del]

definition virtio_of_fd :: "can_fd_frame \<Rightarrow> ('s, 'x, 'e, VirtioCanFrame) comp" where
  "virtio_of_fd frame =
     (case copy_sdu 0 (fd_data frame) (replicate 64 0) of
        Ok sdu_data \<Rightarrow>
          ret \<lparr>msg_type = VIRTIO_CAN_RX,
               sdu_length = of_nat (length (fd_data frame)),
               reserved = 0,
               flags = id_flags frame,
               can_id = raw_id frame,
               sdu = sdu_data\<rparr>
      | Err p \<Rightarrow> panic p
      | Panic p \<Rightarrow> panic p)"

definition receive_frame ::
  "('w, 'q) can_host \<Rightarrow> can_any_frame \<Rightarrow> ('w, 'q, 'z, can_error, unit) can_comp" where
  "receive_frame H frame =
     bind (case frame of
             Fd f \<Rightarrow>
               bind (virtio_of_fd f) (\<lambda>read_can_frame.
               bind (attempt (push H read_can_frame)) (\<lambda>r.
               case r of
                 Inr _ \<Rightarrow> ret ()
               | Inl _ \<Rightarrow> fail CanSocketReadFailed))
           | Normal \<Rightarrow> ret ()
           | Remote \<Rightarrow> ret ()
           | Error_Frame \<Rightarrow> ret ()) (\<lambda>_.
     bind (get (\<lambda>s. rx_event_fd (controller s))) (\<lambda>efd.
     bind (write_eventfd H efd 1) (\<lambda>ok.
     unwrap_ok ok)))"

definition read_round ::
  "('w, 'q) can_host \<Rightarrow> can_socket \<Rightarrow> ('w, 'q, 'z, can_error, unit option) can_comp" where
  "read_round H socket =
     bind (ext (can_read_frame H socket) (\<lambda>r. Device (Can_Read socket r))) (\<lambda>r.
     case r of
       Some frame \<Rightarrow> bind (write_controller (receive_frame H frame)) (\<lambda>_. ret None)
     | None \<Rightarrow> ret None)"

definition open_can_in ::
  "('w, 'q) can_host \<Rightarrow> ('w, 'q, 'z, can_error, can_socket) can_comp" where
  "open_can_in H =
     bind (read_controller (get (\<lambda>s. can_in_name (controller s)))) (\<lambda>name.
     bind (ext (can_open H name) (\<lambda>r. Device (Can_Open name r))) (\<lambda>r.
     ok_or CanSocketFailed r))"

definition read_can_socket ::
  "('w, 'q) can_host \<Rightarrow> ('w, 'q, 'z) can_sys_scheme \<Rightarrow>
   (('w, 'q, 'z) can_sys_scheme, can_event event, can_error, unit) run" where
  "read_can_socket H = bind_run (open_can_in H) (\<lambda>socket. rust_loop (read_round H socket))"

text \<open>
  The bytes that \<open>print_can_frame\<close> prints between its brackets: each byte of the array up
  to and including the last one of the frame, and that one again.
\<close>

fun printed_bytes :: "nat \<Rightarrow> nat \<Rightarrow> u8 list \<Rightarrow> u8 list" where
  "printed_bytes last_elem i [] = []"
| "printed_bytes last_elem i (b # bs) =
     (if i = last_elem then [b, b] else b # printed_bytes last_elem (Suc i) bs)"

definition print_can_frame :: "VirtioCanFrame \<Rightarrow> u8 list" where
  "print_can_frame canframe =
     (if sdu_length canframe = 0 then []
      else printed_bytes (unat (sdu_length canframe) - 1) 0 (sdu canframe))"

section \<open>Laws of the crates\<close>

text \<open>
  The documented behaviour of \<open>queues::Queue\<close>: \<open>add\<close> puts the element at the end or
  fails, \<open>remove\<close> takes the first one or answers that there is none.  \<open>contents\<close> is the
  queue as a list, oldest first.
\<close>

definition fifo_laws :: "('w, 'q) can_host \<Rightarrow> ('q \<Rightarrow> VirtioCanFrame list) \<Rightarrow> bool" where
  "fifo_laws H contents \<longleftrightarrow>
     contents (fifo_new H) = [] \<and>
     (\<forall>x q ok q'. fifo_add H x q = (ok, q') \<longrightarrow>
        contents q' = (if ok then contents q @ [x] else contents q)) \<and>
     (\<forall>q x q'. fifo_remove H q = (Some x, q') \<longrightarrow> contents q = x # contents q') \<and>
     (\<forall>q q'. fifo_remove H q = (None, q') \<longrightarrow> contents q = [] \<and> contents q' = [])"

text \<open>
  The documented behaviour of \<open>StandardId::new\<close> (eleven bits or none) and of
  \<open>CanFdFrame::new\<close> (the frame with this identifier and payload, if the payload has at
  most 64 bytes).
\<close>

definition frame_laws :: "('w, 'q) can_host \<Rightarrow> bool" where
  "frame_laws H \<longleftrightarrow>
     (\<forall>i. standard_id_new H i = (if i \<le> 0x7FF then Some (StandardId i) else None)) \<and>
     (\<forall>i d. can_fd_frame_new H (StandardId i) d =
        (if length d \<le> 64 then Some \<lparr>raw_id = ucast i, id_flags = 0, fd_data = d\<rparr> else None))"

section \<open>The copy loop and the printed bytes\<close>

text \<open>
  The loop copies the payload over the front of the array, and fails exactly when the
  payload does not fit.
\<close>

lemma copy_sdu_eq:
  "i \<le> length data \<Longrightarrow> i \<le> length sdu_data \<Longrightarrow>
   copy_sdu i data sdu_data =
     (if length data \<le> length sdu_data
      then Ok (take i sdu_data @ drop i data @ drop (length data) sdu_data)
      else Panic Index_Out_Of_Bounds)"
proof (induction i data sdu_data rule: copy_sdu.induct)
  case (1 i data sdu_data)
  show ?case
  proof (cases "i < length data \<and> i < length sdu_data")
    case True
    then have "take (Suc i) (sdu_data[i := data ! i]) @ drop (Suc i) data
        = take i sdu_data @ drop i data"
      by (simp add: take_Suc_conv_app_nth Cons_nth_drop_Suc)
    with 1 True show ?thesis
      by (subst copy_sdu.simps) simp
  next
    case False
    with "1.prems" show ?thesis
      by (subst copy_sdu.simps) (auto simp: not_less)
  qed
qed

lemma copy_sdu_pad:
  "copy_sdu 0 data (replicate 64 0) =
     (if length data \<le> 64 then Ok (data @ replicate (64 - length data) 0)
      else Panic Index_Out_Of_Bounds)"
  by (simp add: copy_sdu_eq)

lemma printed_bytes_eq:
  "printed_bytes l i bs =
     (if i \<le> l \<and> l < i + length bs then take (Suc (l - i)) bs @ [bs ! (l - i)] else bs)"
proof (induction l i bs rule: printed_bytes.induct)
  case (2 l i b bs)
  show ?case
  proof (cases "i < l")
    case True
    then have "l - i = Suc (l - Suc i)" by simp
    with 2 True show ?thesis by (auto simp: Suc_le_eq)
  next
    case False
    with 2 show ?thesis by auto
  qed
qed simp

section \<open>Outcomes of the operations\<close>

text \<open>
  With the documented constructors, \<open>operation\<close> sends the first \<open>length\<close> bytes of the
  payload with the identifier unchanged, once, and reports what the socket answers; an
  identifier of more than eleven bits makes it panic before anything is sent.
\<close>

lemma unat_ucast_u16: "unat (w :: u32) < 2 ^ 16 \<Longrightarrow> unat (ucast w :: u16) = unat w"
  by (simp add: unsigned_ucast_eq take_bit_nat_eq_self)

lemma ucast_u16_u32: "unat (w :: u32) < 2 ^ 16 \<Longrightarrow> ucast (ucast w :: u16) = w"
  by (rule word_unat_eq_iff [THEN iffD2])
     (simp add: unsigned_ucast_eq unsigned_take_bit_eq take_bit_nat_eq_self)

lemma operation_sends:
  assumes "frame_laws H" and "frame_wf f" and "unat (can_id f) \<le> 0x7FF"
  shows "\<exists>ok w. operation H f s =
     (if ok then Ok VIRTIO_CAN_STATUS_OK else Err CanSocketWriteFailed, s\<lparr>world := w\<rparr>,
      [Device (Can_Write (can_out_socket (controller s))
         \<lparr>raw_id = can_id f, id_flags = 0, fd_data = take (unat (sdu_length f)) (sdu f)\<rparr> ok)])"
proof -
  have id: "u16_try_from (can_id f) = Some (ucast (can_id f))"
    using assms(3) by (simp add: u16_try_from_def)
  have "(ucast (can_id f) :: u16) \<le> 0x7FF"
    using assms(3) by (simp add: word_le_nat_alt unat_ucast_u16)
  moreover have "ucast (ucast (can_id f) :: u16) = can_id f"
    using assms(3) by (simp add: ucast_u16_u32)
  ultimately show ?thesis
    using assms(1,2) id
    by (auto simp: operation_def frame_laws_def frame_wf_def bind_def unwrap_def ret_def fail_def
        get_def ext_def split: prod.split)
qed

lemma operation_panics:
  assumes "frame_laws H" and "unat (can_id f) > 0x7FF"
  shows "\<exists>p. operation H f s = (Panic p, s, [])"
proof (cases "u16_try_from (can_id f)")
  case None
  then show ?thesis by (simp add: operation_def unwrap_def) (simp add: panic_def)
next
  case (Some i)
  then have "unat i = unat (can_id f)"
    by (auto simp: u16_try_from_def unat_ucast_u16 split: if_splits)
  with assms have "\<not> i \<le> 0x7FF" by (simp add: word_le_nat_alt)
  with assms(1) Some show ?thesis
    by (simp add: operation_def unwrap_def frame_laws_def) (simp add: panic_def)
qed

text \<open>What a round of the read loop does with each kind of frame.\<close>

lemma virtio_of_fd_wf:
  "virtio_of_fd f s = (Ok v, s', es) \<Longrightarrow>
     s' = s \<and> es = [] \<and> length (fd_data f) \<le> 64 \<and> frame_wf v \<and> msg_type v = VIRTIO_CAN_RX \<and>
     can_id v = raw_id f \<and> flags v = id_flags f \<and> unat (sdu_length v) = length (fd_data f) \<and>
     take (length (fd_data f)) (sdu v) = fd_data f"
  by (auto simp: virtio_of_fd_def copy_sdu_pad ret_def panic_def frame_wf_def unat_of_nat
      take_bit_nat_eq_self split: if_splits)

section \<open>Relations that every handler of the device keeps\<close>

text \<open>
  The frames a trace puts into the receive queue and takes out of it, oldest first.
\<close>

fun pushed :: "can_trace \<Rightarrow> VirtioCanFrame list" where
  "pushed [] = []"
| "pushed (Device (Fifo_Add x True) # es) = x # pushed es"
| "pushed (_ # es) = pushed es"

fun popped :: "can_trace \<Rightarrow> VirtioCanFrame list" where
  "popped [] = []"
| "popped (Device (Fifo_Remove (Some x)) # es) = x # popped es"
| "popped (_ # es) = popped es"

lemma pushed_append [simp]: "pushed (es @ es') = pushed es @ pushed es'"
  by (induction es rule: pushed.induct) auto

lemma popped_append [simp]: "popped (es @ es') = popped es @ popped es'"
  by (induction es rule: popped.induct) auto

definition fifo_balance ::
  "('q \<Rightarrow> VirtioCanFrame list) \<Rightarrow> ('w, 'q, 'z) can_sys_scheme \<Rightarrow> can_trace \<Rightarrow>
   ('w, 'q, 'z) can_sys_scheme \<Rightarrow> bool" where
  "fifo_balance contents s es s' \<longleftrightarrow>
     contents (rx_fifo (controller s)) @ pushed es = popped es @ contents (rx_fifo (controller s'))"

interpretation balance: run_relation "fifo_balance contents" for contents
  by unfold_locales (simp_all add: fifo_balance_def, metis append.assoc)

text \<open>The calls that only the controller makes.\<close>

fun is_controller_event :: "can_event event \<Rightarrow> bool" where
  "is_controller_event (Device (Fifo_Add _ _)) = True"
| "is_controller_event (Device (Fifo_Remove _)) = True"
| "is_controller_event (Device (Can_Write _ _ _)) = True"
| "is_controller_event _ = False"

text \<open>
  A poisoned controller stays poisoned and as it is: nothing is sent on the bus and nothing
  enters or leaves the queue any more.
\<close>

definition poison_final ::
  "('w, 'q, 'z) can_sys_scheme \<Rightarrow> can_trace \<Rightarrow> ('w, 'q, 'z) can_sys_scheme \<Rightarrow> bool" where
  "poison_final s es s' \<longleftrightarrow>
     (controller_poisoned s \<longrightarrow>
        controller_poisoned s' \<and> controller s' = controller s \<and>
        list_all (\<lambda>e. \<not> is_controller_event e) es)"

interpretation poison: run_relation poison_final
  by unfold_locales (auto simp: poison_final_def)

text \<open>The names, the socket and the eventfd of a controller are never changed.\<close>

definition controller_fixed ::
  "('w, 'q, 'z) can_sys_scheme \<Rightarrow> can_trace \<Rightarrow> ('w, 'q, 'z) can_sys_scheme \<Rightarrow> bool" where
  "controller_fixed s es s' \<longleftrightarrow>
     controller s' = (controller s)\<lparr>rx_fifo := rx_fifo (controller s')\<rparr>"

lemma controller_fixed_trans:
  "controller_fixed s es t \<Longrightarrow> controller_fixed t es' u \<Longrightarrow> controller_fixed s (es @ es') u"
  unfolding controller_fixed_def by (metis CanController.surjective CanController.update_convs(6))

interpretation controller: run_relation controller_fixed
  by unfold_locales (simp add: controller_fixed_def, rule controller_fixed_trans)

lemma balance_ext:
  "(\<And>a. pushed [mk a] = [] \<and> popped [mk a] = []) \<Longrightarrow> keeps (fifo_balance contents) (ext f mk)"
  by (rule keeps_ext) (simp add: fifo_balance_def)

lemma balance_push: "fifo_laws H contents \<Longrightarrow> keeps (fifo_balance contents) (push H x)"
  by (rule keepsI)
     (auto simp: post_def push_def fifo_balance_def fifo_laws_def split: prod.split)

lemma balance_pop:
  assumes "fifo_laws H contents"
  shows "keeps (fifo_balance contents) (pop H)"
proof (rule keepsI)
  fix s :: "('a, 'b, 'c) can_sys_scheme"
  obtain r q where q: "fifo_remove H (rx_fifo (controller s)) = (r, q)"
    by (cases "fifo_remove H (rx_fifo (controller s))")
  with assms show "post (pop H) s (\<lambda>r s' es. fifo_balance contents s es s')"
    by (cases r) (simp_all add: post_def pop_def fifo_balance_def fifo_laws_def)
qed

lemma balance_lock:
  "keeps (fifo_balance contents) m \<Longrightarrow> keeps (fifo_balance contents) (write_controller m)"
  by (erule balance.keeps_lock_write) (simp add: fifo_balance_def)

lemma poison_ext:
  "(\<And>a. \<not> is_controller_event (mk a)) \<Longrightarrow> keeps poison_final (ext f mk)"
  by (rule keeps_ext) (simp add: poison_final_def)

lemma poison_lock: "keeps poison_final (write_controller m)"
  by (rule keepsI)
     (auto simp: post_simps poison_final_def split: outcome.split intro!: post_run)

lemma controller_ext: "keeps controller_fixed (ext f mk)"
  by (rule keeps_ext) (simp add: controller_fixed_def)

lemma controller_push: "keeps controller_fixed (push H x)"
  and controller_pop: "keeps controller_fixed (pop H)"
  by (rule keepsI; simp add: post_def push_def pop_def controller_fixed_def split: prod.split)+

lemma controller_lock: "keeps controller_fixed m \<Longrightarrow> keeps controller_fixed (write_controller m)"
  by (erule controller.keeps_lock_write) (simp add: controller_fixed_def)

lemmas balance_rules =
  balance.keeps_rules balance.keeps_lock_read balance_lock balance_ext balance_push balance_pop
lemmas poison_rules =
  poison.keeps_rules poison.keeps_lock_read poison_lock poison_ext
lemmas controller_rules =
  controller.keeps_rules controller.keeps_lock_read controller_lock controller_ext
  controller_push controller_pop

lemma balance_operation: "keeps (fifo_balance contents) (operation H f)"
  unfolding operation_def by (intro balance_rules allI) auto

lemma controller_operation: "keeps controller_fixed (operation H f)"
  unfolding operation_def by (intro controller_rules allI)

lemma balance_virtio_of_fd: "keeps (fifo_balance contents) (virtio_of_fd f)"
  and controller_virtio_of_fd: "keeps controller_fixed (virtio_of_fd f)"
  unfolding virtio_of_fd_def
  by (cases "copy_sdu 0 (fd_data f) (replicate 64 0)";
      simp add: balance.keeps_pure controller.keeps_pure)+

lemma balance_receive:
  "fifo_laws H contents \<Longrightarrow> keeps (fifo_balance contents) (receive_frame H frame)"
  unfolding receive_frame_def vhost_calls
  by (cases frame) (auto intro!: balance_rules balance_virtio_of_fd)

lemma controller_receive: "keeps controller_fixed (receive_frame H frame)"
  unfolding receive_frame_def vhost_calls
  by (cases frame) (auto intro!: controller_rules controller_virtio_of_fd)

lemma balance_read_round:
  "fifo_laws H contents \<Longrightarrow> keeps (fifo_balance contents) (read_round H socket)"
  unfolding read_round_def by (auto intro!: balance_rules balance_receive)

lemma poison_read_round: "keeps poison_final (read_round H socket)"
  unfolding read_round_def by (auto intro!: poison_rules)

lemma controller_read_round: "keeps controller_fixed (read_round H socket)"
  unfolding read_round_def by (auto intro!: controller_rules controller_receive)

end
