(* ===== verification/VhuCan.thy ===== *)
theory VhuCan
  imports Can
begin

text \<open>
  The CAN device (\<open>vhu_can.rs\<close>): the state of \<open>VhostUserCanBackend\<close>, the handlers of its
  three queues and the event dispatch.

  \<open>can_device\<close> extends the state of the controller by the backend.  The part of each handler
  that only computes on a frame is a function of its own (\<open>tx_translate\<close> for the transmit
  queue, \<open>rx_check\<close> and \<open>rx_translate\<close> for the receive queue), with the early returns as
  \<open>Inl\<close>.  Debug output (\<open>println!\<close>, \<open>dbg!\<close>, \<open>warn!\<close>) is left out.

  The lemmas characterise these functions on every branch, and every run of a handler by
  the calls it makes: for the transmit and control queues through the locale
  \<open>chain_loop\<close>, for the receive queue directly.
\<close>

section \<open>State\<close>

definition QUEUE_SIZE :: nat where "QUEUE_SIZE = 64"
definition NUM_QUEUES :: nat where "NUM_QUEUES = 3"

definition TX_QUEUE :: u16 where "TX_QUEUE = 0"
definition RX_QUEUE :: u16 where "RX_QUEUE = 1"
definition CTRL_QUEUE :: u16 where "CTRL_QUEUE = 2"
definition BACKEND_EFD :: u16 where "BACKEND_EFD = 4"

lemmas can_queue_defs = TX_QUEUE_def RX_QUEUE_def CTRL_QUEUE_def BACKEND_EFD_def

datatype vhu_can_error =
    HandleEventNotEpollIn
  | HandleEventUnknown
  | UnexpectedWriteOnlyDescriptor nat
  | UnexpectedReadableDescriptor nat
  | UnexpectedDescriptorCount nat
  | UnexpectedDescriptorSize nat u32
  | DescriptorNotFound
  | DescriptorReadFailed
  | DescriptorWriteFailed
  | NotificationFailed
  | EventFdFailed
  | UnexpectedCanMsgType u16
  | UnexpectedRtrFlag
  | UnexpectedFdFlag
  | UnexpectedClassicFlag

text \<open>\<open>From<Error> for io::Error\<close>: the kind \<open>Other\<close> around the error.\<close>

datatype can_io_error = Io_Other vhu_can_error

record VhostUserCanBackend =
  acked_features :: u64
  event_idx :: bool
  exit_event :: eventfd
  mem :: "guest_memory option"

record ('w, 'q) can_device = "('w, 'q) can_sys" +
  backend :: VhostUserCanBackend

type_synonym ('w, 'q, 'z, 'e, 'a) vhu_comp =
  "(('w, 'q, 'z) can_device_scheme, can_event event, 'e, 'a) comp"

definition new_backend ::
  "('w, 'q) can_host \<Rightarrow> (('w, 'z) sys_scheme, can_event event, vhu_can_error, VhostUserCanBackend) comp" where
  "new_backend H =
     bind (new_eventfd H) (\<lambda>efd.
     bind (ok_or EventFdFailed efd) (\<lambda>efd.
     ret \<lparr>acked_features = 0x0, event_idx = False, exit_event = efd, mem = None\<rparr>))"

definition check_features :: "VhostUserCanBackend \<Rightarrow> u16 \<Rightarrow> bool" where
  "check_features b features \<longleftrightarrow> acked_features b AND push_bit (unat features) 1 \<noteq> 0"

section \<open>The control queue\<close>

definition process_ctrl_chain ::
  "('w, 'q) can_host \<Rightarrow> vring \<Rightarrow> desc_chain \<Rightarrow> ('w, 'q, 'z, vhu_can_error, unit) vhu_comp" where
  "process_ctrl_chain H vring desc_chain =
     bind (collect_chain H desc_chain) (\<lambda>descriptors.
     bind (ensure (\<not> length descriptors < 1) (UnexpectedDescriptorCount (length descriptors))) (\<lambda>_.
     bind (index descriptors 0) (\<lambda>desc_request.
     bind (ensure (\<not> is_write_only desc_request) (UnexpectedWriteOnlyDescriptor 0)) (\<lambda>_.
     bind (ensure (unat (len desc_request) = size_of_ctrl_request)
             (UnexpectedDescriptorSize size_of_ctrl_request (len desc_request))) (\<lambda>_.
     bind (read_mem H desc_chain (addr desc_request) size_of_ctrl_request) (\<lambda>bytes.
     bind (ok_or DescriptorReadFailed bytes) (\<lambda>bytes.
     bind (let msg_type = ctrl_request_of bytes in
           if msg_type = VIRTIO_CAN_SET_CTRL_MODE_START then ret ()
           else if msg_type = VIRTIO_CAN_SET_CTRL_MODE_STOP then ret ()
           else fail HandleEventUnknown) (\<lambda>_.
     bind (index descriptors 1) (\<lambda>desc_response.
     bind (ensure (is_write_only desc_response) (UnexpectedReadableDescriptor 1)) (\<lambda>_.
     bind (write_slice H desc_chain [VIRTIO_CAN_STATUS_OK] (addr desc_response)) (\<lambda>ok.
     bind (ensure ok DescriptorWriteFailed) (\<lambda>_.
     bind (add_used H vring (head_index desc_chain) (len desc_response)) (\<lambda>_.
     ret ())))))))))))))"

definition process_ctrl_requests ::
  "('w, 'q) can_host \<Rightarrow> desc_chain list \<Rightarrow> vring \<Rightarrow> ('w, 'q, 'z, vhu_can_error, bool) vhu_comp" where
  "process_ctrl_requests H requests vring =
     (if requests = [] then ret True
      else bind (mfor (process_ctrl_chain H vring) requests) (\<lambda>_. ret True))"

section \<open>The transmit queue\<close>

definition tx_length :: "u32 \<Rightarrow> u16 \<Rightarrow> u16" where
  "tx_length fl n =
     (if fl AND VIRTIO_CAN_FLAGS_FD \<noteq> 0 then (if n > 64 then 64 else n)
      else (if n > 8 then 8 else n))"

definition tx_flags :: "u32 \<Rightarrow> u32" where
  "tx_flags fl =
     (if fl AND VIRTIO_CAN_FLAGS_EXTENDED \<noteq> 0
      then (fl AND CAN_EFF_MASK) OR CAN_EFF_FLAG
      else fl AND CAN_SFF_MASK)"

definition tx_translate ::
  "VhostUserCanBackend \<Rightarrow> VirtioCanFrame \<Rightarrow> vhu_can_error + VirtioCanFrame" where
  "tx_translate b request =
     (if msg_type request \<noteq> VIRTIO_CAN_TX then Inl (UnexpectedCanMsgType (msg_type request))
      else
        let n = tx_length (flags request) (sdu_length request);
            fl = tx_flags (flags request);
            rtr = (fl AND VIRTIO_CAN_FLAGS_RTR \<noteq> 0)
        in
        if rtr \<and> (\<not> check_features b VIRTIO_CAN_F_CAN_CLASSIC \<or> \<not> check_features b VIRTIO_CAN_F_RTR_FRAMES)
        then Inl UnexpectedRtrFlag
        else
          let id = (if rtr then can_id request OR (fl OR CAN_RTR_FLAG) else can_id request);
              corrected = default_frame\<lparr>msg_type := msg_type request, can_id := id,
                            sdu_length := n, sdu := take 64 (sdu request)\<rparr>
          in
          if fl AND VIRTIO_CAN_FLAGS_FD \<noteq> 0 then
            (if \<not> check_features b VIRTIO_CAN_F_CAN_FD then Inl UnexpectedFdFlag
             else Inr (corrected\<lparr>flags := fl OR CAN_FRMF_TYPE_FD\<rparr>))
          else
            (if \<not> check_features b VIRTIO_CAN_F_CAN_CLASSIC then Inl UnexpectedClassicFlag
             else Inr (corrected\<lparr>flags := 0\<rparr>)))"

definition process_tx_chain ::
  "('w, 'q) can_host \<Rightarrow> vring \<Rightarrow> desc_chain \<Rightarrow> ('w, 'q, 'z, vhu_can_error, unit) vhu_comp" where
  "process_tx_chain H vring desc_chain =
     bind (collect_chain H desc_chain) (\<lambda>descriptors.
     bind (ensure (length descriptors = 2) (UnexpectedDescriptorCount (length descriptors))) (\<lambda>_.
     bind (index descriptors 0) (\<lambda>desc_request.
     bind (ensure (\<not> is_write_only desc_request) (UnexpectedWriteOnlyDescriptor 0)) (\<lambda>_.
     bind (read_mem H desc_chain (addr desc_request) size_of_frame) (\<lambda>bytes.
     bind (ok_or DescriptorReadFailed bytes) (\<lambda>bytes.
     bind (get backend) (\<lambda>b.
     bind (of_sum (tx_translate b (frame_of bytes))) (\<lambda>corrected_request.
     bind (index descriptors 1) (\<lambda>desc_response.
     bind (ensure (is_write_only desc_response) (UnexpectedReadableDescriptor 1)) (\<lambda>_.
     bind (write_controller (attempt (operation H corrected_request))) (\<lambda>result.
     let response = (case result of Inr st \<Rightarrow> st | Inl _ \<Rightarrow> VIRTIO_CAN_STATUS_ERR) in
     bind (write_slice H desc_chain [response] (addr desc_response)) (\<lambda>ok.
     bind (ensure ok DescriptorWriteFailed) (\<lambda>_.
     bind (add_used H vring (head_index desc_chain) (len desc_response)) (\<lambda>_.
     ret ()))))))))))))))"

definition process_tx_requests ::
  "('w, 'q) can_host \<Rightarrow> desc_chain list \<Rightarrow> vring \<Rightarrow> ('w, 'q, 'z, vhu_can_error, bool) vhu_comp" where
  "process_tx_requests H requests vring =
     (if requests = [] then ret True
      else bind (mfor (process_tx_chain H vring) requests) (\<lambda>_. ret True))"

section \<open>The receive queue\<close>

text \<open>
  The frame for the guest is built in two stages, with the checks of the negotiated
  features and the reading of the interface name between them.
\<close>

definition rx_check :: "VhostUserCanBackend \<Rightarrow> VirtioCanFrame \<Rightarrow> vhu_can_error + unit" where
  "rx_check b response =
     (if flags response AND CAN_FRMF_TYPE_FD \<noteq> 0 \<and> \<not> check_features b VIRTIO_CAN_F_CAN_FD
      then Inl UnexpectedFdFlag
      else if flags response AND CAN_FRMF_TYPE_FD = 0 \<and> \<not> check_features b VIRTIO_CAN_F_CAN_CLASSIC
      then Inl UnexpectedClassicFlag
      else if can_id response AND CAN_RTR_FLAG \<noteq> 0 \<and> \<not> check_features b VIRTIO_CAN_F_RTR_FRAMES
      then Inl UnexpectedRtrFlag
      else Inr ())"

definition rx_header :: "VirtioCanFrame \<Rightarrow> VirtioCanFrame" where
  "rx_header response =
     (let can_rx = default_frame\<lparr>msg_type := VIRTIO_CAN_RX, can_id := can_id response,
                     sdu_length := sdu_length response,
                     flags := flags default_frame OR VIRTIO_CAN_FLAGS_FD\<rparr>;
          can_rx = (if can_id response AND CAN_EFF_FLAG \<noteq> 0
                    then can_rx\<lparr>flags := VIRTIO_CAN_FLAGS_EXTENDED,
                                can_id := can_id response AND CAN_EFF_MASK\<rparr>
                    else can_rx\<lparr>can_id := can_id response AND CAN_SFF_MASK\<rparr>)
      in if can_id response AND CAN_RTR_FLAG \<noteq> 0
         then can_rx\<lparr>flags := flags can_rx AND VIRTIO_CAN_FLAGS_RTR\<rparr>
         else can_rx)"

definition vcan_hack :: "VhostUserCanBackend \<Rightarrow> rust_string \<Rightarrow> VirtioCanFrame \<Rightarrow> VirtioCanFrame" where
  "vcan_hack b name response =
     (if check_features b VIRTIO_CAN_F_CAN_FD \<and> sdu_length response > 8 \<and> name = str ''vcan0''
      then response\<lparr>flags := flags response OR CAN_FRMF_TYPE_FD\<rparr>
      else response)"

definition rx_body :: "VirtioCanFrame \<Rightarrow> VirtioCanFrame \<Rightarrow> VirtioCanFrame" where
  "rx_body response can_rx =
     (let can_rx =
        (if flags response AND CAN_FRMF_TYPE_FD \<noteq> 0 then
           (let can_rx = can_rx\<lparr>flags := flags can_rx OR VIRTIO_CAN_FLAGS_FD\<rparr>
            in if sdu_length response > 64 then can_rx\<lparr>sdu_length := 64\<rparr> else can_rx)
         else
           (if sdu_length response > 8 then can_rx\<lparr>sdu_length := 8\<rparr> else can_rx))
      in can_rx\<lparr>sdu := take 64 (sdu response)\<rparr>)"

definition rx_translate :: "VhostUserCanBackend \<Rightarrow> rust_string \<Rightarrow> VirtioCanFrame \<Rightarrow> VirtioCanFrame" where
  "rx_translate b name response = rx_body (vcan_hack b name response) (rx_header response)"

definition process_rx_requests ::
  "('w, 'q) can_host \<Rightarrow> desc_chain list \<Rightarrow> vring \<Rightarrow> ('w, 'q, 'z, vhu_can_error, bool) vhu_comp" where
  "process_rx_requests H requests vring =
     (case requests of
        [] \<Rightarrow> ret True
      | desc_chain # _ \<Rightarrow>
          bind (collect_chain H desc_chain) (\<lambda>descriptors.
          bind (ensure (length descriptors = 1) (UnexpectedDescriptorCount (length descriptors))) (\<lambda>_.
          bind (index descriptors 0) (\<lambda>desc_response.
          bind (ensure (is_write_only desc_response) (UnexpectedReadableDescriptor 1)) (\<lambda>_.
          bind (write_controller (attempt (pop H))) (\<lambda>item.
          case item of
            Inl _ \<Rightarrow> fail HandleEventUnknown
          | Inr response \<Rightarrow>
              if can_id response AND CAN_ERR_FLAG \<noteq> 0 then ret True
              else
                bind (get backend) (\<lambda>b.
                bind (of_sum (rx_check b response)) (\<lambda>_.
                bind (read_controller (get (\<lambda>s. can_in_name (controller s)))) (\<lambda>name.
                let can_rx = rx_translate b name response in
                bind (write_slice H desc_chain (frame_bytes can_rx) (addr desc_response)) (\<lambda>ok.
                bind (ensure ok DescriptorWriteFailed) (\<lambda>_.
                bind (add_used H vring (head_index desc_chain) (len desc_response)) (\<lambda>_.
                ret True))))))))))))"

section \<open>The queues and the events\<close>

definition process_ctrl_queue ::
  "('w, 'q) can_host \<Rightarrow> vring \<Rightarrow> ('w, 'q, 'z, vhu_can_error, unit) vhu_comp" where
  "process_ctrl_queue H =
     serve_queue H (\<lambda>s. mem (backend s)) DescriptorNotFound NotificationFailed (process_ctrl_requests H)"

definition process_tx_queue ::
  "('w, 'q) can_host \<Rightarrow> vring \<Rightarrow> ('w, 'q, 'z, vhu_can_error, unit) vhu_comp" where
  "process_tx_queue H =
     serve_queue H (\<lambda>s. mem (backend s)) DescriptorNotFound NotificationFailed (process_tx_requests H)"

definition process_rx_queue ::
  "('w, 'q) can_host \<Rightarrow> vring \<Rightarrow> ('w, 'q, 'z, vhu_can_error, unit) vhu_comp" where
  "process_rx_queue H =
     serve_queue H (\<lambda>s. mem (backend s)) DescriptorNotFound NotificationFailed (process_rx_requests H)"

definition process_rx_queue_dump ::
  "vring \<Rightarrow> ('w, 'q, 'z, vhu_can_error, unit) vhu_comp" where
  "process_rx_queue_dump vring = ret ()"

definition dispatch ::
  "('w, 'q) can_host \<Rightarrow> u16 \<Rightarrow> vring \<Rightarrow> ('w, 'q, 'z, can_io_error, unit) vhu_comp" where
  "dispatch H device_event vring =
     map_err Io_Other
       (if device_event = CTRL_QUEUE then process_ctrl_queue H vring
        else if device_event = TX_QUEUE then process_tx_queue H vring
        else if device_event = RX_QUEUE then process_rx_queue_dump vring
        else if device_event = BACKEND_EFD then process_rx_queue H vring
        else fail HandleEventUnknown)"

definition select_vring ::
  "('w, 'q) can_host \<Rightarrow> u16 \<Rightarrow> vring list \<Rightarrow> ('w, 'q, 'z, can_io_error, vring) vhu_comp" where
  "select_vring H device_event vrings =
     (if device_event \<noteq> BACKEND_EFD then index vrings (unat device_event)
      else
        bind (write_controller
                (bind (get (\<lambda>s. rx_event_fd (controller s))) (\<lambda>efd. read_eventfd H efd))) (\<lambda>_.
        index vrings (unat RX_QUEUE)))"

definition handle_event ::
  "('w, 'q) can_host \<Rightarrow> u16 \<Rightarrow> event_set \<Rightarrow> vring list \<Rightarrow> ('w, 'q, 'z) can_device_scheme \<Rightarrow>
   (('w, 'q, 'z) can_device_scheme, can_event event, can_io_error, bool) run" where
  "handle_event H device_event evset vrings s =
     (if evset \<noteq> EventSet_IN then Some (fail (Io_Other HandleEventNotEpollIn) s)
      else if device_event = RX_QUEUE then Some (ret False s)
      else
        bind_run (select_vring H device_event vrings)
          (\<lambda>vring s. then_ret
             (serve_event H (event_idx (backend s)) vring (dispatch H device_event vring) s) False) s)"

section \<open>The rest of the trait\<close>

definition num_queues :: nat where "num_queues = NUM_QUEUES"

definition max_queue_size :: nat where "max_queue_size = QUEUE_SIZE"

definition features :: "bindings \<Rightarrow> u64" where
  "features B =
     push_bit (VIRTIO_F_VERSION_1 B) 1
     OR push_bit (VIRTIO_F_NOTIFY_ON_EMPTY B) 1
     OR push_bit (VIRTIO_RING_F_EVENT_IDX B) 1
     OR push_bit (unat VIRTIO_CAN_F_CAN_CLASSIC) 1
     OR push_bit (unat VIRTIO_CAN_F_CAN_FD) 1
     OR push_bit (VIRTIO_RING_F_INDIRECT_DESC B) 1
     OR PROTOCOL_FEATURES B"

definition protocol_features :: "bindings \<Rightarrow> u64" where
  "protocol_features B = PROTOCOL_MQ B OR PROTOCOL_CONFIG B OR PROTOCOL_REPLY_ACK B"

definition set_acked_features :: "u64 \<Rightarrow> ('w, 'q, 'z, 'e, unit) vhu_comp" where
  "set_acked_features f = modify (\<lambda>s. s\<lparr>backend := (backend s)\<lparr>acked_features := f\<rparr>\<rparr>)"

definition set_event_idx :: "bool \<Rightarrow> ('w, 'q, 'z, 'e, unit) vhu_comp" where
  "set_event_idx enabled = modify (\<lambda>s. s\<lparr>backend := (backend s)\<lparr>event_idx := enabled\<rparr>\<rparr>)"

definition update_memory :: "guest_memory \<Rightarrow> ('w, 'q, 'z, 'e, unit) vhu_comp" where
  "update_memory m = modify (\<lambda>s. s\<lparr>backend := (backend s)\<lparr>mem := Some m\<rparr>\<rparr>)"

text \<open>
  \<open>get_config\<close> copies \<open>size\<close> bytes from \<open>offset\<close> on out of the two bytes of the
  configuration by a raw pointer.  Where the range leaves the structure the read is
  undefined: the value is \<open>None\<close>.
\<close>

definition config_bytes :: "VirtioCanConfig \<Rightarrow> u8 list" where
  "config_bytes c = le16_bytes (status c)"

definition get_config ::
  "u32 \<Rightarrow> u32 \<Rightarrow> ('w, 'q, 'z, 'e, u8 list option) vhu_comp" where
  "get_config offset n =
     write_controller
       (get (\<lambda>s. let bytes = config_bytes (config (controller s)) in
          if unat offset + unat n \<le> length bytes
          then Some (take (unat n) (drop (unat offset) bytes))
          else None))"

definition set_vring_worker :: "('w, 'q) can_host \<Rightarrow> ('w, 'q, 'z, 'e, unit) vhu_comp" where
  "set_vring_worker H =
     bind (read_controller (get (\<lambda>s. rx_event_fd (controller s)))) (\<lambda>efd.
     bind (listen H efd EventSet_IN 4) (\<lambda>ok.
     unwrap_ok ok))"

end
