(* ===== verification/VhuCanFrames.thy ===== *)
theory VhuCanFrames
  imports VhuCan
begin

text \<open>
  What the CAN device makes of a frame: the translation of a request of the guest into the
  frame for the bus (\<open>tx_translate\<close>), of a frame from the bus into the message for the
  guest (\<open>rx_check\<close>, \<open>rx_translate\<close>), and the feature bits that both depend on.

  Each translation has a closed form, in which the order of the masks and checks of the
  code no longer shows; the bounds on the lengths, the frames that can never be sent or
  delivered, and the way of a frame through the whole device follow from it.
\<close>

section \<open>Feature bits\<close>

lemma check_features_bit: "check_features b f = bit (acked_features b) (unat f)"
  by (simp add: check_features_def bit_iff_and_push_bit_not_eq_0)

lemma features_value: "documented_bindings B \<Longrightarrow> features B = 0x171000003"
  by (simp add: features_def documented_bindings_def VIRTIO_CAN_F_CAN_CLASSIC_def
      VIRTIO_CAN_F_CAN_FD_def)

lemma rtr_not_offered:
  assumes "documented_bindings B" and "acked_features b AND NOT (features B) = 0"
  shows "\<not> check_features b VIRTIO_CAN_F_RTR_FRAMES"
proof -
  have "bit (features B) 3 = False"
    using features_value [OF assms(1)] by simp
  moreover have "\<not> (bit (acked_features b) 3 \<and> bit (NOT (features B)) 3)"
    using arg_cong [OF assms(2), of "\<lambda>x. bit x 3"] by (simp add: bit_and_iff)
  ultimately show ?thesis
    by (simp add: check_features_bit VIRTIO_CAN_F_RTR_FRAMES_def bit_not_iff)
qed



section \<open>From the guest to the bus\<close>

lemma tx_flags_standard:
  assumes "fl AND VIRTIO_CAN_FLAGS_EXTENDED = 0"
  shows "tx_flags fl AND VIRTIO_CAN_FLAGS_RTR = 0" and "tx_flags fl AND VIRTIO_CAN_FLAGS_FD = 0"
  using assms by (simp_all add: tx_flags_def can_flag_defs and.assoc)

lemma tx_flags_extended:
  assumes "fl AND VIRTIO_CAN_FLAGS_EXTENDED \<noteq> 0"
  shows "tx_flags fl AND VIRTIO_CAN_FLAGS_RTR = fl AND VIRTIO_CAN_FLAGS_RTR"
    and "tx_flags fl AND VIRTIO_CAN_FLAGS_FD = fl AND VIRTIO_CAN_FLAGS_FD"
  using assms by (simp_all add: tx_flags_def can_flag_defs and.assoc bit.conj_disj_distrib2)

text \<open>The frame for the bus, given its identifier and flags.\<close>

definition tx_frame :: "VirtioCanFrame \<Rightarrow> u32 \<Rightarrow> u32 \<Rightarrow> VirtioCanFrame" where
  "tx_frame request i fl =
     \<lparr>msg_type = VIRTIO_CAN_TX,
      sdu_length = tx_length (flags request) (sdu_length request), reserved = 0,
      flags = fl, can_id = i, sdu = take 64 (sdu request)\<rparr>"

lemma tx_standard:
  assumes "flags f AND VIRTIO_CAN_FLAGS_EXTENDED = 0" "msg_type f = VIRTIO_CAN_TX"
  shows "tx_translate b f =
    (if check_features b VIRTIO_CAN_F_CAN_CLASSIC then Inr (tx_frame f (can_id f) 0)
     else Inl UnexpectedClassicFlag)"
  using tx_flags_standard [OF assms(1)] assms(2)
  by (simp add: tx_translate_def tx_frame_def default_frame_def Let_def)

lemma tx_extended:
  assumes "flags f AND VIRTIO_CAN_FLAGS_EXTENDED \<noteq> 0" "msg_type f = VIRTIO_CAN_TX"
  shows "tx_translate b f =
    (let rtr = flags f AND VIRTIO_CAN_FLAGS_RTR \<noteq> 0;
         fd = flags f AND VIRTIO_CAN_FLAGS_FD \<noteq> 0;
         fl = (flags f AND CAN_EFF_MASK) OR CAN_EFF_FLAG;
         id = (if rtr then can_id f OR (fl OR CAN_RTR_FLAG) else can_id f)
     in if rtr \<and> \<not> (check_features b VIRTIO_CAN_F_CAN_CLASSIC \<and>
                    check_features b VIRTIO_CAN_F_RTR_FRAMES)
        then Inl UnexpectedRtrFlag
        else if fd then
          (if check_features b VIRTIO_CAN_F_CAN_FD then Inr (tx_frame f id (fl OR CAN_FRMF_TYPE_FD))
           else Inl UnexpectedFdFlag)
        else
          (if check_features b VIRTIO_CAN_F_CAN_CLASSIC then Inr (tx_frame f id 0)
           else Inl UnexpectedClassicFlag))"
  using tx_flags_extended [OF assms(1)] assms(2)
  by (simp add: tx_translate_def tx_frame_def default_frame_def Let_def,
      simp add: tx_flags_def assms(1))

text \<open>
  C16: the frame for the bus in closed form.  Without the flag for extended identifiers the
  masks clear the flags for FD and RTR before they are looked at, so such a request is
  always a classic data frame and only \<open>VIRTIO_CAN_F_CAN_CLASSIC\<close> is asked for; with it, an RTR
  request needs both features and an FD request its own.
\<close>

theorem tx_translate_closed_form:
  "tx_translate b f =
    (let classic = check_features b VIRTIO_CAN_F_CAN_CLASSIC;
         extended = flags f AND VIRTIO_CAN_FLAGS_EXTENDED \<noteq> 0;
         rtr = extended \<and> flags f AND VIRTIO_CAN_FLAGS_RTR \<noteq> 0;
         fd = extended \<and> flags f AND VIRTIO_CAN_FLAGS_FD \<noteq> 0;
         fl = (flags f AND CAN_EFF_MASK) OR CAN_EFF_FLAG;
         id = (if rtr then can_id f OR (fl OR CAN_RTR_FLAG) else can_id f)
     in if msg_type f \<noteq> VIRTIO_CAN_TX then Inl (UnexpectedCanMsgType (msg_type f))
        else if rtr \<and> \<not> (classic \<and> check_features b VIRTIO_CAN_F_RTR_FRAMES)
        then Inl UnexpectedRtrFlag
        else if fd
        then if check_features b VIRTIO_CAN_F_CAN_FD then Inr (tx_frame f id (fl OR CAN_FRMF_TYPE_FD))
             else Inl UnexpectedFdFlag
        else if classic then Inr (tx_frame f id 0) else Inl UnexpectedClassicFlag)"
proof (cases "msg_type f = VIRTIO_CAN_TX")
  case False
  then show ?thesis by (simp add: tx_translate_def)
next
  case True
  then show ?thesis
    by (cases "flags f AND VIRTIO_CAN_FLAGS_EXTENDED = 0") (simp_all add: tx_standard tx_extended Let_def)
qed

lemma tx_translate_sdu:
  assumes "tx_translate b f = Inr g"
  shows "sdu_length g = tx_length (flags f) (sdu_length f)" and "sdu g = take 64 (sdu f)"
  using assms by (auto simp: tx_translate_def Let_def split: if_splits)

lemma tx_translate_wf: "tx_translate b f = Inr g \<Longrightarrow> frame_wf f \<Longrightarrow> frame_wf g"
  by (simp add: frame_wf_def tx_translate_sdu)

lemma tx_length_bound:
  "unat (tx_length fl n) \<le> (if fl AND VIRTIO_CAN_FLAGS_FD = 0 then 8 else 64) \<and> tx_length fl n \<le> n"
  by (auto simp: tx_length_def word_le_nat_alt word_less_nat_alt not_less)


definition example_backend :: VhostUserCanBackend where
  "example_backend = \<lparr>acked_features = 0x3, event_idx = False, exit_event = 0, mem = Some 0\<rparr>"

definition example_request :: VirtioCanFrame where
  "example_request = default_frame
     \<lparr>msg_type := VIRTIO_CAN_TX, can_id := 0x123, sdu_length := 12, sdu := replicate 64 7\<rparr>"

lemma example_translates:
  "tx_translate example_backend example_request = Inr (tx_frame example_request 0x123 0)"
  by (subst tx_standard)
     (simp_all add: example_request_def example_backend_def check_features_bit default_frame_def
       VIRTIO_CAN_F_CAN_CLASSIC_def)


lemma rtr_big: "unat (i OR (fl OR CAN_RTR_FLAG)) > 0x7FF"
proof -
  have "CAN_RTR_FLAG AND (i OR (fl OR CAN_RTR_FLAG)) = CAN_RTR_FLAG"
    by (simp add: bit.conj_disj_distrib or.commute or.left_commute)
  then have "CAN_RTR_FLAG \<le> i OR (fl OR CAN_RTR_FLAG)"
    by (metis word_and_le1)
  then show ?thesis by (simp add: word_le_nat_alt can_flag_defs)
qed

text \<open>
  C22: with a driver that acknowledges only what the device offers, no extended frame that asks
  for remote transmission is accepted: \<open>features\<close> never offers \<open>VIRTIO_CAN_F_RTR_FRAMES\<close>.
\<close>

theorem extended_rtr_rejected:
  assumes "documented_bindings B" and "acked_features b AND NOT (features B) = 0"
    and "msg_type f = VIRTIO_CAN_TX" and "flags f AND VIRTIO_CAN_FLAGS_EXTENDED \<noteq> 0"
    and "flags f AND VIRTIO_CAN_FLAGS_RTR \<noteq> 0"
  shows "tx_translate b f = Inl UnexpectedRtrFlag"
  using rtr_not_offered [OF assms(1,2)] assms(3-) by (simp add: tx_extended Let_def)

theorem extended_rtr_rejected_witness:
  "tx_translate example_backend (example_request\<lparr>flags := 0xA000\<rparr>) = Inl UnexpectedRtrFlag"
  by (rule extended_rtr_rejected [OF example_bindings_documented])
     (simp_all add: features_value [OF example_bindings_documented] example_backend_def
       example_request_def can_flag_defs)

section \<open>From the bus to the guest\<close>

text \<open>
  Which frames count as FD frames: those with the flag of the socket, and, on the interface
  \<open>vcan0\<close>, all longer than eight bytes if FD is negotiated.
\<close>

definition rx_is_fd :: "VhostUserCanBackend \<Rightarrow> rust_string \<Rightarrow> VirtioCanFrame \<Rightarrow> bool" where
  "rx_is_fd b name r \<longleftrightarrow> flags r AND CAN_FRMF_TYPE_FD \<noteq> 0 \<or>
     (check_features b VIRTIO_CAN_F_CAN_FD \<and> sdu_length r > 8 \<and> name = str ''vcan0'')"

lemma hack_fd: "flags (vcan_hack b n r) AND CAN_FRMF_TYPE_FD \<noteq> 0 \<longleftrightarrow> rx_is_fd b n r"
  by (auto simp: vcan_hack_def rx_is_fd_def bit.conj_disj_distrib2 can_flag_defs)

lemma vcan_hack_other:
  "sdu_length (vcan_hack b n r) = sdu_length r" "sdu (vcan_hack b n r) = sdu r"
  by (simp_all add: vcan_hack_def)

lemma rx_length:
  "sdu_length (rx_translate b n r) = min (if rx_is_fd b n r then 64 else 8) (sdu_length r)"
  by (auto simp: rx_translate_def rx_body_def hack_fd vcan_hack_other Let_def rx_header_def
      min_def not_less)

lemma rx_id:
  "can_id (rx_translate b n r) =
     can_id r AND (if can_id r AND CAN_EFF_FLAG \<noteq> 0 then CAN_EFF_MASK else CAN_SFF_MASK)"
  by (auto simp: rx_translate_def rx_body_def Let_def rx_header_def)

lemma rx_flags:
  "flags (rx_translate b n r) =
    (if can_id r AND CAN_RTR_FLAG \<noteq> 0 then (if rx_is_fd b n r then VIRTIO_CAN_FLAGS_FD else 0)
     else if can_id r AND CAN_EFF_FLAG \<noteq> 0 then
       VIRTIO_CAN_FLAGS_EXTENDED OR (if rx_is_fd b n r then VIRTIO_CAN_FLAGS_FD else 0)
     else VIRTIO_CAN_FLAGS_FD)"
  by (simp add: rx_translate_def rx_body_def hack_fd vcan_hack_other Let_def rx_header_def
      default_frame_def)
     (simp add: can_flag_defs)

lemma rx_sdu: "sdu (rx_translate b n r) = take 64 (sdu r)"
  by (simp add: rx_translate_def rx_body_def vcan_hack_def Let_def)

text \<open>
  C17: the message for the guest in closed form.  The payload is clamped to 64 or 8 bytes, the
  identifier to 29 or 11 bits.  The flags of a standard frame always say FD, those of a
  remote frame say FD or nothing.
\<close>

theorem rx_translate_closed_form:
  "rx_translate b name r =
    \<lparr>msg_type = VIRTIO_CAN_RX,
     sdu_length = min (if rx_is_fd b name r then 64 else 8) (sdu_length r),
     reserved = 0,
     flags =
       (if can_id r AND CAN_RTR_FLAG \<noteq> 0 then (if rx_is_fd b name r then VIRTIO_CAN_FLAGS_FD else 0)
        else if can_id r AND CAN_EFF_FLAG \<noteq> 0 then
          VIRTIO_CAN_FLAGS_EXTENDED OR (if rx_is_fd b name r then VIRTIO_CAN_FLAGS_FD else 0)
        else VIRTIO_CAN_FLAGS_FD),
     can_id = can_id r AND (if can_id r AND CAN_EFF_FLAG \<noteq> 0 then CAN_EFF_MASK else CAN_SFF_MASK),
     sdu = take 64 (sdu r)\<rparr>"
  by (rule VirtioCanFrame.equality)
     (simp_all add: rx_length rx_id rx_flags,
      simp_all add: rx_translate_def rx_body_def rx_header_def vcan_hack_def default_frame_def Let_def)

text \<open>C33: the guest is never told that a frame is a remote frame, whatever came from the bus.\<close>

theorem rx_never_rtr: "flags (rx_translate b name r) AND VIRTIO_CAN_FLAGS_RTR = 0"
  by (simp add: rx_flags) (simp add: can_flag_defs)

lemma rx_translate_wf: "frame_wf r \<Longrightarrow> frame_wf (rx_translate b name r)"
  by (simp add: frame_wf_def rx_sdu)



section \<open>The way of a frame through the device\<close>

definition sent_frame :: "VirtioCanFrame \<Rightarrow> can_fd_frame" where
  "sent_frame f =
     \<lparr>raw_id = can_id f, id_flags = 0, fd_data = take (unat (sdu_length f)) (sdu f)\<rparr>"

lemma standard_id_masks:
  assumes "unat (w :: u32) \<le> 0x7FF"
  shows "w AND CAN_SFF_MASK = w" and "w AND CAN_EFF_FLAG = 0" and "w AND CAN_RTR_FLAG = 0"
proof -
  have "CAN_SFF_MASK = mask 11" by (simp add: can_flag_defs mask_eq_exp_minus_1)
  moreover have "take_bit 11 w = w"
    using assms by (simp add: word_unat_eq_iff unsigned_take_bit_eq take_bit_nat_eq_self)
  ultimately show w: "w AND CAN_SFF_MASK = w" by (simp add: take_bit_eq_mask)
  have "(w AND CAN_SFF_MASK) AND CAN_EFF_FLAG = 0" "(w AND CAN_SFF_MASK) AND CAN_RTR_FLAG = 0"
    by (simp_all add: can_flag_defs and.assoc)
  then show "w AND CAN_EFF_FLAG = 0" and "w AND CAN_RTR_FLAG = 0" by (simp_all only: w)
qed

lemma virtio_of_sent:
  assumes "frame_wf g" and "unat (sdu_length g) \<le> 64"
  shows "\<exists>v. virtio_of_fd (sent_frame g) s = (Ok v, s, []) \<and> frame_wf v \<and> can_id v = can_id g \<and>
     flags v = 0 \<and> sdu_length v = sdu_length g \<and>
     take (unat (sdu_length g)) (sdu v) = take (unat (sdu_length g)) (sdu g)"
  using assms
  by (auto simp: virtio_of_fd_def sent_frame_def copy_sdu_pad ret_def frame_wf_def min_def)



end
