(* ===== verification/VhuCanRuns.thy ===== *)
theory VhuCanRuns
  imports VhuCanFrames
begin

text \<open>
  The runs of the CAN device's handlers (\<open>vhu_can.rs\<close>).

  \<open>tx_spec\<close> and \<open>rx_spec\<close> are abstract specifications of one chain of the transmit queue and
  of one serving of the receive queue: every outcome with exactly the calls that lead to it,
  in order.  The handlers refine them.  The loops are interpretations of \<open>chain_handler\<close>, the
  receive queue one of \<open>queue_handler\<close>; what \<open>handle_event\<close> does to the guest follows
  from these contracts, for every way the host and the guest can answer.
\<close>

section \<open>The loops of the transmit and the control queue\<close>

lemma post_operation:
  assumes "\<And>r s' es. Q r s' (map Device es)"
  shows "post (operation H f) s Q"
proof -
  have "Q r s' []" and "Q r s' [Device e]" for r s' e
    using assms [of r s' "[]"] assms [of r s' "[e]"] by simp_all
  then show ?thesis
    unfolding operation_def by (simp add: post_simps Let_def split: prod.split option.split)
qed

lemma tx_chain_contract:
  "post (process_tx_chain H vr c) s (\<lambda>r s' es.
     used_on vr es = (if r = Ok () then [head_index c] else []) \<and> guarded_writes {} es)"
  unfolding process_tx_chain_def vhost_calls
  by (simp add: post_simps split: prod.split option.split sum.split, intro allI impI conjI post_operation)
     (auto simp: post_simps split: prod.split outcome.split)

lemma tx_chain_events: "keeps (emitting (is_handler_event v)) (process_tx_chain H vr c)"
  unfolding process_tx_chain_def operation_def vhost_calls
  by (intro emit.keeps_rules emit.keeps_lock_write emit_ext) (simp_all add: emitting_def)

interpretation tx: chain_handler "process_tx_chain H vr" vr "process_tx_requests H" for H vr
  by unfold_locales
     (use postD [OF tx_chain_contract] in blast, use postD [OF tx_chain_contract] in blast,
      simp add: process_tx_requests_def, rule tx_chain_events)

lemma ctrl_chain_contract:
  "post (process_ctrl_chain H vr c) s (\<lambda>r s' es.
     used_on vr es = (if r = Ok () then [head_index c] else []) \<and> guarded_writes {} es)"
  unfolding process_ctrl_chain_def vhost_calls
  by (auto simp: post_simps Let_def split: prod.split option.split)

lemma ctrl_chain_events: "keeps (emitting (is_handler_event v)) (process_ctrl_chain H vr c)"
  unfolding process_ctrl_chain_def vhost_calls
  by (intro emit.keeps_rules emit_ext) (simp_all add: emitting_def)

interpretation ctrl: chain_handler "process_ctrl_chain H vr" vr "process_ctrl_requests H" for H vr
  by unfold_locales
     (use postD [OF ctrl_chain_contract] in blast, use postD [OF ctrl_chain_contract] in blast,
      simp add: process_ctrl_requests_def, rule ctrl_chain_events)

section \<open>One chain of the transmit queue, as a specification\<close>

lemma post_operation_laws:
  assumes "frame_laws H" and "frame_wf f"
    and "\<And>ok w. unat (can_id f) \<le> 0x7FF \<Longrightarrow>
      Q (if ok then Ok VIRTIO_CAN_STATUS_OK else Err CanSocketWriteFailed) (s\<lparr>world := w\<rparr>)
        [Device (Can_Write (can_out_socket (controller s)) (sent_frame f) ok)]"
    and "\<And>p. \<not> unat (can_id f) \<le> 0x7FF \<Longrightarrow> Q (Panic p) s []"
  shows "post (operation H f) s Q"
proof (cases "unat (can_id f) \<le> 0x7FF")
  case True
  with operation_sends [OF assms(1,2) True, of s] assms(3) show ?thesis
    by (force simp: post_def sent_frame_def)
next
  case False
  with operation_panics [OF assms(1), of f s] assms(4) show ?thesis
    by (auto simp: post_def)
qed

inductive tx_spec ::
  "VhostUserCanBackend \<Rightarrow> can_socket \<Rightarrow> bool \<Rightarrow> vring \<Rightarrow> desc_chain \<Rightarrow>
   (vhu_can_error, unit) outcome \<Rightarrow> can_trace \<Rightarrow> bool \<Rightarrow> bool"
  for b :: VhostUserCanBackend and socket :: can_socket and poisoned :: bool
    and vr :: vring and c :: desc_chain
where
  count: "length ds \<noteq> 2 \<Longrightarrow>
    tx_spec b socket poisoned vr c (Err (UnexpectedDescriptorCount (length ds))) [Chain_Collect c ds] poisoned"
| request_write_only: "length ds = 2 \<Longrightarrow> is_write_only (ds ! 0) \<Longrightarrow>
    tx_spec b socket poisoned vr c (Err (UnexpectedWriteOnlyDescriptor 0)) [Chain_Collect c ds] poisoned"
| read_failed: "length ds = 2 \<Longrightarrow> \<not> is_write_only (ds ! 0) \<Longrightarrow>
    tx_spec b socket poisoned vr c (Err DescriptorReadFailed)
      [Chain_Collect c ds, Memory_Read c (addr (ds ! 0)) size_of_frame None] poisoned"
| rejected: "length ds = 2 \<Longrightarrow> \<not> is_write_only (ds ! 0) \<Longrightarrow> length bs = size_of_frame \<Longrightarrow>
    tx_translate b (frame_of bs) = Inl e \<Longrightarrow>
    tx_spec b socket poisoned vr c (Err e)
      [Chain_Collect c ds, Memory_Read c (addr (ds ! 0)) size_of_frame (Some bs)] poisoned"
| response_readable: "length ds = 2 \<Longrightarrow> \<not> is_write_only (ds ! 0) \<Longrightarrow> length bs = size_of_frame \<Longrightarrow>
    tx_translate b (frame_of bs) = Inr f \<Longrightarrow> \<not> is_write_only (ds ! 1) \<Longrightarrow>
    tx_spec b socket poisoned vr c (Err (UnexpectedReadableDescriptor 1))
      [Chain_Collect c ds, Memory_Read c (addr (ds ! 0)) size_of_frame (Some bs)] poisoned"
| panicked: "length ds = 2 \<Longrightarrow> \<not> is_write_only (ds ! 0) \<Longrightarrow> length bs = size_of_frame \<Longrightarrow>
    tx_translate b (frame_of bs) = Inr f \<Longrightarrow> is_write_only (ds ! 1) \<Longrightarrow>
    poisoned \<or> \<not> unat (can_id f) \<le> 0x7FF \<Longrightarrow>
    tx_spec b socket poisoned vr c (Panic p)
      [Chain_Collect c ds, Memory_Read c (addr (ds ! 0)) size_of_frame (Some bs)] True"
| status_lost: "length ds = 2 \<Longrightarrow> \<not> is_write_only (ds ! 0) \<Longrightarrow> length bs = size_of_frame \<Longrightarrow>
    tx_translate b (frame_of bs) = Inr f \<Longrightarrow> is_write_only (ds ! 1) \<Longrightarrow>
    \<not> poisoned \<Longrightarrow> unat (can_id f) \<le> 0x7FF \<Longrightarrow>
    st = (if sent then VIRTIO_CAN_STATUS_OK else VIRTIO_CAN_STATUS_ERR) \<Longrightarrow>
    tx_spec b socket poisoned vr c (Err DescriptorWriteFailed)
      [Chain_Collect c ds, Memory_Read c (addr (ds ! 0)) size_of_frame (Some bs),
       Device (Can_Write socket (sent_frame f) sent),
       Memory_Write c [st] (addr (ds ! 1)) False] False"
| completed: "length ds = 2 \<Longrightarrow> \<not> is_write_only (ds ! 0) \<Longrightarrow> length bs = size_of_frame \<Longrightarrow>
    tx_translate b (frame_of bs) = Inr f \<Longrightarrow> is_write_only (ds ! 1) \<Longrightarrow>
    \<not> poisoned \<Longrightarrow> unat (can_id f) \<le> 0x7FF \<Longrightarrow>
    st = (if sent then VIRTIO_CAN_STATUS_OK else VIRTIO_CAN_STATUS_ERR) \<Longrightarrow>
    tx_spec b socket poisoned vr c (Ok ())
      [Chain_Collect c ds, Memory_Read c (addr (ds ! 0)) size_of_frame (Some bs),
       Device (Can_Write socket (sent_frame f) sent),
       Memory_Write c [st] (addr (ds ! 1)) True,
       Add_Used vr (head_index c) (len (ds ! 1)) used] False"

lemma tx_chain_refines_post:
  assumes "frame_laws H" 
  shows "post (process_tx_chain H vr c) s (\<lambda>r s' es.
     tx_spec (backend s) (can_out_socket (controller s)) (controller_poisoned s) vr c r es (controller_poisoned s'))"
  unfolding process_tx_chain_def vhost_calls
  by (simp add: post_simps split: prod.split option.split sum.split)
     (auto simp: post_simps split: prod.splits intro!: post_operation_laws assms elim!: tx_translate_wf
       intro: frame_of_wf, (rule tx_spec.intros [unfolded One_nat_def]; simp)+)


section \<open>One serving of the receive queue, as a specification\<close>

inductive rx_spec ::
  "VhostUserCanBackend \<Rightarrow> rust_string \<Rightarrow> vring \<Rightarrow> desc_chain list \<Rightarrow>
   (vhu_can_error, bool) outcome \<Rightarrow> can_trace \<Rightarrow> bool"
  for b :: VhostUserCanBackend and name :: rust_string and vr :: vring
where
  nothing: "rx_spec b name vr [] (Ok True) []"
| count: "length ds \<noteq> 1 \<Longrightarrow>
    rx_spec b name vr (c # cs) (Err (UnexpectedDescriptorCount (length ds))) [Chain_Collect c ds]"
| readable: "length ds = 1 \<Longrightarrow> \<not> is_write_only (ds ! 0) \<Longrightarrow>
    rx_spec b name vr (c # cs) (Err (UnexpectedReadableDescriptor 1)) [Chain_Collect c ds]"
| poisoned: "length ds = 1 \<Longrightarrow> is_write_only (ds ! 0) \<Longrightarrow>
    rx_spec b name vr (c # cs) (Panic Lock_Poisoned) [Chain_Collect c ds]"
| empty: "length ds = 1 \<Longrightarrow> is_write_only (ds ! 0) \<Longrightarrow>
    rx_spec b name vr (c # cs) (Err HandleEventUnknown)
      [Chain_Collect c ds, Device (Fifo_Remove None)]"
| error_frame: "length ds = 1 \<Longrightarrow> is_write_only (ds ! 0) \<Longrightarrow> can_id f AND CAN_ERR_FLAG \<noteq> 0 \<Longrightarrow>
    rx_spec b name vr (c # cs) (Ok True)
      [Chain_Collect c ds, Device (Fifo_Remove (Some f))]"
| not_negotiated: "length ds = 1 \<Longrightarrow> is_write_only (ds ! 0) \<Longrightarrow> can_id f AND CAN_ERR_FLAG = 0 \<Longrightarrow> rx_check b f = Inl e \<Longrightarrow>
    rx_spec b name vr (c # cs) (Err e)
      [Chain_Collect c ds, Device (Fifo_Remove (Some f))]"
| write_failed: "length ds = 1 \<Longrightarrow> is_write_only (ds ! 0) \<Longrightarrow> can_id f AND CAN_ERR_FLAG = 0 \<Longrightarrow> rx_check b f = Inr () \<Longrightarrow>
    rx_spec b name vr (c # cs) (Err DescriptorWriteFailed)
      [Chain_Collect c ds, Device (Fifo_Remove (Some f)),
       Memory_Write c (frame_bytes (rx_translate b name f)) (addr (ds ! 0)) False]"
| delivered: "length ds = 1 \<Longrightarrow> is_write_only (ds ! 0) \<Longrightarrow> can_id f AND CAN_ERR_FLAG = 0 \<Longrightarrow> rx_check b f = Inr () \<Longrightarrow>
    rx_spec b name vr (c # cs) (Ok True)
      [Chain_Collect c ds, Device (Fifo_Remove (Some f)),
       Memory_Write c (frame_bytes (rx_translate b name f)) (addr (ds ! 0)) True,
       Add_Used vr (head_index c) (len (ds ! 0)) used]"

lemma post_pop:
  "(\<And>f q. Q (Ok f) (s\<lparr>controller := (controller s)\<lparr>rx_fifo := q\<rparr>\<rparr>) [Device (Fifo_Remove (Some f))]) \<Longrightarrow>
   (\<And>q. Q (Err CanPopFailed) (s\<lparr>controller := (controller s)\<lparr>rx_fifo := q\<rparr>\<rparr>) [Device (Fifo_Remove None)]) \<Longrightarrow>
   post (pop H) s Q"
  by (simp add: post_def pop_def split: prod.split option.split)

lemma rx_refines:
  "post (process_rx_requests H requests vr) s (\<lambda>r s' es.
     rx_spec (backend s) (can_in_name (controller s)) vr requests r es)"
proof (cases requests)
  case Nil
  then show ?thesis by (simp add: process_rx_requests_def post_simps rx_spec.nothing)
next
  case (Cons c cs)
  then show ?thesis
  unfolding process_rx_requests_def vhost_calls
  by (simp add: post_simps split: prod.split option.split sum.split)
     (auto simp: post_simps split: prod.splits sum.splits intro!: post_pop,
      (rule rx_spec.intros [unfolded One_nat_def]; simp)+)
qed

section \<open>What the receive queue does to the guest\<close>

lemma emit_pop: "(\<And>x. P (Device (Fifo_Remove x))) \<Longrightarrow> keeps (emitting P) (pop H)"
  by (rule keepsI) (simp add: post_def pop_def emitting_def split: prod.split)

lemma rx_handler_events: "keeps (emitting (is_handler_event v)) (process_rx_requests H cs vr)"
  unfolding process_rx_requests_def vhost_calls Let_def
  by (cases cs)
     (auto simp: emitting_def intro!: emit.keeps_rules emit.keeps_lock_write emit.keeps_lock_read
        emit_ext emit_pop)

lemma rx_spec_used:
  "rx_spec b name vr cs r es \<Longrightarrow> used_on vr es \<in> {[], [head_index (hd cs)]} \<and> (cs = [] \<longrightarrow> used_on vr es = [])"
  by (induction rule: rx_spec.induct) auto

lemma rx_spec_writes: "rx_spec b name vr cs r es \<Longrightarrow> guarded_writes {} es"
  by (induction rule: rx_spec.induct) auto

lemma rx_spec_frames:
  "rx_spec b name vr cs r es \<Longrightarrow>
     length (used_on vr es) \<le> length (popped es) \<and> length (popped es) \<le> 1 \<and>
     subseq (written es) (map (\<lambda>f. frame_bytes (rx_translate b name f)) (popped es))"
  by (induction rule: rx_spec.induct) auto

interpretation rx: queue_handler "process_rx_requests H" vr for H vr
proof
  fix cs s r s' es
  assume run: "process_rx_requests H cs vr s = (r, s', es)"
  note spec = postD [OF rx_refines run]
  from rx_spec_used [OF spec] show "subseq (used_on vr es) (map head_index cs)"
    by (cases cs) auto
  show "offered_on vr es = []" by (rule offered_none [OF keepsD [OF rx_handler_events run]])
  show "guarded_writes {} es" by (rule rx_spec_writes [OF spec])
qed

text \<open>
  While the queue is served the backend stays as it is, and so does the controller except for
  its queue.  Each chain returned answers a frame taken from that queue, each look at the
  virtqueue takes at most one, and what is written to the guest are those frames, translated,
  in their order.
\<close>

definition rx_progress ::
  "vring \<Rightarrow> ('w, 'q, 'z) can_device_scheme \<Rightarrow> can_trace \<Rightarrow> ('w, 'q, 'z) can_device_scheme \<Rightarrow> bool" where
  "rx_progress v s es s' \<longleftrightarrow>
     backend s' = backend s \<and> can_in_name (controller s') = can_in_name (controller s) \<and>
     length (used_on v es) \<le> length (popped es) \<and> length (popped es) \<le> looks_at v es \<and>
     subseq (written es)
       (map (\<lambda>f. frame_bytes (rx_translate (backend s) (can_in_name (controller s)) f)) (popped es))"

interpretation progress: run_relation "rx_progress v" for v
  by unfold_locales (auto simp: rx_progress_def intro: list_emb_append_mono)

definition backend_fixed ::
  "('w, 'q, 'z) can_device_scheme \<Rightarrow> can_trace \<Rightarrow> ('w, 'q, 'z) can_device_scheme \<Rightarrow> bool" where
  "backend_fixed s es s' \<longleftrightarrow> backend s' = backend s"

interpretation backend: run_relation backend_fixed
  by unfold_locales (simp_all add: backend_fixed_def)

lemma backend_ext: "keeps backend_fixed (ext f mk)"
  by (rule keeps_ext) (simp add: backend_fixed_def)

lemma backend_pop: "keeps backend_fixed (pop H)"
  by (rule keepsI) (simp add: post_def pop_def backend_fixed_def split: prod.split)

lemma backend_lock: "keeps backend_fixed m \<Longrightarrow> keeps backend_fixed (write_controller m)"
  by (erule backend.keeps_lock_write) (simp add: backend_fixed_def)

lemmas backend_rules =
  backend.keeps_rules backend.keeps_lock_read backend_lock backend_ext backend_pop

lemma rx_handler_backend: "keeps backend_fixed (process_rx_requests H cs vr)"
  unfolding process_rx_requests_def vhost_calls Let_def
  by (cases cs) (auto intro!: backend_rules)

lemma rx_handler_controller: "keeps controller_fixed (process_rx_requests H cs vr)"
  unfolding process_rx_requests_def vhost_calls Let_def
  by (cases cs) (auto intro!: controller_rules)

lemma rx_handler_looks:
  assumes "process_rx_requests H cs vr s = (r, s', es)"
  shows "looks_at vr es = 0"
  using keepsD [OF rx_handler_events assms]
  unfolding emitting_def by (induction vr es rule: looks_at.induct) auto

lemma rx_queue_progress: "keeps (rx_progress vr) (process_rx_queue H vr)"
proof (rule keepsI)
  fix s :: "('a, 'b, 'c) can_device_scheme"
  have handler: "backend s1 = backend s \<and> can_in_name (controller s1) = can_in_name (controller s) \<and>
      length (used_on vr es1) \<le> length (popped es1) \<and> length (popped es1) \<le> 1 \<and> looks_at vr es1 = 0 \<and>
      subseq (written es1)
        (map (\<lambda>f. frame_bytes (rx_translate (backend s) (can_in_name (controller s)) f)) (popped es1))"
    if run: "process_rx_requests H cs vr (s\<lparr>world := w\<rparr>) = (r1, s1, es1)" for cs w r1 s1 es1
    using keepsD [OF rx_handler_backend run] keepsD [OF rx_handler_controller run]
      rx_spec_frames [OF postD [OF rx_refines run]] rx_handler_looks [OF run]
    by (simp add: backend_fixed_def controller_fixed_def) (metis CanController.select_convs(2) CanController.update_convs(6) CanController.surjective)
  show "post (process_rx_queue H vr) s (\<lambda>r s' es. rx_progress vr s es s')"
    unfolding process_rx_queue_def
    by (rule post_serve_queue) (auto simp: rx_progress_def dest!: handler)
qed


end
