(* ===== verification/CanExample.thy ===== *)
theory CanExample
  imports VhuCanRuns
begin

text \<open>
  A concrete host for the CAN device, on which the theorems about runs are applied: every
  virtqueue offers one chain of the given descriptors, guest memory holds the given bytes,
  the receive queue is a list and all calls succeed.  It satisfies the laws of the crates.
\<close>

definition example_chain :: desc_chain where
  "example_chain = \<lparr>head_index = 5, chain_handle = 0\<rparr>"

definition example_host :: "descriptor list \<Rightarrow> u8 list \<Rightarrow> (unit, VirtioCanFrame list) can_host" where
  "example_host ds bytes =
     \<lparr>queue_iter = (\<lambda>v m w. (Some [example_chain], w)),
      chain_collect = (\<lambda>c w. (ds, w)),
      memory_read = (\<lambda>c a n w. (Some (\<lambda>i. bytes ! i), w)),
      memory_write = (\<lambda>c bs a w. (True, w)),
      vring_add_used = (\<lambda>v h n w. (True, w)),
      vring_signal_used_queue = (\<lambda>v w. (True, w)),
      vring_disable_notification = (\<lambda>v w. (True, w)),
      vring_enable_notification = (\<lambda>v w. (Some False, w)),
      vring_get_kick = (\<lambda>v w. (True, w)),
      eventfd_new = (\<lambda>w. (Some 9, w)),
      eventfd_write = (\<lambda>fd n w. (True, w)),
      eventfd_read = (\<lambda>fd w. (Some 1, w)),
      register_listener = (\<lambda>fd ev d w. (True, w)),
      daemon_new = (\<lambda>name w. (True, w)),
      daemon_epoll_handlers = (\<lambda>w. (1, w)),
      listener_new = (\<lambda>path unlink w. (True, w)),
      daemon_start = (\<lambda>w. (True, w)),
      daemon_wait = (\<lambda>w. (Stopped, w)),
      fifo_new = [],
      fifo_add = (\<lambda>x q. (True, q @ [x])),
      fifo_remove = (\<lambda>q. case q of [] \<Rightarrow> (None, []) | x # xs \<Rightarrow> (Some x, xs)),
      can_open = (\<lambda>name w. (Some 4, w)),
      can_read_frame = (\<lambda>socket w. (None, w)),
      can_write_frame = (\<lambda>socket f w. (True, w)),
      standard_id_new = (\<lambda>i. if i \<le> 0x7FF then Some (StandardId i) else None),
      can_fd_frame_new = (\<lambda>i d. case i of StandardId n \<Rightarrow>
        if length d \<le> 64 then Some \<lparr>raw_id = ucast n, id_flags = 0, fd_data = d\<rparr> else None)\<rparr>"

definition example_device :: "VirtioCanFrame list \<Rightarrow> bool \<Rightarrow> (unit, VirtioCanFrame list) can_device" where
  "example_device q idx =
     \<lparr>world = (),
      controller = \<lparr>config = \<lparr>status = 0\<rparr>, can_in_name = str ''can0'', can_out_name = str ''can1'',
        can_out_socket = 4, rx_event_fd = 9, rx_fifo = q\<rparr>,
      controller_poisoned = False,
      backend = example_backend\<lparr>event_idx := idx\<rparr>\<rparr>"

definition tx_descriptors :: "descriptor list" where
  "tx_descriptors =
     [\<lparr>addr = 0x1000, len = 80, is_write_only = False\<rparr>, \<lparr>addr = 0x2000, len = 1, is_write_only = True\<rparr>]"

definition rx_descriptors :: "descriptor list" where
  "rx_descriptors = [\<lparr>addr = 0x3000, len = 80, is_write_only = True\<rparr>]"

lemma example_fifo_laws: "fifo_laws (example_host ds bytes) (\<lambda>q. q)"
  by (auto simp: fifo_laws_def example_host_def split: list.splits)

lemma example_frame_laws: "frame_laws (example_host ds bytes)"
  by (auto simp: frame_laws_def example_host_def)

lemma example_supply_laws: "supply_laws (example_host ds bytes) (\<lambda>_. 0)"
  by (simp add: supply_laws_def example_host_def)

lemma example_reads: "length bytes = n \<Longrightarrow> map (\<lambda>i. bytes ! i) [0..<n] = bytes"
  by (auto simp: map_nth)

lemma example_host_answers [simp]:
  "queue_iter (example_host ds bytes) v m w = (Some [example_chain], w)"
  "chain_collect (example_host ds bytes) c w = (ds, w)"
  "memory_read (example_host ds bytes) c a n w = (Some (\<lambda>i. bytes ! i), w)"
  "memory_write (example_host ds bytes) c bs a w = (True, w)"
  "vring_add_used (example_host ds bytes) v h l w = (True, w)"
  "vring_signal_used_queue (example_host ds bytes) v w = (True, w)"
  "vring_disable_notification (example_host ds bytes) v w = (True, w)"
  "vring_enable_notification (example_host ds bytes) v w = (Some False, w)"
  "eventfd_new (example_host ds bytes) w = (Some 9, w)"
  "register_listener (example_host ds bytes) fd ev tag w = (True, w)"
  "daemon_new (example_host ds bytes) name w = (True, w)"
  "daemon_epoll_handlers (example_host ds bytes) w = (1, w)"
  "can_open (example_host ds bytes) name w = (Some 4, w)"
  "eventfd_read (example_host ds bytes) fd w = (Some 1, w)"
  "eventfd_write (example_host ds bytes) fd k w = (True, w)"
  "fifo_add (example_host ds bytes) x q = (True, q @ [x])"
  "fifo_remove (example_host ds bytes) [] = (None, [])"
  "fifo_remove (example_host ds bytes) (x # q) = (Some x, q)"
  "can_write_frame (example_host ds bytes) socket g w = (True, w)"
  "standard_id_new (example_host ds bytes) i = (if i \<le> 0x7FF then Some (StandardId i) else None)"
  "can_fd_frame_new (example_host ds bytes) (StandardId i) d =
     (if length d \<le> 64 then Some \<lparr>raw_id = ucast i, id_flags = 0, fd_data = d\<rparr> else None)"
  by (simp_all add: example_host_def)

lemmas example_run_defs =
  vhost_calls bind_def ext_def get_def ret_def fail_def panic_def unwrap_def unwrap_ok_def ok_or_def
  ensure_def index_def of_sum_def attempt_def map_err_def lock_write_def lock_read_def bind_run_def
  then_ret_def serve_queue_def serve_event_def example_device_def

lemma example_operation:
  "operation (example_host ds bytes) (tx_frame example_request 0x123 0) s =
     (Ok VIRTIO_CAN_STATUS_OK, s\<lparr>world := ()\<rparr>,
      [Device (Can_Write (can_out_socket (controller s))
         \<lparr>raw_id = 0x123, id_flags = 0, fd_data = replicate 8 7\<rparr> True)])"
  by (simp add: operation_def u16_try_from_def tx_frame_def example_request_def default_frame_def
      tx_length_def can_flag_defs Let_def example_run_defs)

lemma example_backend_idx:
  "tx_translate (example_backend\<lparr>event_idx := i\<rparr>) f = tx_translate example_backend f"
proof -
  have "check_features (example_backend\<lparr>event_idx := i\<rparr>) n = check_features example_backend n" for n
    by (simp add: check_features_def)
  then show ?thesis unfolding tx_translate_def by (simp only:)
qed

lemma example_backend_mem: "mem example_backend = Some 0"
  by (simp add: example_backend_def)

definition example_tx_trace :: can_trace where
  "example_tx_trace =
     [Queue_Iter 0 (Some [example_chain]), Chain_Collect example_chain tx_descriptors,
      Memory_Read example_chain 0x1000 80 (Some (frame_bytes example_request)),
      Device (Can_Write 4 \<lparr>raw_id = 0x123, id_flags = 0, fd_data = replicate 8 7\<rparr> True),
      Memory_Write example_chain [0] 0x2000 True, Add_Used 0 5 1 True, Signal_Used 0 True]"

lemma example_tx_run:
  "handle_event (example_host tx_descriptors (frame_bytes example_request)) TX_QUEUE EventSet_IN
     [0, 1, 2] (example_device [] False) = Some (Ok False, example_device [] False, example_tx_trace)"
proof -
  have wf: "length (frame_bytes example_request) = 80"
    using length_frame_bytes [of example_request]
    by (simp add: frame_wf_def example_request_def size_of_frame_def)
  have d: "tx_descriptors ! 0 = \<lparr>addr = 0x1000, len = 80, is_write_only = False\<rparr>"
    "tx_descriptors ! Suc 0 = \<lparr>addr = 0x2000, len = 1, is_write_only = True\<rparr>" "length tx_descriptors = 2"
    "tx_descriptors \<noteq> []"
    by (simp_all add: tx_descriptors_def)
  show ?thesis
    using example_reads [OF wf]
    by (simp add: example_operation handle_event_def select_vring_def dispatch_def process_tx_queue_def
      process_tx_requests_def process_tx_chain_def can_queue_defs d example_run_defs example_tx_trace_def size_of_frame_def
      frame_of_frame_bytes example_backend_idx example_backend_mem
      example_translates example_chain_def VIRTIO_CAN_STATUS_OK_def)
qed

definition example_received :: VirtioCanFrame where
  "example_received = default_frame
     \<lparr>msg_type := VIRTIO_CAN_RX, can_id := 0x55, sdu_length := 3,
      sdu := [1, 2, 3] @ replicate 61 0\<rparr>"

definition example_rx_trace :: can_trace where
  "example_rx_trace =
     [Eventfd_Read 9 (Some 1), Queue_Iter 1 (Some [example_chain]),
      Chain_Collect example_chain rx_descriptors, Device (Fifo_Remove (Some example_received)),
      Memory_Write example_chain
        (frame_bytes (rx_translate example_backend (str ''can0'') example_received)) 0x3000 True,
      Add_Used 1 5 80 True, Signal_Used 1 True]"

lemma example_received_passes: "rx_check example_backend example_received = Inr ()"
  by (simp add: rx_check_def example_received_def example_backend_def default_frame_def
      check_features_bit VIRTIO_CAN_F_CAN_CLASSIC_def can_flag_defs)

lemma example_backend_False:
  "example_backend\<lparr>event_idx := False\<rparr> = example_backend" "\<not> event_idx example_backend"
  by (simp_all add: example_backend_def)

lemma example_rx_run:
  "handle_event (example_host rx_descriptors bytes) BACKEND_EFD EventSet_IN [0, 1, 2]
     (example_device [example_received] False) =
     Some (Ok False, example_device [] False, example_rx_trace)"
proof -
  have d: "rx_descriptors ! 0 = \<lparr>addr = 0x3000, len = 80, is_write_only = True\<rparr>"
    "length rx_descriptors = 1" "rx_descriptors \<noteq> []"
    by (simp_all add: rx_descriptors_def)
  have id: "can_id example_received AND CAN_ERR_FLAG = 0"
    by (simp add: example_received_def default_frame_def can_flag_defs)
  show ?thesis
    by (simp add: handle_event_def select_vring_def dispatch_def process_rx_queue_def
        process_rx_requests_def pop_def can_queue_defs d id example_run_defs example_rx_trace_def
        example_backend_False example_backend_mem example_received_passes example_chain_def Let_def)
qed

end
