(* ===== verification/VhuCanEvents.thy ===== *)
theory VhuCanEvents
  imports CanExample
begin

text \<open>
  \<open>handle_event\<close> of the CAN device (\<open>vhu_can.rs\<close>) as a whole: which queue an event serves, what
  the guest sees of it, that it ends, and the refinement of the abstract specifications.
  Each theorem about runs is applied to a run on the host of \<open>CanExample\<close>.
\<close>

section \<open>Events\<close>

lemma handle_event_index:
  assumes "device_event \<noteq> RX_QUEUE" and "device_event \<noteq> BACKEND_EFD"
  shows "handle_event H device_event EventSet_IN vrings s =
    (if unat device_event < length vrings
     then then_ret (serve_event H (event_idx (backend s)) (vrings ! unat device_event)
            (dispatch H device_event (vrings ! unat device_event)) s) False
     else Some (Panic Index_Out_Of_Bounds, s, []))"
  using assms
  by (auto simp: handle_event_def select_vring_def bind_run_def index_def ret_def panic_def
      map_option.id option.map_id0 split: option.split)

text \<open>The event of the read thread: the counter of the eventfd is read first.\<close>

lemma handle_event_backend:
  assumes "handle_event H BACKEND_EFD EventSet_IN vrings s = Some (r, s', es)"
  obtains (poisoned) "controller_poisoned s" "r = Panic Lock_Poisoned" "s' = s" "es = []"
  | (no_ring) w x where "length vrings \<le> 1" "r = Panic Index_Out_Of_Bounds" "s' = s\<lparr>world := w\<rparr>"
      "es = [Eventfd_Read (rx_event_fd (controller s)) x]"
  | (served) w x r0 es0 where "\<not> controller_poisoned s" "1 < length vrings"
      "serve_event H (event_idx (backend s)) (vrings ! 1) (dispatch H BACKEND_EFD (vrings ! 1))
         (s\<lparr>world := w\<rparr>) = Some (r0, s', es0)"
      "r = Ok False \<longleftrightarrow> r0 = Ok ()" "es = Eventfd_Read (rx_event_fd (controller s)) x # es0"
proof -
  let ?v = "select_vring H BACKEND_EFD vrings"
  have "bind_run ?v (\<lambda>vring s. then_ret (serve_event H (event_idx (backend s)) vring
      (dispatch H BACKEND_EFD vring) s) False) s = Some (r, s', es)"
    using assms by (simp add: handle_event_def can_queue_defs)
  then show thesis
  proof (cases rule: bind_run_cases)
    case (ok v s1 es1 es2)
    then have "\<not> controller_poisoned s \<and> 1 < length vrings \<and> v = vrings ! 1 \<and>
        (\<exists>w x. s1 = s\<lparr>world := w\<rparr> \<and> es1 = [Eventfd_Read (rx_event_fd (controller s)) x])"
      by (auto simp: select_vring_def lock_write_def vhost_calls bind_def get_def ext_def index_def
          ret_def panic_def can_queue_defs split: prod.splits if_splits) (rule exI, rule refl)
    with ok served show thesis
      by (elim then_ret_cases conjE exE) simp
  next
    case (err e)
    then show thesis
      by (auto simp: select_vring_def lock_write_def vhost_calls bind_def get_def ext_def index_def
          ret_def panic_def split: prod.splits if_splits)
  next
    case (panic p)
    then show thesis
      using poisoned no_ring
      by (auto simp: select_vring_def lock_write_def vhost_calls bind_def get_def ext_def index_def
          ret_def panic_def can_queue_defs not_less split: prod.splits if_splits)
  qed
qed

lemma dispatch_tx: "dispatch H TX_QUEUE vr =
    map_err Io_Other (serve_queue H (\<lambda>s. mem (backend s)) DescriptorNotFound NotificationFailed
      (process_tx_requests H) vr)"
  by (simp add: dispatch_def can_queue_defs process_tx_queue_def)

lemma dispatch_ctrl: "dispatch H CTRL_QUEUE vr =
    map_err Io_Other (serve_queue H (\<lambda>s. mem (backend s)) DescriptorNotFound NotificationFailed
      (process_ctrl_requests H) vr)"
  by (simp add: dispatch_def can_queue_defs process_ctrl_queue_def)

lemma dispatch_rx: "dispatch H BACKEND_EFD vr = map_err Io_Other (process_rx_queue H vr)"
  by (simp add: dispatch_def can_queue_defs)

section \<open>The theorems\<close>

text \<open>
  C1: one chain of the transmit queue does what \<open>tx_spec\<close> says, on every path: the frame that is
  sent on the bus is the translation of the bytes the guest put into the first descriptor, it
  is sent at most once and before anything is answered, the status byte of the answer says
  whether the bus took it, and the controller's lock is poisoned exactly when the
  identifier has more than eleven bits.
\<close>

theorem tx_chain_refines:
  assumes "frame_laws H" and "process_tx_chain H vr c s = (r, s', es)"
  shows "tx_spec (backend s) (can_out_socket (controller s)) (controller_poisoned s) vr c
    r es (controller_poisoned s')"
  by (rule postD [OF tx_chain_refines_post [OF assms(1)] assms(2)])

lemma example_tx_chain:
  "process_tx_chain (example_host [] []) 0 example_chain (example_device [] False) =
     (Err (UnexpectedDescriptorCount 0), example_device [] False, [Chain_Collect example_chain []])"
  by (simp add: process_tx_chain_def example_run_defs)

theorem tx_chain_refines_witness:
  "tx_spec example_backend 4 False 0 example_chain (Err (UnexpectedDescriptorCount 0))
     [Chain_Collect example_chain []] False"
  using tx_chain_refines [OF example_frame_laws example_tx_chain]
  by (simp add: example_device_def example_backend_False)

text \<open>
  C2: serving the receive queue does what \<open>rx_spec\<close> says, on every path: only the first of the
  available chains is looked at, one frame is taken from the queue, and the message that the
  guest gets is its translation.
\<close>

theorem rx_requests_refine:
  assumes "process_rx_requests H requests vr s = (r, s', es)"
  shows "rx_spec (backend s) (can_in_name (controller s)) vr requests r es"
  by (rule postD [OF rx_refines assms])

lemma example_rx_requests:
  "process_rx_requests (example_host rx_descriptors []) [example_chain, example_chain] 1
     (example_device [] False) =
     (Err HandleEventUnknown, example_device [] False,
      [Chain_Collect example_chain rx_descriptors, Device (Fifo_Remove None)])"
  by (simp add: process_rx_requests_def pop_def rx_descriptors_def example_run_defs)

theorem rx_requests_refine_witness:
  "rx_spec example_backend (str ''can0'') 1 [example_chain, example_chain] (Err HandleEventUnknown)
     [Chain_Collect example_chain rx_descriptors, Device (Fifo_Remove None)]"
  using rx_requests_refine [OF example_rx_requests]
  by (simp add: example_device_def example_backend_False)

text \<open>
  C5: an event of the transmit or the control queue returns the chains that the guest offered
  in their order, none twice and none skipped; all of them when it succeeds, over all rounds
  of \<open>EVENT_IDX\<close>.  Guest memory is written only at write-only descriptors of those chains.
\<close>

theorem in_order_events:
  assumes "device_event \<in> {TX_QUEUE, CTRL_QUEUE}"
    and "handle_event H device_event EventSet_IN vrings s = Some (r, s', es)"
    and "v = vrings ! unat device_event"
  shows "prefix (used_on v es) (offered_on v es)
    \<and> (r = Ok False \<longrightarrow> used_on v es = offered_on v es) \<and> guarded_writes {} es"
proof -
  have other: "device_event \<noteq> RX_QUEUE" "device_event \<noteq> BACKEND_EFD"
    using assms(1) by (auto simp: can_queue_defs)
  show ?thesis
  proof (cases "unat device_event < length vrings")
    case False
    with assms(2) show ?thesis by (simp add: handle_event_index [OF other] split: if_splits)
  next
    case True
    with assms(2,3) obtain r0 where
      run: "serve_event H (event_idx (backend s)) v (dispatch H device_event v) s = Some (r0, s', es)"
      and r: "r = Ok False \<longleftrightarrow> r0 = Ok ()"
      by (auto simp: handle_event_index [OF other] elim!: then_ret_cases split: if_splits)
    from assms(1) show ?thesis
      using tx.event_in_order [OF run] tx.event_writes [OF run]
        ctrl.event_in_order [OF run] ctrl.event_writes [OF run] r
      by (auto simp: dispatch_tx dispatch_ctrl)
  qed
qed

theorem in_order_events_witness:
  "used_on 0 example_tx_trace = offered_on 0 example_tx_trace \<and> guarded_writes {} example_tx_trace"
  using in_order_events [OF _ example_tx_run] by (simp add: can_queue_defs)

text \<open>
  C6: an event of the read thread returns chains in the order the guest offered them, each at
  most once; every chain returned carries a frame taken from the queue, at most one for each
  look at the virtqueue, and what the guest reads are these frames, translated, in the order
  in which they came.
\<close>

theorem receive_events:
  assumes "handle_event H BACKEND_EFD EventSet_IN vrings s = Some (r, s', es)"
    and "v = vrings ! 1"
  shows "subseq (used_on v es) (offered_on v es) \<and> guarded_writes {} es
    \<and> length (used_on v es) \<le> length (popped es) \<and> length (popped es) \<le> looks_at v es
    \<and> subseq (written es)
        (map (\<lambda>f. frame_bytes (rx_translate (backend s) (can_in_name (controller s)) f)) (popped es))"
  using assms(1)
proof (cases rule: handle_event_backend)
  case (served w x r0 es0)
  let ?s = "s\<lparr>world := w\<rparr>"
  have run: "serve_event H (event_idx (backend s)) v (dispatch H BACKEND_EFD v) ?s = Some (r0, s', es0)"
    using served(3) assms(2) by simp
  have "rx_progress v ?s es0 s'"
  proof (rule keeps_serve_event [OF run progress.run_relation_axioms])
    show "keeps (rx_progress v) (dispatch H BACKEND_EFD v)"
      unfolding dispatch_rx by (intro progress.keeps_map_err rx_queue_progress)
  qed (simp_all add: rx_progress_def)
  moreover have "subseq (used_on v es0) (offered_on v es0)" "guarded_writes {} es0"
    using rx.event_used [OF run] rx.event_writes [OF run]
    by (simp_all add: dispatch_rx process_rx_queue_def)
  ultimately show ?thesis
    using served(5) by (simp add: rx_progress_def)
qed simp_all

theorem receive_events_witness:
  "written example_rx_trace =
     map (\<lambda>f. frame_bytes (rx_translate example_backend (str ''can0'') f)) (popped example_rx_trace)
   \<and> subseq (used_on 1 example_rx_trace) (offered_on 1 example_rx_trace)"
  using receive_events [OF example_rx_run]
  by (simp add: example_rx_trace_def example_device_def example_chain_def example_backend_False)

text \<open>
  C27: the other events.  An event that is not \<open>EPOLLIN\<close> is refused, the kick of the receive
  queue does nothing, and with three virtqueues any other number makes the device panic at the
  slice index, so the error for unknown events is never returned.
\<close>

theorem other_events:
  "(evset \<noteq> EventSet_IN \<longrightarrow>
      handle_event H device_event evset vrings s = Some (Err (Io_Other HandleEventNotEpollIn), s, []))
    \<and> handle_event H RX_QUEUE EventSet_IN vrings s = Some (Ok False, s, [])
    \<and> (length vrings = 3 \<and> device_event \<notin> {TX_QUEUE, RX_QUEUE, CTRL_QUEUE, BACKEND_EFD} \<longrightarrow>
        handle_event H device_event EventSet_IN vrings s = Some (Panic Index_Out_Of_Bounds, s, []))"
proof -
  have "\<not> unat device_event < 3" if "device_event \<notin> {TX_QUEUE, RX_QUEUE, CTRL_QUEUE, BACKEND_EFD}"
  proof
    assume "unat device_event < 3"
    then have "unat device_event = 0 \<or> unat device_event = 1 \<or> unat device_event = 2" by auto
    with that show False
      by (auto simp: can_queue_defs word_unat_eq_iff)
  qed
  then show ?thesis
    by (auto simp: handle_event_index) (simp_all add: handle_event_def fail_def ret_def)
qed

theorem other_events_witness:
  "handle_event (example_host [] []) 7 EventSet_IN [0, 1, 2] (example_device [] False)
     = Some (Panic Index_Out_Of_Bounds, example_device [] False, [])"
  using other_events [of EventSet_IN "example_host [] []" 7 "[0, 1, 2]" "example_device [] False"]
  by (simp add: can_queue_defs)

section \<open>Events end\<close>

lemma tx_requests_shrink:
  assumes "supply_laws H \<mu>" and "\<And>socket f w. \<mu> (snd (can_write_frame H socket f w)) \<le> \<mu> w"
  shows "keeps (supply_shrinks \<mu>) (process_tx_requests H cs vr)"
  unfolding process_tx_requests_def process_tx_chain_def operation_def Let_def
  by (intro shrink.keeps_rules shrink.keeps_lock_write supply_vhost [OF assms(1)] supply_ext assms(2))
     (simp add: supply_shrinks_def)

lemma ctrl_requests_shrink:
  "supply_laws H \<mu> \<Longrightarrow> keeps (supply_shrinks \<mu>) (process_ctrl_requests H cs vr)"
  unfolding process_ctrl_requests_def process_ctrl_chain_def Let_def
  by (intro shrink.keeps_rules supply_vhost)

lemma shrink_pop: "keeps (supply_shrinks \<mu>) (pop H)"
  by (rule keepsI) (simp add: post_def pop_def supply_shrinks_def split: prod.split)

lemma rx_requests_shrink:
  assumes "supply_laws H \<mu>"
  shows "keeps (supply_shrinks \<mu>) (process_rx_requests H cs vr)"
  unfolding process_rx_requests_def Let_def
  by (cases cs)
     (auto intro!: shrink.keeps_rules shrink.keeps_lock_write shrink.keeps_lock_read
        supply_vhost [OF assms] shrink_pop simp: supply_shrinks_def)

lemma dispatch_shrinks:
  assumes "supply_laws H \<mu>" and "\<And>socket f w. \<mu> (snd (can_write_frame H socket f w)) \<le> \<mu> w"
  shows "keeps (supply_shrinks \<mu>) (dispatch H device_event vr)"
  unfolding dispatch_def process_tx_queue_def process_ctrl_queue_def process_rx_queue_def
    process_rx_queue_dump_def
  by (intro shrink.keeps_rules shrink_serve_queue [OF assms(1)] tx_requests_shrink [OF assms]
      ctrl_requests_shrink [OF assms(1)] rx_requests_shrink [OF assms(1)])



end
