(* ===== verification/CanSystem.thy ===== *)
theory CanSystem
  imports VhuCanEvents
begin

text \<open>
  The CAN device with all that runs at the same time: the read thread (\<open>read_can_socket\<close>,
  \<open>can.rs\<close>), the worker that calls \<open>handle_event\<close>, and the calls of the vhost-user frontend
  (\<open>vhu_can.rs\<close>).  A step of the system is one round of the read loop, one event, or one call
  of the frontend; \<open>can_run\<close> is any sequence of steps with the calls they make.  The read
  thread ends with its loop: after an error or a panic it takes no more steps.

  What holds of every interleaving: the frames that are taken from the receive queue are
  those put into it, in their order, and these are frames that came from the bus; and a
  poisoned controller is the end of all traffic.
\<close>

record ('w, 'q) can_threads = "('w, 'q) can_device" +
  reader_alive :: bool

section \<open>Steps\<close>

inductive can_step ::
  "('w, 'q) can_host \<Rightarrow> can_socket \<Rightarrow> vring list \<Rightarrow>
   ('w, 'q) can_threads \<Rightarrow> can_trace \<Rightarrow> ('w, 'q) can_threads \<Rightarrow> bool"
  for H :: "('w, 'q) can_host" and socket :: can_socket and vrings :: "vring list"
where
  reader: "reader_alive s \<Longrightarrow> read_round H socket s = (r, s', es) \<Longrightarrow>
    can_step H socket vrings s es (s'\<lparr>reader_alive := (r = Ok None)\<rparr>)"
| worker: "handle_event H device_event evset vrings s = Some (r, s', es) \<Longrightarrow>
    can_step H socket vrings s es s'"
| acked_features: "(set_acked_features f :: (_, _, _, unit, unit) vhu_comp) s = (r, s', es) \<Longrightarrow>
    can_step H socket vrings s es s'"
| event_idx: "(set_event_idx enabled :: (_, _, _, unit, unit) vhu_comp) s = (r, s', es) \<Longrightarrow>
    can_step H socket vrings s es s'"
| memory: "(update_memory m :: (_, _, _, unit, unit) vhu_comp) s = (r, s', es) \<Longrightarrow>
    can_step H socket vrings s es s'"
| config: "(get_config offset n :: (_, _, _, unit, _) vhu_comp) s = (r, s', es) \<Longrightarrow>
    can_step H socket vrings s es s'"
| vring_worker: "(set_vring_worker H :: (_, _, _, unit, unit) vhu_comp) s = (r, s', es) \<Longrightarrow>
    can_step H socket vrings s es s'"

inductive can_run ::
  "('w, 'q) can_host \<Rightarrow> can_socket \<Rightarrow> vring list \<Rightarrow>
   ('w, 'q) can_threads \<Rightarrow> can_trace \<Rightarrow> ('w, 'q) can_threads \<Rightarrow> bool"
  for H :: "('w, 'q) can_host" and socket :: can_socket and vrings :: "vring list"
where
  start: "can_run H socket vrings s [] s"
| steps: "can_run H socket vrings s es t \<Longrightarrow> can_step H socket vrings t es' u \<Longrightarrow>
    can_run H socket vrings s (es @ es') u"

inductive_cases can_stepE: "can_step H socket vrings s es s'"

lemma can_run_step: "can_step H socket vrings s es s' \<Longrightarrow> can_run H socket vrings s es s'"
  using can_run.steps [OF can_run.start] by fastforce

lemma keeps_can_run:
  assumes "can_run H socket vrings s es s'" and "run_relation R"
    and "\<And>s es s'. can_step H socket vrings s es s' \<Longrightarrow> R s es s'"
  shows "R s es s'"
  using assms(1)
  by induction (auto intro: run_relation.R_refl [OF assms(2)] run_relation.R_trans [OF assms(2)] assms(3))

section \<open>What every step keeps\<close>

lemma keeps_handle_event:
  assumes "handle_event H device_event evset vrings s = Some (r, s', es)" and R: "run_relation R"
    and select: "keeps R (select_vring H device_event vrings)"
    and dispatch: "\<And>vr. keeps R (dispatch H device_event vr)"
    and notification: "\<And>v s x w. R s [Disable_Notification v x] (s\<lparr>world := w\<rparr>)"
      "\<And>v s x w. R s [Enable_Notification v x] (s\<lparr>world := w\<rparr>)"
  shows "R s es s'"
proof -
  have "R t es' t'" if "then_ret (serve_event H idx vr (dispatch H device_event vr) t) False = Some (r', t', es')"
    for idx vr t r' es' t'
    using that
    by (elim then_ret_cases) (rule keeps_serve_event [OF _ R dispatch notification])
  with assms(1) show ?thesis
    by (auto simp: handle_event_def fail_def ret_def run_relation.R_refl [OF R]
        intro: run_relation.keeps_bind_run [OF R _ select] split: if_splits)
qed

text \<open>The rules of a relation that the calls to the host and the frontend's setters keep.\<close>

locale device_relation = run_relation R
  for R :: "('w, 'q) can_threads \<Rightarrow> can_trace \<Rightarrow> ('w, 'q) can_threads \<Rightarrow> bool" +
  fixes H :: "('w, 'q) can_host"
  assumes R_call: "\<not> is_controller_event e \<Longrightarrow> \<forall>x. e \<noteq> Device x \<Longrightarrow> R s [e] (s\<lparr>world := w\<rparr>)"
    and R_setter: "R s [] (s\<lparr>backend := b\<rparr>)"
    and R_reader_ends: "R s [] (s\<lparr>reader_alive := a\<rparr>)"
    and R_poison: "R s [] (s\<lparr>controller_poisoned := True\<rparr>)"
    and R_dispatch: "keeps R (dispatch H device_event vr)"
    and R_read_round: "keeps R (read_round H socket)"
begin

lemma R_ext: "(\<And>a. \<not> is_controller_event (mk a) \<and> (\<forall>x. mk a \<noteq> Device x)) \<Longrightarrow> keeps R (ext f mk)"
  by (rule keeps_ext) (blast intro: R_call)

lemma step_keeps: "can_step H socket vrings s es s' \<Longrightarrow> R s es s'"
proof (erule can_stepE)
  fix r t
  assume "read_round H socket s = (r, t, es)" and "s' = t\<lparr>reader_alive := r = Ok None\<rparr>"
  then show "R s es s'"
    using R_trans [OF keepsD [OF R_read_round] R_reader_ends] by simp
next
  fix device_event evset r
  assume "handle_event H device_event evset vrings s = Some (r, s', es)"
  then show "R s es s'"
  proof (rule keeps_handle_event [OF _ run_relation_axioms _ R_dispatch])
    show "keeps R (select_vring H device_event vrings)"
      unfolding select_vring_def vhost_calls
      by (intro keeps_rules keeps_lock_write R_ext R_poison) simp
  qed (simp_all add: R_call)
qed (auto simp: set_acked_features_def set_event_idx_def update_memory_def get_config_def
      set_vring_worker_def modify_def R_setter vhost_calls
      dest!: keepsD [where R = R, rotated]
      intro!: keeps_rules keeps_lock_write keeps_lock_read R_ext R_poison)

lemma run_keeps: "can_run H socket vrings s es s' \<Longrightarrow> R s es s'"
  by (rule keeps_can_run [OF _ run_relation_axioms step_keeps])

end

section \<open>The receive queue over all interleavings\<close>

lemma balance_dispatch:
  assumes "fifo_laws H contents"
  shows "keeps (fifo_balance contents) (dispatch H device_event vr)"
proof -
  have "keeps (fifo_balance contents) (process_rx_requests H cs vr)" for cs
    unfolding process_rx_requests_def vhost_calls Let_def
    by (cases cs) (auto intro!: balance_rules assms)
  moreover have "keeps (fifo_balance contents) (process_tx_requests H cs vr)" for cs
    unfolding process_tx_requests_def process_tx_chain_def vhost_calls Let_def
    by (auto intro!: balance_rules balance_operation)
  moreover have "keeps (fifo_balance contents) (process_ctrl_requests H cs vr)" for cs
    unfolding process_ctrl_requests_def process_ctrl_chain_def vhost_calls Let_def
    by (auto intro!: balance_rules)
  ultimately show ?thesis
    unfolding dispatch_def process_tx_queue_def process_ctrl_queue_def process_rx_queue_def
      process_rx_queue_dump_def
    by (intro balance.keeps_rules keeps_serve_queue [OF balance.run_relation_axioms])
       (simp_all add: fifo_balance_def)
qed

lemma fifo_relation: "fifo_laws H contents \<Longrightarrow> device_relation (fifo_balance contents) H"
proof
  fix e :: "can_event event" and s :: "('a, 'b) can_threads" and w
  assume "\<not> is_controller_event e" and "\<forall>x. e \<noteq> Device x"
  then show "fifo_balance contents s [e] (s\<lparr>world := w\<rparr>)"
    by (cases e) (simp_all add: fifo_balance_def)
qed (simp_all add: fifo_balance_def balance_dispatch balance_read_round)

text \<open>The frames that came from the bus, as the read thread turns them into messages.\<close>

definition message_of :: "can_fd_frame \<Rightarrow> VirtioCanFrame" where
  "message_of frame =
     \<lparr>msg_type = VIRTIO_CAN_RX, sdu_length = of_nat (length (fd_data frame)), reserved = 0,
      flags = id_flags frame, can_id = raw_id frame,
      sdu = fd_data frame @ replicate (64 - length (fd_data frame)) 0\<rparr>"

fun arrived :: "can_trace \<Rightarrow> can_fd_frame list" where
  "arrived [] = []"
| "arrived (Device (Can_Read socket (Some (Fd frame))) # es) = frame # arrived es"
| "arrived (_ # es) = arrived es"

lemma arrived_append [simp]: "arrived (es @ es') = arrived es @ arrived es'"
  by (induction es rule: arrived.induct) auto

definition from_bus :: "('w, 'q) can_threads \<Rightarrow> can_trace \<Rightarrow> ('w, 'q) can_threads \<Rightarrow> bool" where
  "from_bus s es s' \<longleftrightarrow> subseq (pushed es) (map message_of (arrived es))"

interpretation bus: run_relation from_bus
  by unfold_locales (auto simp: from_bus_def intro: list_emb_append_mono)

lemma bus_ext: "(\<And>a. pushed [mk a] = []) \<Longrightarrow> keeps from_bus (ext f mk)"
  by (rule keeps_ext) (simp add: from_bus_def)

lemma bus_pop: "keeps from_bus (pop H)"
  by (rule keepsI) (simp add: post_def pop_def from_bus_def split: prod.split)

lemma bus_lock: "keeps from_bus m \<Longrightarrow> keeps from_bus (write_controller m)"
  by (erule bus.keeps_lock_write) (simp add: from_bus_def)

lemmas bus_rules = bus.keeps_rules bus.keeps_lock_read bus_lock bus_ext bus_pop

lemma bus_dispatch: "keeps from_bus (dispatch H device_event vr)"
proof -
  have "keeps from_bus (process_rx_requests H cs vr)" for cs
    unfolding process_rx_requests_def vhost_calls Let_def by (cases cs) (auto intro!: bus_rules)
  moreover have "keeps from_bus (process_tx_requests H cs vr)" for cs
    unfolding process_tx_requests_def process_tx_chain_def operation_def vhost_calls Let_def
    by (auto intro!: bus_rules)
  moreover have "keeps from_bus (process_ctrl_requests H cs vr)" for cs
    unfolding process_ctrl_requests_def process_ctrl_chain_def vhost_calls Let_def
    by (auto intro!: bus_rules)
  ultimately show ?thesis
    unfolding dispatch_def process_tx_queue_def process_ctrl_queue_def process_rx_queue_def
      process_rx_queue_dump_def
    by (intro bus.keeps_rules keeps_serve_queue [OF bus.run_relation_axioms])
       (simp_all add: from_bus_def)
qed

lemma bus_read_round: "keeps from_bus (read_round H socket)"
proof (rule keepsI)
  fix s :: "('a, 'b) can_threads"
  show "post (read_round H socket) s (\<lambda>r s' es. from_bus s es s')"
    unfolding read_round_def receive_frame_def vhost_calls
    by (auto simp: post_simps from_bus_def virtio_of_fd_def copy_sdu_pad push_def message_of_def
        post_def [of "push _ _"] split: prod.split option.split can_any_frame.split)
qed

interpretation origin: device_relation from_bus H for H
proof
  fix e :: "can_event event" and s :: "('a, 'b) can_threads" and w
  assume "\<not> is_controller_event e" and "\<forall>x. e \<noteq> Device x"
  then show "from_bus s [e] (s\<lparr>world := w\<rparr>)"
    by (cases e) (simp_all add: from_bus_def)
qed (simp_all add: from_bus_def bus_dispatch bus_read_round)

text \<open>A poisoned controller: the end of all traffic.\<close>

lemma poison_dispatch: "keeps poison_final (dispatch H device_event vr)"
proof -
  have "keeps poison_final (process_rx_requests H cs vr)" for cs
    unfolding process_rx_requests_def vhost_calls Let_def by (cases cs) (auto intro!: poison_rules)
  moreover have "keeps poison_final (process_tx_requests H cs vr)" for cs
    unfolding process_tx_requests_def process_tx_chain_def vhost_calls Let_def
    by (auto intro!: poison_rules)
  moreover have "keeps poison_final (process_ctrl_requests H cs vr)" for cs
    unfolding process_ctrl_requests_def process_ctrl_chain_def vhost_calls Let_def
    by (auto intro!: poison_rules)
  ultimately show ?thesis
    unfolding dispatch_def process_tx_queue_def process_ctrl_queue_def process_rx_queue_def
      process_rx_queue_dump_def
    by (intro poison.keeps_rules keeps_serve_queue [OF poison.run_relation_axioms])
       (simp_all add: poison_final_def)
qed

interpretation dead: device_relation poison_final H for H
proof
  fix e :: "can_event event" and s :: "('a, 'b) can_threads" and w
  assume "\<not> is_controller_event e"
  then show "poison_final s [e] (s\<lparr>world := w\<rparr>)" by (simp add: poison_final_def)
qed (simp_all add: poison_final_def poison_dispatch poison_read_round)

section \<open>The theorems\<close>

text \<open>
  C3: over every interleaving of the read thread, the worker and the frontend, the receive queue
  loses nothing and makes nothing up: the frames in it and those added are, in this order,
  those taken from it and those still in it, and what was added came from the bus in the
  order it came.
\<close>

theorem receive_queue_in_order:
  assumes "fifo_laws H contents" and "can_run H socket vrings s es s'"
  shows "contents (rx_fifo (controller s)) @ pushed es =
      popped es @ contents (rx_fifo (controller s'))
    \<and> subseq (pushed es) (map message_of (arrived es))"
  using device_relation.run_keeps [OF fifo_relation [OF assms(1)] assms(2)]
    origin.run_keeps [OF assms(2)]
  by (simp add: fifo_balance_def from_bus_def)

definition example_threads :: "VirtioCanFrame list \<Rightarrow> (unit, VirtioCanFrame list) can_threads" where
  "example_threads q = can_device.extend (example_device q False) (can_threads.fields True)"

lemma example_rx_step:
  "can_step (example_host rx_descriptors []) 4 [0, 1, 2] (example_threads [example_received])
     example_rx_trace (example_threads [])"
proof (rule can_step.worker)
  have d: "rx_descriptors ! 0 = \<lparr>addr = 0x3000, len = 80, is_write_only = True\<rparr>"
    "length rx_descriptors = 1" "rx_descriptors \<noteq> []"
    by (simp_all add: rx_descriptors_def)
  have id: "can_id example_received AND CAN_ERR_FLAG = 0"
    by (simp add: example_received_def default_frame_def can_flag_defs)
  show "handle_event (example_host rx_descriptors []) BACKEND_EFD EventSet_IN [0, 1, 2]
     (example_threads [example_received]) =
     Some (Ok False, example_threads [], example_rx_trace)"
    by (simp add: handle_event_def select_vring_def dispatch_def process_rx_queue_def
        process_rx_requests_def pop_def can_queue_defs d id example_run_defs example_rx_trace_def
        example_threads_def can_device.defs can_threads.defs
        example_backend_False example_backend_mem example_received_passes example_chain_def Let_def)
qed

theorem receive_queue_in_order_witness:
  "popped example_rx_trace = [example_received] \<and> pushed example_rx_trace = []"
  using receive_queue_in_order [OF example_fifo_laws can_run_step [OF example_rx_step]]
  by (simp add: example_threads_def example_device_def can_device.defs can_threads.defs)
     (simp add: example_rx_trace_def)

text \<open>
  C4: once a thread has panicked with the controller's lock held, nothing happens on the bus any
  more, whatever the threads and the frontend do: no frame is sent, none is taken from the
  queue and none is added, and the controller never changes again.
\<close>

theorem poisoned_for_ever:
  assumes "can_run H socket vrings s es s'" and "controller_poisoned s"
  shows "controller_poisoned s' \<and> controller s' = controller s \<and>
    list_all (\<lambda>e. \<not> is_controller_event e) es"
  using dead.run_keeps [OF assms(1)] assms(2) by (simp add: poison_final_def)

lemma example_poisoned_step:
  "can_step (example_host tx_descriptors (frame_bytes example_request)) 4 [0, 1, 2]
     ((example_threads [])\<lparr>controller_poisoned := True\<rparr>)
     [Queue_Iter 0 (Some [example_chain]), Chain_Collect example_chain tx_descriptors,
      Memory_Read example_chain 0x1000 80 (Some (frame_bytes example_request))]
     ((example_threads [])\<lparr>controller_poisoned := True\<rparr>)"
proof (rule can_step.worker)
  have wf: "length (frame_bytes example_request) = 80"
    using length_frame_bytes [of example_request]
    by (simp add: frame_wf_def example_request_def size_of_frame_def)
  have d: "tx_descriptors ! 0 = \<lparr>addr = 0x1000, len = 80, is_write_only = False\<rparr>"
    "tx_descriptors ! Suc 0 = \<lparr>addr = 0x2000, len = 1, is_write_only = True\<rparr>"
    "length tx_descriptors = 2" "tx_descriptors \<noteq> []"
    by (simp_all add: tx_descriptors_def)
  show "handle_event (example_host tx_descriptors (frame_bytes example_request)) TX_QUEUE EventSet_IN
     [0, 1, 2] ((example_threads [])\<lparr>controller_poisoned := True\<rparr>) =
     Some (Panic Lock_Poisoned, (example_threads [])\<lparr>controller_poisoned := True\<rparr>,
     [Queue_Iter 0 (Some [example_chain]), Chain_Collect example_chain tx_descriptors,
      Memory_Read example_chain 0x1000 80 (Some (frame_bytes example_request))])"
    using example_reads [OF wf]
    by (simp add: handle_event_def select_vring_def dispatch_def process_tx_queue_def
      process_tx_requests_def process_tx_chain_def can_queue_defs d example_run_defs
      example_threads_def can_device.defs can_threads.defs size_of_frame_def
      frame_of_frame_bytes example_backend_idx example_backend_mem
      example_translates example_chain_def)
qed

theorem poisoned_for_ever_witness:
  "controller ((example_threads [])\<lparr>controller_poisoned := True\<rparr>) = controller (example_threads [])
   \<and> list_all (\<lambda>e. \<not> is_controller_event e)
     [Queue_Iter 0 (Some [example_chain]), Chain_Collect example_chain tx_descriptors,
      Memory_Read example_chain 0x1000 80 (Some (frame_bytes example_request))]"
  using poisoned_for_ever [OF can_run_step [OF example_poisoned_step]] by simp

end
