(* ===== verification/CanThread.thy ===== *)
theory CanThread
  imports CanSystem
begin

text \<open>
  The parts of \<open>can.rs\<close> on their own: what becomes of a frame from the bus, what is sent on
  it, how the read loop can end, and what the debug output prints.
\<close>

text \<open>
  C32: a CAN FD frame from the bus becomes the message with its identifier, flags and payload,
  padded with zeros to 64 bytes; the index loop that copies it panics exactly when the
  payload is longer.
\<close>

theorem frame_from_bus:
  "virtio_of_fd f s =
    (if length (fd_data f) \<le> 64 then (Ok (message_of f), s, [])
     else (Panic Index_Out_Of_Bounds, s, []))"
  by (simp add: virtio_of_fd_def copy_sdu_pad message_of_def ret_def panic_def)

text \<open>
  C19: what \<open>operation\<close> sends.  With an identifier of at most eleven bits it is one frame with
  this identifier and the first \<open>length\<close> bytes of the payload on the output socket, and the
  answer is the socket's; with any other it panics and nothing is sent.
\<close>

theorem operation_outcome:
  assumes "frame_laws H" and "frame_wf f"
  shows "if unat (can_id f) \<le> 0x7FF
    then \<exists>ok w. operation H f s =
      (if ok then Ok VIRTIO_CAN_STATUS_OK else Err CanSocketWriteFailed, s\<lparr>world := w\<rparr>,
       [Device (Can_Write (can_out_socket (controller s)) (sent_frame f) ok)])
    else \<exists>p. operation H f s = (Panic p, s, [])"
  using operation_sends [OF assms, of s] operation_panics [OF assms(1), of f s]
  by (simp add: sent_frame_def not_le)

theorem operation_outcome_witness:
  "\<exists>p. operation (example_host [] []) (example_request\<lparr>can_id := 0x800\<rparr>) (example_device [] False)
     = (Panic p, example_device [] False, [])"
  using operation_outcome [OF example_frame_laws, of "example_request\<lparr>can_id := 0x800\<rparr>" "[]" "[]"
      "example_device [] False"]
  by (simp add: frame_wf_def example_request_def)

lemma read_round_goes_on: "read_round H socket s = (r, s', es) \<Longrightarrow> r \<noteq> Ok (Some x)"
  by (auto simp: read_round_def bind_def ext_def ret_def lock_write_def
      split: prod.splits outcome.splits option.splits if_splits)

definition no_sending :: "('w, 'q, 'z) can_sys_scheme \<Rightarrow> can_trace \<Rightarrow> ('w, 'q, 'z) can_sys_scheme \<Rightarrow> bool" where
  "no_sending s es s' \<longleftrightarrow> popped es = [] \<and>
     list_all (\<lambda>e. \<forall>socket f ok. e \<noteq> Device (Can_Write socket f ok)) es"

interpretation quiet: run_relation no_sending
  by unfold_locales (auto simp: no_sending_def)

lemma quiet_ext:
  "(\<And>a. popped [mk a] = [] \<and> (\<forall>socket f ok. mk a \<noteq> Device (Can_Write socket f ok))) \<Longrightarrow>
     keeps no_sending (ext f mk)"
  by (rule keeps_ext) (simp add: no_sending_def)

lemma quiet_read_round: "keeps no_sending (read_round H socket)"
proof (rule keepsI)
  fix s :: "('a, 'b, 'c) can_sys_scheme"
  show "post (read_round H socket) s (\<lambda>r s' es. no_sending s es s')"
    unfolding read_round_def receive_frame_def vhost_calls
    by (auto simp: post_simps no_sending_def virtio_of_fd_def copy_sdu_pad push_def
        post_def [of "push _ _"] split: prod.split option.split can_any_frame.split)
qed

lemma quiet_open: "keeps no_sending (open_can_in H)"
  unfolding open_can_in_def by (auto intro!: quiet.keeps_rules quiet.keeps_lock_read quiet_ext)

text \<open>
  C26: the read thread ends only with an error or a panic: \<open>read_can_socket\<close> has no other way
  out of its loop.  While it runs it never takes a frame from the queue nor sends one.
\<close>

theorem read_thread_ends_badly:
  assumes "read_can_socket H s = Some (r, s', es)"
  shows "r \<noteq> Ok () \<and> no_sending s es s'"
proof
  have loop: "r \<noteq> Ok ()" if "rust_loop (read_round H socket) t = Some (r, t', es')"
    for socket t and r :: "(can_error, unit) outcome" and t' es'
    using that
    by (rule rust_loop_induct) (auto dest: read_round_goes_on split: outcome.splits option.splits)
  show "r \<noteq> Ok ()"
    using assms unfolding read_can_socket_def by (cases rule: bind_run_cases) (auto dest: loop)
  show "no_sending s es s'"
    using assms unfolding read_can_socket_def
    by (rule quiet.keeps_bind_run) (auto intro: quiet_open quiet.keeps_loop [OF quiet_read_round])
qed

theorem read_thread_ends_badly_witness:
  "no_sending (example_device [] False) [Device (Can_Open (str ''can0'') None)] (example_device [] False)"
proof -
  have "read_can_socket ((example_host [] [])\<lparr>can_open := (\<lambda>name w. (None, w))\<rparr>) (example_device [] False)
      = Some (Err CanSocketFailed, example_device [] False, [Device (Can_Open (str ''can0'') None)])"
    by (simp add: read_can_socket_def open_can_in_def example_run_defs)
  from read_thread_ends_badly [OF this] show ?thesis by simp
qed

text \<open>
  C37: the debug output prints the payload with its last byte twice: the loop prints each byte
  up to the last one and then that one again.
\<close>

theorem print_repeats_last:
  "print_can_frame f =
    (let n = unat (sdu_length f) in
     if n = 0 then []
     else if n \<le> length (sdu f) then take n (sdu f) @ [sdu f ! (n - 1)] else sdu f)"
proof (cases "unat (sdu_length f) = 0")
  case True
  then show ?thesis by (simp add: print_can_frame_def unat_eq_0)
next
  case False
  then have "sdu_length f \<noteq> 0" by auto
  with False show ?thesis
    by (auto simp: print_can_frame_def printed_bytes_eq Let_def)
qed

end
