(* ===== verification/Daemon.thy ===== *)
theory Daemon
  imports Vhost
begin

text \<open>
  What the two \<open>backend.rs\<close> files have in common: a thread for each guest that serves it in
  an infinite loop, and the main thread that joins them.  The daemon itself (\<open>VhostUserDaemon\<close>,
  its listener and its epoll handlers) is in the crates \<open>vhost\<close> and \<open>vhost-user-backend\<close>.

  The contract of one iteration of such a loop is the locale \<open>guest_thread\<close>: it never breaks
  out of the loop, and it listens on the path of the configuration only.  That a thread
  cannot end well, and so the main function neither, is proved in it.
\<close>

section \<open>Serving one guest\<close>

definition serve_guest ::
  "('w, 'y) vhost_scheme \<Rightarrow> rust_string \<Rightarrow> eventfd \<Rightarrow> (('w, 'z) sys_scheme, 'x event, 'e, unit) comp" where
  "serve_guest H socket exit_fd =
     bind (new_listener H socket True) (\<lambda>ok.
     bind (unwrap_ok ok) (\<lambda>_.
     bind (start_daemon H) (\<lambda>ok.
     bind (unwrap_ok ok) (\<lambda>_.
     bind (wait_daemon H) (\<lambda>result.
     bind (case result of Stopped \<Rightarrow> ret () | Connection_Closed \<Rightarrow> ret () | Wait_Failed \<Rightarrow> ret ()) (\<lambda>_.
     bind (write_eventfd H exit_fd 1) (\<lambda>ok.
     unwrap_ok ok)))))))"

text \<open>The first of the epoll handlers, \<open>vring_workers[0]\<close>.\<close>

definition first_handler :: "nat \<Rightarrow> ('s, 'x, 'e, unit) comp" where
  "first_handler n = (if 0 < n then ret () else panic Index_Out_Of_Bounds)"

section \<open>Joining the threads\<close>

text \<open>
  \<open>for handle in handles { handle.join().map_err(|_| failed)??; }\<close>: \<open>None\<close> is a thread
  that never ends, for which \<open>join\<close> waits for ever.
\<close>

primrec join_all :: "'e \<Rightarrow> ('e, unit) outcome option list \<Rightarrow> ('e, unit) outcome option" where
  "join_all failed [] = Some (Ok ())"
| "join_all failed (h # hs) =
     (case h of
        None \<Rightarrow> None
      | Some r \<Rightarrow>
          (case r of
             Ok _ \<Rightarrow> join_all failed hs
           | Err e \<Rightarrow> Some (Err e)
           | Panic _ \<Rightarrow> Some (Err failed)))"

lemma join_all_bad:
  assumes "join_all failed hs = Some r" and "hs \<noteq> []" and "\<And>h. h \<in> set hs \<Longrightarrow> h \<noteq> Some (Ok ())"
  shows "\<exists>e. r = Err e \<and> (e = failed \<or> Some (Err e) \<in> set hs)"
  using assms by (cases hs) (auto split: option.splits outcome.splits)

text \<open>The exit status of a process whose \<open>main\<close> calls \<open>exit(1)\<close> on an error.\<close>

definition exit_status :: "('e, unit) outcome \<Rightarrow> nat" where
  "exit_status r = (case r of Ok _ \<Rightarrow> 0 | Err _ \<Rightarrow> 1 | Panic _ \<Rightarrow> 101)"

section \<open>The contract of an iteration\<close>

fun listens_on :: "rust_string \<Rightarrow> 'x event \<Rightarrow> bool" where
  "listens_on path (Listener_New p _ _) \<longleftrightarrow> p = path"
| "listens_on path _ \<longleftrightarrow> True"

lemma emit_spawn: "P Thread_Spawn \<Longrightarrow> keeps (emitting P) spawn"
  by (rule keepsI) (simp add: post_simps emitting_def)

lemma emit_first_handler: "keeps (emitting P) (first_handler n)"
  unfolding first_handler_def by (intro emit.keeps_rules)

lemma listens_serve_guest: "keeps (emitting (listens_on path)) (serve_guest H path fd)"
proof -
  have "keeps (emitting (listens_on path))
      (case result of Stopped \<Rightarrow> ret () | Connection_Closed \<Rightarrow> ret () | Wait_Failed \<Rightarrow> ret ())" for result
    by (cases result) (simp_all add: emit.keeps_pure)
  then show ?thesis
    unfolding serve_guest_def daemon_calls vhost_calls
    by (auto intro!: emit.keeps_rules emit_ext)
qed

lemma goes_round: "bind m (\<lambda>_. ret None) s = (r, s', es) \<Longrightarrow> r \<noteq> Ok (Some x)"
  by (auto simp: bind_def ret_def split: prod.splits outcome.splits)

locale guest_thread =
  fixes iteration :: "('s, 'x event, 'e, unit option) comp" and path :: rust_string
  assumes goes_on: "iteration s = (r, s', es) \<Longrightarrow> r \<noteq> Ok (Some ())"
    and listens: "keeps (emitting (listens_on path)) iteration"
begin

lemma thread_never_ok: "rust_loop iteration s = Some (r, s', es) \<Longrightarrow> r \<noteq> Ok ()"
  by (rule rust_loop_induct [where P = "\<lambda>s r s' es. r \<noteq> Ok ()"])
     (auto dest: goes_on split: outcome.splits option.splits)

lemma thread_listens: "rust_loop iteration s = Some (r, s', es) \<Longrightarrow> list_all (listens_on path) es"
  using emit.keeps_loop [OF listens] by (simp add: emitting_def)

end

end
