(* ===== verification/CanBackend.thy ===== *)
theory CanBackend
  imports CanThread Daemon
begin

text \<open>
  The program around the CAN device (\<open>backend.rs\<close>): its arguments, the thread of each guest and
  the main function.  One iteration of a thread builds a controller and a backend of its own,
  starts the read thread and the daemon, and serves one guest until it disconnects.
\<close>

section \<open>Arguments and configuration\<close>

datatype can_start_error =
    SocketCountInvalid nat
  | FailedJoiningThreads
  | CouldNotCreateCanController can_error
  | CouldNotCreateBackend vhu_can_error
  | CouldNotCreateDaemon

record CanArgs =
  arg_socket_path :: rust_string
  arg_can_in :: rust_string
  arg_can_out :: rust_string
  arg_socket_count :: u32

record CanConfiguration =
  socket_path :: rust_string
  socket_count :: u32
  can_in :: rust_string
  can_out :: rust_string

definition try_from :: "CanArgs \<Rightarrow> can_start_error + CanConfiguration" where
  "try_from args =
     (if arg_socket_count args = 0 then Inl (SocketCountInvalid 0)
      else Inr \<lparr>socket_path = arg_socket_path args, socket_count = arg_socket_count args,
                can_in = trim (arg_can_in args), can_out = trim (arg_can_out args)\<rparr>)"

section \<open>One guest\<close>

text \<open>
  The body of the \<open>loop\<close>: \<open>?\<close> leaves the loop and ends the thread, the end of the body goes
  round again.
\<close>

definition guest_iteration ::
  "('w, 'q) can_host \<Rightarrow> CanConfiguration \<Rightarrow>
   (('w, 'q, 'z) can_device_scheme, can_event event, can_start_error, unit option) comp" where
  "guest_iteration H conf =
     bind (map_err CouldNotCreateCanController (new_controller H (can_in conf) (can_out conf))) (\<lambda>c.
     bind (modify (\<lambda>s. s\<lparr>controller := c, controller_poisoned := False\<rparr>)) (\<lambda>_.
     bind (map_err CouldNotCreateBackend (new_backend H)) (\<lambda>b.
     bind (modify (\<lambda>s. s\<lparr>backend := b\<rparr>)) (\<lambda>_.
     bind spawn (\<lambda>_.
     bind (new_daemon H (str ''vhost-device-can-backend'')) (\<lambda>ok.
     bind (ensure ok CouldNotCreateDaemon) (\<lambda>_.
     bind (epoll_handlers H) (\<lambda>n.
     bind (first_handler n) (\<lambda>_.
     bind (set_vring_worker H) (\<lambda>_.
     bind (get (\<lambda>s. exit_event (backend s))) (\<lambda>exit_fd.
     bind (serve_guest H (socket_path conf) exit_fd) (\<lambda>_.
     ret None))))))))))))"

definition guest_thread_run ::
  "('w, 'q) can_host \<Rightarrow> CanConfiguration \<Rightarrow> ('w, 'q, 'z) can_device_scheme \<Rightarrow>
   (('w, 'q, 'z) can_device_scheme, can_event event, can_start_error, unit) run" where
  "guest_thread_run H conf = rust_loop (guest_iteration H conf)"

section \<open>The main function\<close>

text \<open>
  The threads run at the same time and share only the world outside; \<open>starts i\<close> is the state
  in which thread \<open>i\<close> is started, about which nothing is assumed.
\<close>

definition start_backend ::
  "('w, 'q) can_host \<Rightarrow> CanArgs \<Rightarrow> (nat \<Rightarrow> ('w, 'q, 'z) can_device_scheme) \<Rightarrow>
   (can_start_error, unit) outcome option" where
  "start_backend H args starts =
     (case try_from args of
        Inl _ \<Rightarrow> Some (Panic Unwrap_Err)
      | Inr conf \<Rightarrow>
          join_all FailedJoiningThreads
            (map (\<lambda>i. map_option fst (guest_thread_run H conf (starts i)))
              [0..<unat (socket_count conf)]))"

definition can_init ::
  "('w, 'q) can_host \<Rightarrow> CanArgs \<Rightarrow> (nat \<Rightarrow> ('w, 'q, 'z) can_device_scheme) \<Rightarrow> nat option" where
  "can_init H args starts = map_option exit_status (start_backend H args starts)"

section \<open>What the threads do\<close>

lemma listens_new_controller: "keeps (emitting (listens_on path)) (new_controller H i out)"
proof -
  have "keeps (emitting (listens_on path))
      (case r of Some socket \<Rightarrow> ret socket | None \<Rightarrow> panic Explicit_Panic)" for r
    by (cases r) (simp_all add: emit.keeps_pure)
  then show ?thesis
    unfolding new_controller_def open_can_sockets_def vhost_calls
    by (auto intro!: emit.keeps_rules emit_ext)
qed

lemma listens_can_iteration:
  "keeps (emitting (listens_on (socket_path conf))) (guest_iteration H conf)"
  unfolding guest_iteration_def new_backend_def set_vring_worker_def daemon_calls vhost_calls
  by (auto intro!: emit.keeps_rules emit.keeps_lock_read emit_ext emit_spawn emit_first_handler
      emit.keeps_modify listens_new_controller listens_serve_guest simp: emitting_def)

lemma guest_iteration_goes_on: "guest_iteration H conf s = (r, s', es) \<Longrightarrow> r \<noteq> Ok (Some ())"
  unfolding guest_iteration_def by (simp only: bind_assoc [symmetric]) (rule goes_round)

interpretation can: guest_thread "guest_iteration H conf" "socket_path conf" for H conf
  by unfold_locales (fact guest_iteration_goes_on, fact listens_can_iteration)

section \<open>The theorems\<close>

text \<open>
  C24: the program cannot end well.  With no guests to serve it panics at once; otherwise
  \<open>start_backend\<close> returns, if at all, an error: the error that ended the thread joined first, or
  \<open>FailedJoiningThreads\<close> if that thread panicked.
\<close>

theorem start_backend_never_ok:
  "(arg_socket_count args = 0 \<longrightarrow> start_backend H args starts = Some (Panic Unwrap_Err))
    \<and> (arg_socket_count args \<noteq> 0 \<longrightarrow> start_backend H args starts = Some r \<longrightarrow> (\<exists>e. r = Err e))"
proof (cases "arg_socket_count args = 0")
  case True
  then show ?thesis by (simp add: start_backend_def try_from_def)
next
  case False
  obtain conf where conf: "try_from args = Inr conf" "socket_count conf = arg_socket_count args"
    using False by (simp add: try_from_def)
  have "guest_thread_run H conf (starts i) = Some (r, s', es) \<Longrightarrow> r \<noteq> Ok ()" for i r s' es
    unfolding guest_thread_run_def by (rule can.thread_never_ok)
  then have "h \<noteq> Some (Ok ())"
    if "h \<in> set (map (\<lambda>i. map_option fst (guest_thread_run H conf (starts i)))
      [0..<unat (socket_count conf)])" for h
    using that by auto
  moreover have "[0..<unat (socket_count conf)] \<noteq> []"
    using False by (simp add: conf(2) unat_gt_0)
  ultimately have "start_backend H args starts = Some r \<Longrightarrow> \<exists>e. r = Err e"
    unfolding start_backend_def conf(1) by (simp only: sum.case) (drule join_all_bad; auto)
  with False show ?thesis by simp
qed

definition example_args :: CanArgs where
  "example_args = \<lparr>arg_socket_path = str ''/tmp/can.sock'', arg_can_in = str ''can0 '',
     arg_can_out = str ''can1'', arg_socket_count = 2\<rparr>"

definition example_conf :: CanConfiguration where
  "example_conf = \<lparr>socket_path = str ''/tmp/can.sock'', socket_count = 2,
     can_in = str ''can0'', can_out = str ''can1''\<rparr>"

lemma example_try_from: "try_from example_args = Inr example_conf"
  by (simp add: try_from_def example_args_def example_conf_def) (simp add: trim_def is_whitespace_def str_def)

text \<open>A host on which the listener cannot be created: the thread ends with a panic.\<close>

definition failing_host :: "(unit, VirtioCanFrame list) can_host" where
  "failing_host = (example_host [] [])\<lparr>listener_new := (\<lambda>path unlink w. (False, w))\<rparr>"

lemma failing_thread:
  "\<exists>s'. guest_thread_run failing_host example_conf (example_device [] False) =
     Some (Panic Unwrap_Err, s',
       [Device (Can_Open (str ''can1'') (Some 4)), Eventfd_New (Some 9), Eventfd_New (Some 9),
        Thread_Spawn, Daemon_New (str ''vhost-device-can-backend'') True, Epoll_Handlers 1,
        Register_Listener 9 EventSet_IN 4 True, Listener_New (str ''/tmp/can.sock'') True False])"
  unfolding guest_thread_run_def
  by (rule exI, rule rust_loop_panic)
     (simp add: guest_iteration_def new_controller_def open_can_sockets_def new_backend_def
       set_vring_worker_def serve_guest_def first_handler_def daemon_calls modify_def spawn_def
       failing_host_def example_conf_def example_run_defs)

lemma failing_start:
  "start_backend failing_host example_args (\<lambda>_. example_device [] False) = Some (Err FailedJoiningThreads)"
proof -
  obtain s' es where
    "guest_thread_run failing_host example_conf (example_device [] False) = Some (Panic Unwrap_Err, s', es)"
    using failing_thread by blast
  moreover have "[0..<unat (2 :: u32)] = [0, 1]" by (simp add: upt_rec)
  ultimately show ?thesis
    by (simp add: start_backend_def example_try_from) (simp add: example_conf_def)
qed

theorem start_backend_never_ok_witness:
  "\<exists>e. start_backend failing_host example_args (\<lambda>_. example_device [] False) = Some (Err e)"
proof -
  have "arg_socket_count example_args \<noteq> 0" by (simp add: example_args_def)
  with start_backend_never_ok [of example_args failing_host "\<lambda>_. example_device [] False"
      "Err FailedJoiningThreads"] failing_start
  show ?thesis by auto
qed

text \<open>
  C31: the threads of all guests listen on the one path that was given, whatever the number of
  sockets, with the old socket file removed.
\<close>

theorem guests_share_socket:
  assumes "try_from args = Inr conf" and "guest_thread_run H conf s = Some (r, s', es)"
  shows "list_all (listens_on (arg_socket_path args)) es"
proof -
  have "socket_path conf = arg_socket_path args"
    using assms(1) by (auto simp: try_from_def split: if_splits)
  with can.thread_listens [OF assms(2) [unfolded guest_thread_run_def]] show ?thesis by simp
qed

theorem guests_share_socket_witness:
  "list_all (listens_on (arg_socket_path example_args))
     [Epoll_Handlers 1 :: can_event event, Listener_New (str ''/tmp/can.sock'') True False]"
proof -
  obtain s' es where
    "guest_thread_run failing_host example_conf (example_device [] False) =
       Some (Panic Unwrap_Err, s', es @
         [Epoll_Handlers 1, Register_Listener 9 EventSet_IN 4 True,
          Listener_New (str ''/tmp/can.sock'') True False])"
    using failing_thread by (metis append_Cons append_Nil)
  from guests_share_socket [OF example_try_from this] show ?thesis by simp
qed

end
