(* ===== verification/Console.thy ===== *)
theory Console
  imports Vhost
begin

text \<open>
  The console controller (\<open>console.rs\<close>) and the messages of the console device (the structures
  of \<open>vhu_console.rs\<close>) with their form in guest memory.

  The crates around the device are the record \<open>console_host\<close>: the queue of control messages
  (\<open>queues::Queue\<close>), the standard output and the terminal (\<open>console::Term\<close>).  What the code
  relies on of the queue is \<open>ctl_laws\<close>.
\<close>

section \<open>Messages\<close>

definition VIRTIO_CONSOLE_DEVICE_READY :: u16 where "VIRTIO_CONSOLE_DEVICE_READY = 0"
definition VIRTIO_CONSOLE_PORT_ADD :: u16 where "VIRTIO_CONSOLE_PORT_ADD = 1"
definition VIRTIO_CONSOLE_PORT_READY :: u16 where "VIRTIO_CONSOLE_PORT_READY = 3"
definition VIRTIO_CONSOLE_CONSOLE_PORT :: u16 where "VIRTIO_CONSOLE_CONSOLE_PORT = 4"
definition VIRTIO_CONSOLE_PORT_OPEN :: u16 where "VIRTIO_CONSOLE_PORT_OPEN = 6"
definition VIRTIO_CONSOLE_PORT_NAME :: u16 where "VIRTIO_CONSOLE_PORT_NAME = 7"

lemmas control_event_defs =
  VIRTIO_CONSOLE_DEVICE_READY_def VIRTIO_CONSOLE_PORT_ADD_def VIRTIO_CONSOLE_PORT_READY_def
  VIRTIO_CONSOLE_CONSOLE_PORT_def VIRTIO_CONSOLE_PORT_OPEN_def VIRTIO_CONSOLE_PORT_NAME_def

text \<open>The fields \<open>id\<close>, \<open>event\<close> and \<open>value\<close> of \<open>VirtioConsoleControl\<close>.\<close>

record VirtioConsoleControl =
  control_id :: u32
  control_event :: u16
  control_value :: u16

definition size_of_control :: nat where "size_of_control = 8"

definition to_le_bytes :: "VirtioConsoleControl \<Rightarrow> u8 list" where
  "to_le_bytes m =
     le32_bytes (control_id m) @ le16_bytes (control_event m) @ le16_bytes (control_value m)"

definition control_of :: "u8 list \<Rightarrow> VirtioConsoleControl" where
  "control_of bs =
     \<lparr>control_id = le32_of (bs ! 0) (bs ! 1) (bs ! 2) (bs ! 3),
      control_event = le16_of (bs ! 4) (bs ! 5),
      control_value = le16_of (bs ! 6) (bs ! 7)\<rparr>"

record VirtioConsoleConfig =
  cols :: u16
  rows :: u16
  max_nr_ports :: u32
  emerg_wr :: u32

definition console_config_bytes :: "VirtioConsoleConfig \<Rightarrow> u8 list" where
  "console_config_bytes c =
     le16_bytes (cols c) @ le16_bytes (rows c) @ le32_bytes (max_nr_ports c) @ le32_bytes (emerg_wr c)"

section \<open>The controller\<close>

datatype console_error = ConsoleNotEnabled

record ConsoleController =
  config :: VirtioConsoleConfig
  console_name :: rust_string

definition new_controller :: "rust_string \<Rightarrow> ('s, 'x, console_error, ConsoleController) comp" where
  "new_controller name =
     ret \<lparr>config = \<lparr>cols = 20, rows = 20, max_nr_ports = 1, emerg_wr = 64\<rparr>, console_name = name\<rparr>"

definition operation :: "VirtioConsoleControl \<Rightarrow> ('s, 'x, console_error, unit) comp" where
  "operation tx_request = ret ()"

section \<open>The crates around the device\<close>

record ('w, 'q) console_host = "'w vhost" +
  ctl_new :: 'q
  ctl_add :: "VirtioConsoleControl \<Rightarrow> 'q \<Rightarrow> bool \<times> 'q"
  ctl_remove :: "'q \<Rightarrow> VirtioConsoleControl option \<times> 'q"
  stdout_print :: "rust_string \<Rightarrow> 'w \<Rightarrow> bool \<times> 'w"
  stdout_flush :: "'w \<Rightarrow> bool \<times> 'w"
  term_read_char :: "'w \<Rightarrow> rust_char option \<times> 'w"

datatype console_event =
    Ctl_Add VirtioConsoleControl bool
  | Ctl_Remove "VirtioConsoleControl option"
  | Print rust_string bool
  | Flush bool
  | Term_Read "rust_char option"

type_synonym console_trace = "console_event event list"

definition ctl_laws :: "('w, 'q) console_host \<Rightarrow> ('q \<Rightarrow> VirtioConsoleControl list) \<Rightarrow> bool" where
  "ctl_laws H contents \<longleftrightarrow>
     contents (ctl_new H) = [] \<and>
     (\<forall>x q ok q'. ctl_add H x q = (ok, q') \<longrightarrow>
        contents q' = (if ok then contents q @ [x] else contents q)) \<and>
     (\<forall>q x q'. ctl_remove H q = (Some x, q') \<longrightarrow> contents q = x # contents q') \<and>
     (\<forall>q q'. ctl_remove H q = (None, q') \<longrightarrow> contents q = [] \<and> contents q' = [])"

section \<open>Encodings\<close>

lemma length_to_le_bytes [simp]: "length (to_le_bytes m) = size_of_control"
  by (simp add: to_le_bytes_def size_of_control_def)

lemma control_of_bytes [simp]: "control_of (to_le_bytes m) = m"
  by (simp add: control_of_def to_le_bytes_def le16_bytes_def le32_bytes_def nth_append)

lemma to_le_bytes_control_of:
  assumes "length bs = size_of_control"
  shows "to_le_bytes (control_of bs) = bs"
  using assms
  by (auto simp: control_of_def to_le_bytes_def size_of_control_def numeral_eq_Suc length_Suc_conv)

text \<open>
  C30: a control message has eight bytes, and reading it back gives the message; so does writing
  what was read from any eight bytes.
\<close>

theorem control_roundtrip:
  "control_of (to_le_bytes m) = m \<and> length (to_le_bytes m) = 8
    \<and> (length bs = 8 \<longrightarrow> to_le_bytes (control_of bs) = bs)"
  using to_le_bytes_control_of [of bs] by (simp add: size_of_control_def)

theorem control_roundtrip_witness: "to_le_bytes (control_of [1, 0, 0, 0, 3, 0, 1, 0]) = [1, 0, 0, 0, 3, 0, 1, 0]"
  using control_roundtrip [of _ "[1, 0, 0, 0, 3, 0, 1, 0]"] by simp

lemma length_console_config_bytes: "length (console_config_bytes c) = 12"
  by (simp add: console_config_bytes_def)

end
