(* ===== verification/VhuConsole.thy ===== *)
theory VhuConsole
  imports Console
begin

text \<open>
  The console device (\<open>vhu_console.rs\<close>): the state of \<open>VhostUserConsoleBackend\<close>, the handlers of
  its four queues, the replies to control messages, the event dispatch and the thread that
  reads the terminal.  Debug output (\<open>log::trace!\<close>, \<open>print_console_frame\<close>) is left out; the text
  of the guest that the transmit queue prints is not.
\<close>

section \<open>State\<close>

definition QUEUE_SIZE :: nat where "QUEUE_SIZE = 128"
definition NUM_QUEUES :: nat where "NUM_QUEUES = 4"

definition RX_QUEUE :: u16 where "RX_QUEUE = 0"
definition TX_QUEUE :: u16 where "TX_QUEUE = 1"
definition CTRL_RX_QUEUE :: u16 where "CTRL_RX_QUEUE = 2"
definition CTRL_TX_QUEUE :: u16 where "CTRL_TX_QUEUE = 3"
definition BACKEND_EFD :: u16 where "BACKEND_EFD = of_nat (NUM_QUEUES + 1)"
definition BACKEND_RX_EFD :: u16 where "BACKEND_RX_EFD = of_nat (NUM_QUEUES + 2)"

lemmas console_queue_defs =
  RX_QUEUE_def TX_QUEUE_def CTRL_RX_QUEUE_def CTRL_TX_QUEUE_def BACKEND_EFD_def BACKEND_RX_EFD_def
  NUM_QUEUES_def

definition VIRTIO_CONSOLE_F_MULTIPORT :: u16 where "VIRTIO_CONSOLE_F_MULTIPORT = 1"
definition VIRTIO_CONSOLE_F_EMERG_WRITE :: u16 where "VIRTIO_CONSOLE_F_EMERG_WRITE = 2"

datatype vhu_console_error =
    HandleEventNotEpollIn
  | HandleEventUnknown
  | UnexpectedWriteOnlyDescriptor nat
  | UnexpectedReadableDescriptor nat
  | UnexpectedDescriptorCount nat
  | UnexpectedDescriptorSize nat u32
  | DescriptorNotFound
  | NotificationFailed
  | DescriptorReadFailed
  | DescriptorWriteFailed
  | EventFdFailed
  | EmptyQueue

text \<open>\<open>From<Error> for io::Error\<close>: the kind \<open>Other\<close> around the error.\<close>

datatype console_io_error = Io_Other vhu_console_error

record 'q VhostUserConsoleBackend =
  acked_features :: u64
  event_idx :: bool
  rx_fifo :: 'q
  ready :: bool
  ready_to_write :: bool
  output_buffer :: rust_string
  rx_event :: eventfd
  rx_ctrl_event :: eventfd
  exit_event :: eventfd
  mem :: "guest_memory option"

text \<open>
  The controller and the backend are shared through \<open>Arc<RwLock<_>>\<close>, each with the flag of
  its lock.  The handlers run with the lock of the backend held by their caller.
\<close>

record ('w, 'q) console_device = "'w sys" +
  controller :: ConsoleController
  controller_poisoned :: bool
  backend :: "'q VhostUserConsoleBackend"
  backend_poisoned :: bool

type_synonym ('w, 'q, 'z, 'e, 'a) console_comp =
  "(('w, 'q, 'z) console_device_scheme, console_event event, 'e, 'a) comp"

definition new_backend ::
  "('w, 'q) console_host \<Rightarrow>
   (('w, 'z) sys_scheme, console_event event, vhu_console_error, 'q VhostUserConsoleBackend) comp" where
  "new_backend H =
     bind (new_eventfd H) (\<lambda>efd.
     bind (ok_or EventFdFailed efd) (\<lambda>rx_efd.
     bind (new_eventfd H) (\<lambda>efd.
     bind (ok_or EventFdFailed efd) (\<lambda>rx_ctrl_efd.
     bind (new_eventfd H) (\<lambda>efd.
     bind (ok_or EventFdFailed efd) (\<lambda>exit_efd.
     ret \<lparr>acked_features = 0x0, event_idx = False, rx_fifo = ctl_new H, ready = False,
          ready_to_write = False, output_buffer = [], rx_event = rx_efd,
          rx_ctrl_event = rx_ctrl_efd, exit_event = exit_efd, mem = None\<rparr>))))))"

definition check_features :: "'q VhostUserConsoleBackend \<Rightarrow> u16 \<Rightarrow> bool" where
  "check_features b features \<longleftrightarrow> acked_features b AND push_bit (unat features) 1 \<noteq> 0"

definition update_backend ::
  "('q VhostUserConsoleBackend \<Rightarrow> 'q VhostUserConsoleBackend) \<Rightarrow> ('w, 'q, 'z, 'e, unit) console_comp" where
  "update_backend f = modify (\<lambda>s. s\<lparr>backend := f (backend s)\<rparr>)"

text \<open>The queue of control messages for the guest.\<close>

definition add_control ::
  "('w, 'q) console_host \<Rightarrow> VirtioConsoleControl \<Rightarrow> ('w, 'q, 'z, 'e, bool) console_comp" where
  "add_control H m s =
     (case ctl_add H m (rx_fifo (backend s)) of
        (ok, q) \<Rightarrow> (Ok ok, s\<lparr>backend := (backend s)\<lparr>rx_fifo := q\<rparr>\<rparr>, [Device (Ctl_Add m ok)]))"

definition remove_control ::
  "('w, 'q) console_host \<Rightarrow> ('w, 'q, 'z, 'e, VirtioConsoleControl option) console_comp" where
  "remove_control H s =
     (case ctl_remove H (rx_fifo (backend s)) of
        (r, q) \<Rightarrow> (Ok r, s\<lparr>backend := (backend s)\<lparr>rx_fifo := q\<rparr>\<rparr>, [Device (Ctl_Remove r)]))"

section \<open>The receive queue\<close>

definition process_rx_requests ::
  "('w, 'q) console_host \<Rightarrow> desc_chain list \<Rightarrow> vring \<Rightarrow>
   ('w, 'q, 'z, vhu_console_error, bool) console_comp" where
  "process_rx_requests H requests vring =
     (case requests of
        [] \<Rightarrow> bind (signal_used_queue H vring) (\<lambda>_. ret True)
      | desc_chain # _ \<Rightarrow>
          bind (collect_chain H desc_chain) (\<lambda>descriptors.
          bind (ensure (length descriptors = 1) (UnexpectedDescriptorCount (length descriptors))) (\<lambda>_.
          bind (index descriptors 0) (\<lambda>desc_request.
          bind (ensure (is_write_only desc_request) (UnexpectedReadableDescriptor 1)) (\<lambda>_.
          bind (get (\<lambda>s. output_buffer (backend s))) (\<lambda>response.
          bind (write_slice H desc_chain (as_bytes response) (addr desc_request)) (\<lambda>ok.
          bind (ensure ok DescriptorWriteFailed) (\<lambda>_.
          bind (add_used H vring (head_index desc_chain) (of_nat (length (as_bytes response)))) (\<lambda>_.
          ret True)))))))))"

section \<open>The transmit queue\<close>

text \<open>
  \<open>&buffer[0..desc_len]\<close> of the buffer of 4096 bytes, which the read has filled whatever the
  length of the descriptor.
\<close>

definition buffer_size :: nat where "buffer_size = 4096"

definition slice_to :: "nat \<Rightarrow> 'a list \<Rightarrow> ('s, 'x, 'e, 'a list) comp" where
  "slice_to n xs = (if n \<le> length xs then ret (take n xs) else panic Index_Out_Of_Bounds)"

definition process_tx_chain ::
  "('w, 'q) console_host \<Rightarrow> vring \<Rightarrow> desc_chain \<Rightarrow> ('w, 'q, 'z, vhu_console_error, unit) console_comp" where
  "process_tx_chain H vring desc_chain =
     bind (collect_chain H desc_chain) (\<lambda>descriptors.
     bind (ensure (length descriptors = 1) (UnexpectedDescriptorCount (length descriptors))) (\<lambda>_.
     bind (index descriptors 0) (\<lambda>desc_request.
     bind (ensure (\<not> is_write_only desc_request) (UnexpectedWriteOnlyDescriptor 0)) (\<lambda>_.
     bind (read_mem H desc_chain (addr desc_request) buffer_size) (\<lambda>buffer.
     bind (ok_or DescriptorReadFailed buffer) (\<lambda>buffer.
     bind (slice_to (unat (len desc_request)) buffer) (\<lambda>new_buff.
     bind (unwrap Unwrap_Err (from_utf8 new_buff)) (\<lambda>my_string.
     bind (ext (stdout_print H my_string) (\<lambda>ok. Device (Print my_string ok))) (\<lambda>ok.
     bind (if ok then ret () else panic Explicit_Panic) (\<lambda>_.
     bind (ext (stdout_flush H) (\<lambda>ok. Device (Flush ok))) (\<lambda>ok.
     bind (unwrap_ok ok) (\<lambda>_.
     bind (add_used H vring (head_index desc_chain) (len desc_request)) (\<lambda>_.
     ret ())))))))))))))"

definition process_tx_requests ::
  "('w, 'q) console_host \<Rightarrow> desc_chain list \<Rightarrow> vring \<Rightarrow>
   ('w, 'q, 'z, vhu_console_error, bool) console_comp" where
  "process_tx_requests H requests vring =
     (if requests = [] then ret True
      else bind (mfor (process_tx_chain H vring) requests) (\<lambda>_. ret True))"

section \<open>The control queue to the guest\<close>

definition port_name :: rust_string where
  "port_name = str ''org.fedoraproject.console.foo!''"

definition control_payload :: "VirtioConsoleControl \<Rightarrow> u8 list" where
  "control_payload ctrl_msg =
     to_le_bytes ctrl_msg @
     (if control_event ctrl_msg = VIRTIO_CONSOLE_PORT_NAME then as_bytes port_name else [])"

text \<open>\<open>Some False\<close> is \<open>return Ok(false)\<close>: there is no message left.\<close>

definition process_ctrl_rx_chain ::
  "('w, 'q) console_host \<Rightarrow> vring \<Rightarrow> desc_chain \<Rightarrow>
   ('w, 'q, 'z, vhu_console_error, bool option) console_comp" where
  "process_ctrl_rx_chain H vring desc_chain =
     bind (collect_chain H desc_chain) (\<lambda>descriptors.
     bind (ensure (\<not> length descriptors < 1) (UnexpectedDescriptorCount (length descriptors))) (\<lambda>_.
     bind (remove_control H) (\<lambda>item.
     case item of
       None \<Rightarrow> ret (Some False)
     | Some ctrl_msg \<Rightarrow>
         bind (index descriptors 0) (\<lambda>desc_request.
         bind (ensure (is_write_only desc_request) (UnexpectedWriteOnlyDescriptor 0)) (\<lambda>_.
         bind (ensure (\<not> unat (len desc_request) < size_of_control)
                 (UnexpectedDescriptorSize size_of_control (len desc_request))) (\<lambda>_.
         bind (write_slice H desc_chain (control_payload ctrl_msg) (addr desc_request)) (\<lambda>ok.
         bind (ensure ok DescriptorWriteFailed) (\<lambda>_.
         bind (add_used H vring (head_index desc_chain) (len desc_request)) (\<lambda>_.
         ret None)))))))))"

definition process_ctrl_rx_requests ::
  "('w, 'q) console_host \<Rightarrow> desc_chain list \<Rightarrow> vring \<Rightarrow>
   ('w, 'q, 'z, vhu_console_error, bool) console_comp" where
  "process_ctrl_rx_requests H requests vring =
     (if requests = [] then ret True
      else bind (mfor_until (process_ctrl_rx_chain H vring) requests) (\<lambda>v.
           case v of Some b \<Rightarrow> ret b | None \<Rightarrow> ret True))"

definition process_ctrl_rx_queue ::
  "('w, 'q) console_host \<Rightarrow> vring \<Rightarrow> ('w, 'q, 'z, vhu_console_error, unit) console_comp" where
  "process_ctrl_rx_queue H =
     serve_queue H (\<lambda>s. mem (backend s)) DescriptorNotFound NotificationFailed
       (process_ctrl_rx_requests H)"

section \<open>The control queue from the guest\<close>

definition control_reply :: "u16 \<Rightarrow> VirtioConsoleControl" where
  "control_reply event = \<lparr>control_id = 0, control_event = event, control_value = 1\<rparr>"

text \<open>Queue a reply and hand what is queued to the guest.\<close>

definition send_reply ::
  "('w, 'q) console_host \<Rightarrow> vring \<Rightarrow> u16 \<Rightarrow> ('w, 'q, 'z, vhu_console_error, unit) console_comp" where
  "send_reply H vring event =
     bind (add_control H (control_reply event)) (\<lambda>_. process_ctrl_rx_queue H vring)"

definition handle_control_msg ::
  "('w, 'q) console_host \<Rightarrow> vring \<Rightarrow> VirtioConsoleControl \<Rightarrow>
   ('w, 'q, 'z, vhu_console_error, unit) console_comp" where
  "handle_control_msg H vring ctrl_msg =
     (if control_event ctrl_msg = VIRTIO_CONSOLE_DEVICE_READY then
        bind (update_backend (\<lambda>b. b\<lparr>ready := True\<rparr>)) (\<lambda>_.
        send_reply H vring VIRTIO_CONSOLE_PORT_ADD)
      else if control_event ctrl_msg = VIRTIO_CONSOLE_PORT_READY then
        bind (send_reply H vring VIRTIO_CONSOLE_CONSOLE_PORT) (\<lambda>_.
        bind (send_reply H vring VIRTIO_CONSOLE_PORT_NAME) (\<lambda>_.
        send_reply H vring VIRTIO_CONSOLE_PORT_OPEN))
      else if control_event ctrl_msg = VIRTIO_CONSOLE_PORT_OPEN then ret ()
      else fail HandleEventUnknown)"

text \<open>The result of \<open>handle_control_msg\<close> is dropped; a panic in it is not.\<close>

definition process_ctrl_tx_chain ::
  "('w, 'q) console_host \<Rightarrow> vring \<Rightarrow> vring \<Rightarrow> desc_chain \<Rightarrow>
   ('w, 'q, 'z, vhu_console_error, unit) console_comp" where
  "process_ctrl_tx_chain H rx_ctrl_vring vring desc_chain =
     bind (collect_chain H desc_chain) (\<lambda>descriptors.
     bind (ensure (\<not> length descriptors < 1) (UnexpectedDescriptorCount (length descriptors))) (\<lambda>_.
     bind (index descriptors 0) (\<lambda>desc_request.
     bind (ensure (\<not> is_write_only desc_request) (UnexpectedWriteOnlyDescriptor 0)) (\<lambda>_.
     bind (ensure (unat (len desc_request) = size_of_control)
             (UnexpectedDescriptorSize size_of_control (len desc_request))) (\<lambda>_.
     bind (read_mem H desc_chain (addr desc_request) size_of_control) (\<lambda>bytes.
     bind (ok_or DescriptorReadFailed bytes) (\<lambda>bytes.
     bind (attempt (handle_control_msg H rx_ctrl_vring (control_of bytes))) (\<lambda>_.
     bind (get_kick H rx_ctrl_vring) (\<lambda>kick.
     bind (if kick then
             bind (get (\<lambda>s. rx_ctrl_event (backend s))) (\<lambda>efd.
             bind (write_eventfd H efd 1) (\<lambda>ok.
             unwrap_ok ok))
           else ret ()) (\<lambda>_.
     bind (add_used H vring (head_index desc_chain) (len desc_request)) (\<lambda>_.
     ret ())))))))))))"

definition process_ctrl_tx_requests ::
  "('w, 'q) console_host \<Rightarrow> vring \<Rightarrow> desc_chain list \<Rightarrow> vring \<Rightarrow>
   ('w, 'q, 'z, vhu_console_error, bool) console_comp" where
  "process_ctrl_tx_requests H rx_ctrl_vring requests vring =
     (if requests = [] then ret True
      else bind (mfor (process_ctrl_tx_chain H rx_ctrl_vring vring) requests) (\<lambda>_. ret True))"

section \<open>The queues and the events\<close>

definition process_rx_queue ::
  "('w, 'q) console_host \<Rightarrow> vring \<Rightarrow> ('w, 'q, 'z, vhu_console_error, unit) console_comp" where
  "process_rx_queue H =
     serve_queue H (\<lambda>s. mem (backend s)) DescriptorNotFound NotificationFailed (process_rx_requests H)"

definition process_tx_queue ::
  "('w, 'q) console_host \<Rightarrow> vring \<Rightarrow> ('w, 'q, 'z, vhu_console_error, unit) console_comp" where
  "process_tx_queue H =
     serve_queue H (\<lambda>s. mem (backend s)) DescriptorNotFound NotificationFailed (process_tx_requests H)"

definition process_ctrl_tx_queue ::
  "('w, 'q) console_host \<Rightarrow> vring \<Rightarrow> vring \<Rightarrow> ('w, 'q, 'z, vhu_console_error, unit) console_comp" where
  "process_ctrl_tx_queue H vring rx_ctrl_vring =
     serve_queue H (\<lambda>s. mem (backend s)) DescriptorNotFound NotificationFailed
       (process_ctrl_tx_requests H rx_ctrl_vring) vring"

text \<open>\<open>let _ = self.rx_event.read()\<close> and the like: the answer is dropped.\<close>

definition drain ::
  "('w, 'q) console_host \<Rightarrow> ('q VhostUserConsoleBackend \<Rightarrow> eventfd) \<Rightarrow>
   ('w, 'q, 'z, 'e, u64 option) console_comp" where
  "drain H fd = bind (get (\<lambda>s. fd (backend s))) (\<lambda>efd. read_eventfd H efd)"

definition dispatch ::
  "('w, 'q) console_host \<Rightarrow> u16 \<Rightarrow> vring list \<Rightarrow> vring \<Rightarrow>
   ('w, 'q, 'z, console_io_error, unit) console_comp" where
  "dispatch H device_event vrings vring =
     map_err Io_Other
       (if device_event = TX_QUEUE then
          bind (update_backend (\<lambda>b. b\<lparr>ready_to_write := True\<rparr>)) (\<lambda>_. process_tx_queue H vring)
        else if device_event = CTRL_RX_QUEUE then process_ctrl_rx_queue H vring
        else if device_event = CTRL_TX_QUEUE then
          bind (index vrings (unat CTRL_RX_QUEUE)) (\<lambda>rx_ctrl_vring.
          process_ctrl_tx_queue H vring rx_ctrl_vring)
        else if device_event = BACKEND_EFD then
          bind (drain H rx_event) (\<lambda>_. process_rx_queue H vring)
        else if device_event = BACKEND_RX_EFD then
          bind (drain H rx_ctrl_event) (\<lambda>_. process_ctrl_rx_queue H vring)
        else fail HandleEventUnknown)"

definition vring_index :: "u16 \<Rightarrow> nat" where
  "vring_index device_event =
     (if device_event = BACKEND_EFD then unat RX_QUEUE
      else if device_event = BACKEND_RX_EFD then unat CTRL_RX_QUEUE
      else unat device_event)"

definition handle_event ::
  "('w, 'q) console_host \<Rightarrow> u16 \<Rightarrow> event_set \<Rightarrow> vring list \<Rightarrow> ('w, 'q, 'z) console_device_scheme \<Rightarrow>
   (('w, 'q, 'z) console_device_scheme, console_event event, console_io_error, bool) run" where
  "handle_event H device_event evset vrings s =
     (if device_event = RX_QUEUE then Some (ret False s)
      else if device_event = CTRL_RX_QUEUE \<and> \<not> ready (backend s) then Some (ret False s)
      else
        bind_run (index vrings (vring_index device_event))
          (\<lambda>vring s. then_ret
             (serve_event H (event_idx (backend s)) vring (dispatch H device_event vrings vring) s) False) s)"

section \<open>The terminal thread\<close>

abbreviation write_backend ::
  "('w, 'q, 'z, 'e, 'a) console_comp \<Rightarrow> ('w, 'q, 'z, 'e, 'a) console_comp" where
  "write_backend \<equiv> lock_write backend_poisoned (\<lambda>s. s\<lparr>backend_poisoned := True\<rparr>)"

abbreviation read_backend ::
  "('w, 'q, 'z, 'e, 'a) console_comp \<Rightarrow> ('w, 'q, 'z, 'e, 'a) console_comp" where
  "read_backend \<equiv> lock_read backend_poisoned"

definition console_round ::
  "('w, 'q) console_host \<Rightarrow> ('w, 'q, 'z, 'e, unit option) console_comp" where
  "console_round H =
     bind (read_backend (get (\<lambda>s. ready_to_write (backend s)))) (\<lambda>go.
     if go then
       bind (ext (term_read_char H) (\<lambda>r. Device (Term_Read r))) (\<lambda>r.
       bind (unwrap Unwrap_Err r) (\<lambda>character.
       bind (write_backend (update_backend (\<lambda>b. b\<lparr>output_buffer := [character]\<rparr>))) (\<lambda>_.
       bind (write_backend
               (bind (get (\<lambda>s. rx_event (backend s))) (\<lambda>efd.
                bind (write_eventfd H efd 1) (\<lambda>ok.
                unwrap_ok ok)))) (\<lambda>_.
       ret None))))
     else ret None)"

definition start_console_thread ::
  "('w, 'q) console_host \<Rightarrow> ('w, 'q, 'z) console_device_scheme \<Rightarrow>
   (('w, 'q, 'z) console_device_scheme, console_event event, 'e, unit) run" where
  "start_console_thread H = rust_loop (console_round H)"

section \<open>The rest of the trait\<close>

definition num_queues :: nat where "num_queues = NUM_QUEUES"

definition max_queue_size :: nat where "max_queue_size = QUEUE_SIZE"

definition features :: "bindings \<Rightarrow> u64" where
  "features B =
     push_bit (VIRTIO_F_VERSION_1 B) 1
     OR push_bit (VIRTIO_F_NOTIFY_ON_EMPTY B) 1
     OR push_bit (VIRTIO_RING_F_EVENT_IDX B) 1
     OR push_bit (unat VIRTIO_CONSOLE_F_EMERG_WRITE) 1
     OR push_bit (VIRTIO_RING_F_INDIRECT_DESC B) 1
     OR push_bit (unat VIRTIO_CONSOLE_F_MULTIPORT) 1
     OR PROTOCOL_FEATURES B"

definition protocol_features :: "bindings \<Rightarrow> u64" where
  "protocol_features B = PROTOCOL_MQ B OR PROTOCOL_CONFIG B OR PROTOCOL_REPLY_ACK B"

definition set_acked_features :: "u64 \<Rightarrow> ('w, 'q, 'z, 'e, unit) console_comp" where
  "set_acked_features f = update_backend (\<lambda>b. b\<lparr>acked_features := f\<rparr>)"

definition set_event_idx :: "bool \<Rightarrow> ('w, 'q, 'z, 'e, unit) console_comp" where
  "set_event_idx enabled = update_backend (\<lambda>b. b\<lparr>event_idx := enabled\<rparr>)"

definition update_memory :: "guest_memory \<Rightarrow> ('w, 'q, 'z, 'e, unit) console_comp" where
  "update_memory m = update_backend (\<lambda>b. b\<lparr>mem := Some m\<rparr>)"

text \<open>
  As for the CAN device, the bytes are read by a raw pointer: \<open>None\<close> is a read outside of the
  structure, whose result is undefined.
\<close>

definition get_config ::
  "u32 \<Rightarrow> u32 \<Rightarrow> ('w, 'q, 'z, 'e, u8 list option) console_comp" where
  "get_config offset n =
     lock_write controller_poisoned (\<lambda>s. s\<lparr>controller_poisoned := True\<rparr>)
       (get (\<lambda>s. let bytes = console_config_bytes (config (controller s)) in
          if unat offset + unat n \<le> length bytes
          then Some (take (unat n) (drop (unat offset) bytes))
          else None))"

definition set_vring_worker :: "('w, 'q) console_host \<Rightarrow> ('w, 'q, 'z, 'e, unit) console_comp" where
  "set_vring_worker H =
     bind (get (\<lambda>s. rx_event (backend s))) (\<lambda>efd.
     bind (listen H efd EventSet_IN (ucast BACKEND_EFD)) (\<lambda>ok.
     bind (unwrap_ok ok) (\<lambda>_.
     bind (get (\<lambda>s. rx_ctrl_event (backend s))) (\<lambda>efd.
     bind (listen H efd EventSet_IN (ucast BACKEND_RX_EFD)) (\<lambda>ok.
     unwrap_ok ok)))))"

end
