(* ===== verification/VhuConsoleRuns.thy ===== *)
theory VhuConsoleRuns
  imports VhuConsole
begin

text \<open>
  The runs of the console device's handlers (\<open>vhu_console.rs\<close>).

  The transmit queue and the control queue from the guest are interpretations of
  \<open>chain_handler\<close>, the control queue to the guest of \<open>chain_loop_until\<close> and \<open>queue_handler\<close>,
  the receive queue of \<open>queue_handler\<close>.  The relations at the end are kept by every
  handler: the balance of the queue of control messages, the flags that are never reset.
\<close>

lemma guarded_weaken: "guarded_writes {} es \<Longrightarrow> guarded_writes seen es"
  by (erule guarded_writes_mono) simp

lemma guarded_both:
  "guarded_writes {} es \<Longrightarrow> guarded_writes {} es' \<Longrightarrow> guarded_writes seen (es @ es')"
  by (rule guarded_writes_append [OF guarded_weaken])

section \<open>The transmit queue\<close>

lemma console_tx_contract:
  "post (process_tx_chain H vr c) s (\<lambda>r s' es.
     used_on vr es = (if r = Ok () then [head_index c] else []) \<and> guarded_writes {} es)"
  unfolding process_tx_chain_def slice_to_def vhost_calls
  by (auto simp: post_simps split: prod.split option.split)

lemma console_tx_events: "keeps (emitting (is_handler_event v)) (process_tx_chain H vr c)"
  unfolding process_tx_chain_def slice_to_def vhost_calls
  by (intro emit.keeps_rules emit_ext) simp_all

interpretation console_tx: chain_handler "process_tx_chain H vr" vr "process_tx_requests H" for H vr
  by unfold_locales
     (use postD [OF console_tx_contract] in blast, use postD [OF console_tx_contract] in blast,
      simp add: process_tx_requests_def, rule console_tx_events)

section \<open>The receive queue\<close>

lemma console_rx_contract:
  "post (process_rx_requests H cs vr) s (\<lambda>r s' es.
     subseq (used_on vr es) (map head_index cs) \<and> offered_on vr es = [] \<and> guarded_writes {} es)"
  unfolding process_rx_requests_def vhost_calls
  by (cases cs) (auto simp: post_simps split: prod.split)

interpretation console_rx: queue_handler "process_rx_requests H" vr for H vr
  by unfold_locales (use postD [OF console_rx_contract] in blast)+

section \<open>The control queue to the guest\<close>

lemma post_remove_control:
  "(\<And>x q. Q (Ok x) (s\<lparr>backend := (backend s)\<lparr>rx_fifo := q\<rparr>\<rparr>) [Device (Ctl_Remove x)]) \<Longrightarrow>
   post (remove_control H) s Q"
  by (simp add: post_def remove_control_def split: prod.split)

lemma ctrl_rx_chain_contract:
  "post (process_ctrl_rx_chain H vr c) s (\<lambda>r s' es.
     used_on vr es = (if r = Ok None then [head_index c] else []) \<and> guarded_writes {} es)"
  unfolding process_ctrl_rx_chain_def vhost_calls
  by (simp add: post_simps split: prod.split, intro allI impI conjI post_remove_control)
     (auto simp: post_simps split: option.split prod.split)

interpretation ctrl_rx_loop: chain_loop_until "process_ctrl_rx_chain H vr" vr for H vr
  by unfold_locales (use postD [OF ctrl_rx_chain_contract] in blast)+

lemma emit_remove_control:
  "(\<And>x. P (Device (Ctl_Remove x))) \<Longrightarrow> keeps (emitting P) (remove_control H)"
  by (rule keepsI) (simp add: post_def remove_control_def emitting_def split: prod.split)

lemma ctrl_rx_events: "keeps (emitting (is_handler_event v)) (process_ctrl_rx_requests H cs vr)"
  unfolding process_ctrl_rx_requests_def process_ctrl_rx_chain_def vhost_calls
  by (intro emit.keeps_rules emit_ext emit_remove_control) simp_all

lemma ctrl_rx_loop_run:
  assumes "process_ctrl_rx_requests H cs vr s = (r, s', es)"
  shows "prefix (used_on vr es) (map head_index cs)" and "guarded_writes {} es"
proof -
  have "prefix (used_on vr es) (map head_index cs) \<and> guarded_writes {} es"
  proof (cases "cs = []")
    case True
    with assms show ?thesis by (simp add: process_ctrl_rx_requests_def ret_def)
  next
    case False
    with assms obtain r1 where run: "mfor_until (process_ctrl_rx_chain H vr) cs s = (r1, s', es)"
      by (auto simp: process_ctrl_rx_requests_def bind_def ret_def split: prod.splits outcome.splits option.splits)
    with ctrl_rx_loop.loop_used [OF run] ctrl_rx_loop.loop_writes [OF run] show ?thesis
      by (auto simp: take_map [symmetric] take_is_prefix)
  qed
  then show "prefix (used_on vr es) (map head_index cs)" and "guarded_writes {} es" by simp_all
qed

interpretation ctrl_rx: queue_handler "process_ctrl_rx_requests H" vr for H vr
proof
  fix cs s r s' es
  assume run: "process_ctrl_rx_requests H cs vr s = (r, s', es)"
  show "subseq (used_on vr es) (map head_index cs)"
    by (rule prefix_imp_subseq [OF ctrl_rx_loop_run(1) [OF run]])
  show "offered_on vr es = []" by (rule offered_none [OF keepsD [OF ctrl_rx_events run]])
  show "guarded_writes {} es" by (rule ctrl_rx_loop_run(2) [OF run])
qed

section \<open>The control queue from the guest\<close>

text \<open>
  The replies go out on another queue, so they leave the contract of this one alone.
\<close>

definition elsewhere :: "vring \<Rightarrow> 's \<Rightarrow> 'x event list \<Rightarrow> 's \<Rightarrow> bool" where
  "elsewhere v s es s' \<longleftrightarrow> used_on v es = [] \<and> offered_on v es = [] \<and> guarded_writes {} es"

interpretation elsewhere: run_relation "elsewhere v" for v
  by unfold_locales (auto simp: elsewhere_def intro: guarded_writes_append)

lemma elsewhere_ctrl_rx:
  assumes "v \<noteq> vr"
  shows "keeps (elsewhere v) (process_ctrl_rx_queue H vr)"
proof (rule keepsI, rule post_run)
  fix s r s' es
  assume run: "process_ctrl_rx_queue H vr s = (r, s', es)"
  have "keeps (emitting (\<lambda>e. (\<forall>h n ok. e \<noteq> Add_Used v h n ok) \<and> (\<forall>cs. e \<noteq> Queue_Iter v cs)))
      (process_ctrl_rx_queue H vr)"
    using assms
    unfolding process_ctrl_rx_queue_def process_ctrl_rx_requests_def process_ctrl_rx_chain_def
      serve_queue_def vhost_calls
    by (intro emit.keeps_rules emit_ext emit_remove_control) simp_all
  note none = keepsD [OF this run, unfolded emitting_def]
  then have "used_on v es = []" by (intro used_on_none) (simp add: list_all_iff)
  moreover have "offered_on v es = []"
    using none by (induction v es rule: offered_on.induct) auto
  moreover have "guarded_writes {} es"
    using ctrl_rx.serve_writes run unfolding process_ctrl_rx_queue_def by blast
  ultimately show "elsewhere v s es s'" by (simp add: elsewhere_def)
qed

lemma elsewhere_update: "keeps (elsewhere v) (update_backend f)"
  unfolding update_backend_def by (rule elsewhere.keeps_modify) (simp add: elsewhere_def)

lemma elsewhere_add: "keeps (elsewhere v) (add_control H m)"
  by (rule keepsI) (simp add: post_def add_control_def elsewhere_def split: prod.split)

lemma elsewhere_control: "v \<noteq> vr \<Longrightarrow> keeps (elsewhere v) (handle_control_msg H vr m)"
  unfolding handle_control_msg_def send_reply_def
  by (intro elsewhere.keeps_rules elsewhere_update elsewhere_add elsewhere_ctrl_rx)

lemma ctrl_tx_chain_contract:
  assumes "vr \<noteq> rx"
  shows "post (process_ctrl_tx_chain H rx vr c) s (\<lambda>r s' es.
     used_on vr es = (if r = Ok () then [head_index c] else []) \<and> guarded_writes {} es \<and>
     offered_on vr es = [])"
proof -
  have reply: "post (handle_control_msg H rx m) t Q"
    if "\<And>r t' es. elsewhere vr t es t' \<Longrightarrow> Q r t' es" for m t Q
    by (rule post_run) (blast intro: that keepsD [OF elsewhere_control [OF assms]])
  show ?thesis
    unfolding process_ctrl_tx_chain_def vhost_calls
    by (simp add: post_simps split: prod.split option.split, intro allI impI conjI reply)
       (auto simp: post_simps elsewhere_def split: prod.split outcome.split
          intro: guarded_weaken guarded_both)
qed

text \<open>
  The contract as an interpretation: two distinct queues, packed as the locale wants one.
\<close>

lemma ctrl_tx_handler:
  assumes "vr \<noteq> rx"
  shows "chain_handler (process_ctrl_tx_chain H rx vr) vr (process_ctrl_tx_requests H rx)"
proof
  fix c s r s' es
  assume "process_ctrl_tx_chain H rx vr c s = (r, s', es)"
  note contract = postD [OF ctrl_tx_chain_contract [OF assms] this]
  show "used_on vr es = (if r = Ok () then [head_index c] else [])" using contract by blast
  show "guarded_writes {} es" using contract by blast
next
  fix cs
  show "process_ctrl_tx_requests H rx cs vr =
      (if cs = [] then ret True else bind (mfor (process_ctrl_tx_chain H rx vr) cs) (\<lambda>_. ret True))"
    by (simp add: process_ctrl_tx_requests_def)
next
  fix c
  have "keeps (emitting (is_handler_event vr)) (process_ctrl_rx_queue H rx)"
    using assms
    unfolding process_ctrl_rx_queue_def process_ctrl_rx_requests_def process_ctrl_rx_chain_def
      serve_queue_def vhost_calls
    by (intro emit.keeps_rules emit_ext emit_remove_control) simp_all
  moreover have "keeps (emitting (is_handler_event vr)) (add_control H m)" for m
    by (rule keepsI) (simp add: post_def add_control_def emitting_def split: prod.split)
  moreover have "keeps (emitting (is_handler_event vr)) (update_backend f)" for f
    unfolding update_backend_def by (rule emit.keeps_modify) (simp add: emitting_def)
  ultimately have "keeps (emitting (is_handler_event vr)) (handle_control_msg H rx m)" for m
    unfolding handle_control_msg_def send_reply_def by (intro emit.keeps_rules)
  then show "keeps (emitting (is_handler_event vr)) (process_ctrl_tx_chain H rx vr c)"
    unfolding process_ctrl_tx_chain_def vhost_calls by (intro emit.keeps_rules emit_ext) simp_all
qed

section \<open>One chain of the transmit queue, as a specification\<close>

inductive console_tx_spec ::
  "vring \<Rightarrow> desc_chain \<Rightarrow> (vhu_console_error, unit) outcome \<Rightarrow> console_trace \<Rightarrow> bool"
  for vr :: vring and c :: desc_chain
where
  count: "length ds \<noteq> 1 \<Longrightarrow>
    console_tx_spec vr c (Err (UnexpectedDescriptorCount (length ds))) [Chain_Collect c ds]"
| write_only: "length ds = 1 \<Longrightarrow> is_write_only (ds ! 0) \<Longrightarrow>
    console_tx_spec vr c (Err (UnexpectedWriteOnlyDescriptor 0)) [Chain_Collect c ds]"
| read_failed: "length ds = 1 \<Longrightarrow> \<not> is_write_only (ds ! 0) \<Longrightarrow>
    console_tx_spec vr c (Err DescriptorReadFailed)
      [Chain_Collect c ds, Memory_Read c (addr (ds ! 0)) 4096 None]"
| too_long: "length ds = 1 \<Longrightarrow> \<not> is_write_only (ds ! 0) \<Longrightarrow> length bs = 4096 \<Longrightarrow>
    4096 < unat (len (ds ! 0)) \<Longrightarrow>
    console_tx_spec vr c (Panic Index_Out_Of_Bounds)
      [Chain_Collect c ds, Memory_Read c (addr (ds ! 0)) 4096 (Some bs)]"
| not_utf8: "length ds = 1 \<Longrightarrow> \<not> is_write_only (ds ! 0) \<Longrightarrow> length bs = 4096 \<Longrightarrow>
    unat (len (ds ! 0)) \<le> 4096 \<Longrightarrow> \<forall>text. list_all is_char text \<longrightarrow> as_bytes text \<noteq> take (unat (len (ds ! 0))) bs \<Longrightarrow>
    console_tx_spec vr c (Panic Unwrap_Err)
      [Chain_Collect c ds, Memory_Read c (addr (ds ! 0)) 4096 (Some bs)]"
| print_failed: "length ds = 1 \<Longrightarrow> \<not> is_write_only (ds ! 0) \<Longrightarrow> length bs = 4096 \<Longrightarrow>
    unat (len (ds ! 0)) \<le> 4096 \<Longrightarrow> as_bytes text = take (unat (len (ds ! 0))) bs \<Longrightarrow>
    console_tx_spec vr c (Panic Explicit_Panic)
      [Chain_Collect c ds, Memory_Read c (addr (ds ! 0)) 4096 (Some bs), Device (Print text False)]"
| flush_failed: "length ds = 1 \<Longrightarrow> \<not> is_write_only (ds ! 0) \<Longrightarrow> length bs = 4096 \<Longrightarrow>
    unat (len (ds ! 0)) \<le> 4096 \<Longrightarrow> as_bytes text = take (unat (len (ds ! 0))) bs \<Longrightarrow>
    console_tx_spec vr c (Panic Unwrap_Err)
      [Chain_Collect c ds, Memory_Read c (addr (ds ! 0)) 4096 (Some bs), Device (Print text True),
       Device (Flush False)]"
| printed: "length ds = 1 \<Longrightarrow> \<not> is_write_only (ds ! 0) \<Longrightarrow> length bs = 4096 \<Longrightarrow>
    unat (len (ds ! 0)) \<le> 4096 \<Longrightarrow> as_bytes text = take (unat (len (ds ! 0))) bs \<Longrightarrow>
    console_tx_spec vr c (Ok ())
      [Chain_Collect c ds, Memory_Read c (addr (ds ! 0)) 4096 (Some bs), Device (Print text True),
       Device (Flush True), Add_Used vr (head_index c) (len (ds ! 0)) used]"

lemma console_tx_refines_post:
  "post (process_tx_chain H vr c) s (\<lambda>r s' es. console_tx_spec vr c r es)"
  unfolding process_tx_chain_def slice_to_def vhost_calls buffer_size_def
  by (simp add: post_simps split: prod.split option.split)
     (auto simp: not_le dest: as_bytes_from_utf8 from_utf8_as_bytes,
      (rule console_tx_spec.intros [unfolded One_nat_def]; force dest: as_bytes_from_utf8 from_utf8_as_bytes)+)

section \<open>Control messages\<close>

text \<open>The messages that a trace puts into the queue for the guest and takes out of it.\<close>

fun replied :: "console_trace \<Rightarrow> VirtioConsoleControl list" where
  "replied [] = []"
| "replied (Device (Ctl_Add m ok) # es) = m # replied es"
| "replied (_ # es) = replied es"

fun added :: "console_trace \<Rightarrow> VirtioConsoleControl list" where
  "added [] = []"
| "added (Device (Ctl_Add m True) # es) = m # added es"
| "added (_ # es) = added es"

fun removed :: "console_trace \<Rightarrow> VirtioConsoleControl list" where
  "removed [] = []"
| "removed (Device (Ctl_Remove (Some m)) # es) = m # removed es"
| "removed (_ # es) = removed es"

lemma replied_append [simp]: "replied (es @ es') = replied es @ replied es'"
  by (induction es rule: replied.induct) auto

lemma added_append [simp]: "added (es @ es') = added es @ added es'"
  by (induction es rule: added.induct) auto

lemma removed_append [simp]: "removed (es @ es') = removed es @ removed es'"
  by (induction es rule: removed.induct) auto

definition replies_to :: "u16 \<Rightarrow> VirtioConsoleControl list" where
  "replies_to event =
     (if event = VIRTIO_CONSOLE_DEVICE_READY then [control_reply VIRTIO_CONSOLE_PORT_ADD]
      else if event = VIRTIO_CONSOLE_PORT_READY then
        [control_reply VIRTIO_CONSOLE_CONSOLE_PORT, control_reply VIRTIO_CONSOLE_PORT_NAME,
         control_reply VIRTIO_CONSOLE_PORT_OPEN]
      else [])"

lemma ctrl_rx_no_reply:
  assumes "process_ctrl_rx_queue H vr s = (r, s', es)"
  shows "replied es = []"
proof -
  have "keeps (emitting (\<lambda>e. \<forall>m ok. e \<noteq> Device (Ctl_Add m ok))) (process_ctrl_rx_queue H vr)"
    unfolding process_ctrl_rx_queue_def process_ctrl_rx_requests_def process_ctrl_rx_chain_def
      serve_queue_def vhost_calls
    by (intro emit.keeps_rules emit_ext emit_remove_control) simp_all
  from keepsD [OF this assms] show ?thesis
    unfolding emitting_def by (induction es rule: replied.induct) auto
qed

lemma send_reply_sends:
  "post (send_reply H vr e) s (\<lambda>r s' es. replied es = [control_reply e])"
  unfolding send_reply_def
  by (auto simp: post_simps post_def [of "add_control _ _"] add_control_def split: prod.split
      intro!: post_run dest: ctrl_rx_no_reply)

lemma handle_control_replies:
  "post (handle_control_msg H vr m) s (\<lambda>r s' es.
     prefix (replied es) (replies_to (control_event m)) \<and>
     (r = Ok () \<longrightarrow> replied es = replies_to (control_event m)))"
proof -
  have reply: "post (send_reply H vr e) t Q"
    if "\<And>r t' es. replied es = [control_reply e] \<Longrightarrow> Q r t' es" for e t Q
    by (rule post_mono [OF send_reply_sends]) (rule that)
  show ?thesis
    unfolding handle_control_msg_def
    by (simp add: post_simps update_backend_def, intro allI impI conjI reply)
       (auto simp: replies_to_def post_simps control_event_defs split: outcome.split intro!: reply)
qed
section \<open>What the guest reads of the control messages\<close>

text \<open>
  One round: a message is taken and written, or nothing is written and at most one message is
  lost.
\<close>

lemma ctrl_rx_chain_messages:
  "post (process_ctrl_rx_chain H vr c) s (\<lambda>r s' es.
     (r = Ok None \<longrightarrow> written es = map control_payload (removed es) \<and> length (removed es) = 1) \<and>
     (r \<noteq> Ok None \<longrightarrow> written es = [] \<and> length (removed es) \<le> 1) \<and>
     (\<forall>b. r = Ok (Some b) \<longrightarrow> removed es = []))"
  unfolding process_ctrl_rx_chain_def vhost_calls
  by (simp add: post_simps split: prod.split, intro allI impI conjI post_remove_control)
     (auto simp: post_simps split: option.split prod.split)

lemma ctrl_rx_loop_messages:
  "mfor_until (process_ctrl_rx_chain H vr) cs s = (r, s', es) \<Longrightarrow>
     \<exists>k. written es = map control_payload (take k (removed es)) \<and>
       length (used_on vr es) = k \<and> k \<le> length (removed es) \<and> length (removed es) \<le> Suc k \<and>
       ((\<exists>v. r = Ok v) \<longrightarrow> length (removed es) = k)"
proof (induction cs arbitrary: s es)
  case Nil
  then show ?case by (simp add: ret_def)
next
  case (Cons c cs)
  obtain r1 s1 es1 where b: "process_ctrl_rx_chain H vr c s = (r1, s1, es1)"
    by (cases "process_ctrl_rx_chain H vr c s") auto
  note round = postD [OF ctrl_rx_chain_messages b] postD [OF ctrl_rx_chain_contract b]
  show ?case
  proof (cases "r1 = Ok None")
    case True
    with Cons.prems b obtain es2 where
      rest: "mfor_until (process_ctrl_rx_chain H vr) cs s1 = (r, s', es2)" and es: "es = es1 @ es2"
      by (auto simp: bind_def split: prod.splits)
    from Cons.IH [OF rest] obtain k where k: "written es2 = map control_payload (take k (removed es2))"
      "length (used_on vr es2) = k" "k \<le> length (removed es2)" "length (removed es2) \<le> Suc k"
      "(\<exists>v. r = Ok v) \<longrightarrow> length (removed es2) = k" by blast
    from round True have "written es1 = map control_payload (removed es1)"
      "length (removed es1) = 1" "length (used_on vr es1) = 1" by auto
    with k es show ?thesis by (intro exI [of _ "Suc k"]) (auto simp: take_map)
  next
    case False
    then have "es = es1 \<and> (\<forall>v. r = Ok v \<longrightarrow> (\<exists>b. r1 = Ok (Some b)))"
      using Cons.prems b
      by (auto simp: bind_def ret_def split: prod.splits outcome.splits option.splits)
    with round False show ?thesis by (intro exI [of _ 0]) auto
  qed
qed

section \<open>Relations that every handler keeps\<close>

definition ctl_balance ::
  "('q \<Rightarrow> VirtioConsoleControl list) \<Rightarrow> ('w, 'q, 'z) console_device_scheme \<Rightarrow> console_trace \<Rightarrow>
   ('w, 'q, 'z) console_device_scheme \<Rightarrow> bool" where
  "ctl_balance contents s es s' \<longleftrightarrow>
     contents (rx_fifo (backend s)) @ added es = removed es @ contents (rx_fifo (backend s'))"

interpretation ctl: run_relation "ctl_balance contents" for contents
  by unfold_locales (simp_all add: ctl_balance_def, metis append.assoc)

text \<open>
  The flags are only ever set, and the terminal is read, and the buffer for its character
  written, only once the guest has kicked the transmit queue.
\<close>

definition terminal_gate ::
  "('w, 'q, 'z) console_device_scheme \<Rightarrow> console_trace \<Rightarrow> ('w, 'q, 'z) console_device_scheme \<Rightarrow> bool" where
  "terminal_gate s es s' \<longleftrightarrow>
     (ready (backend s) \<longrightarrow> ready (backend s')) \<and>
     (ready_to_write (backend s) \<longrightarrow> ready_to_write (backend s')) \<and>
     (\<not> ready_to_write (backend s') \<longrightarrow>
        output_buffer (backend s') = output_buffer (backend s) \<and>
        list_all (\<lambda>e. \<forall>x. e \<noteq> Device (Term_Read x)) es)"

interpretation gate: run_relation terminal_gate
  by unfold_locales (auto simp: terminal_gate_def)

lemma ctl_add: "ctl_laws H contents \<Longrightarrow> keeps (ctl_balance contents) (add_control H m)"
  by (rule keepsI) (auto simp: post_def add_control_def ctl_balance_def ctl_laws_def split: prod.split)

lemma ctl_remove:
  assumes "ctl_laws H contents"
  shows "keeps (ctl_balance contents) (remove_control H)"
proof (rule keepsI)
  fix s :: "('a, 'b, 'c) console_device_scheme"
  obtain r q where "ctl_remove H (rx_fifo (backend s)) = (r, q)"
    by (cases "ctl_remove H (rx_fifo (backend s))")
  with assms show "post (remove_control H) s (\<lambda>r s' es. ctl_balance contents s es s')"
    by (cases r) (simp_all add: post_def remove_control_def ctl_balance_def ctl_laws_def)
qed

lemma ctl_update: "(\<And>b. rx_fifo (f b) = rx_fifo b) \<Longrightarrow> keeps (ctl_balance contents) (update_backend f)"
  unfolding update_backend_def by (rule ctl.keeps_modify) (simp add: ctl_balance_def)

lemma ctl_ext: "(\<And>a. added [mk a] = [] \<and> removed [mk a] = []) \<Longrightarrow> keeps (ctl_balance contents) (ext f mk)"
  by (rule keeps_ext) (simp add: ctl_balance_def)

lemmas ctl_rules = ctl.keeps_rules ctl_add ctl_remove ctl_update ctl_ext

lemma gate_fifo: "keeps terminal_gate (add_control H m)" "keeps terminal_gate (remove_control H)"
  by (rule keepsI; simp add: post_def add_control_def remove_control_def terminal_gate_def split: prod.split)+

lemma gate_update:
  "(\<And>b. (ready b \<longrightarrow> ready (f b)) \<and> (ready_to_write b \<longrightarrow> ready_to_write (f b)) \<and>
      output_buffer (f b) = output_buffer b) \<Longrightarrow> keeps terminal_gate (update_backend f)"
  unfolding update_backend_def by (rule gate.keeps_modify) (simp add: terminal_gate_def)

lemma gate_ext: "(\<And>a x. mk a \<noteq> Device (Term_Read x)) \<Longrightarrow> keeps terminal_gate (ext f mk)"
  by (rule keeps_ext) (simp add: terminal_gate_def)

lemmas gate_rules = gate.keeps_rules gate_fifo gate_update gate_ext

lemma ctl_ctrl_rx_queue:
  "ctl_laws H contents \<Longrightarrow> keeps (ctl_balance contents) (process_ctrl_rx_queue H vr)"
  unfolding process_ctrl_rx_queue_def process_ctrl_rx_requests_def process_ctrl_rx_chain_def
    serve_queue_def vhost_calls
  by (intro ctl_rules) simp_all

lemma ctl_dispatch:
  assumes "ctl_laws H contents"
  shows "keeps (ctl_balance contents) (dispatch H device_event vrings vr)"
proof -
  have "keeps (ctl_balance contents) (process_rx_requests H cs v)" for cs v
    unfolding process_rx_requests_def vhost_calls by (cases cs) (auto intro!: ctl_rules)
  moreover have "keeps (ctl_balance contents) (process_tx_requests H cs v)" for cs v
    unfolding process_tx_requests_def process_tx_chain_def slice_to_def vhost_calls
    by (auto intro!: ctl_rules)
  moreover have "keeps (ctl_balance contents) (process_ctrl_tx_requests H rx cs v)" for rx cs v
    unfolding process_ctrl_tx_requests_def process_ctrl_tx_chain_def handle_control_msg_def
      send_reply_def vhost_calls
    by (auto intro!: ctl_rules assms ctl_ctrl_rx_queue)
  moreover have "keeps (ctl_balance contents) (drain H fd)" for fd
    unfolding drain_def vhost_calls by (auto intro!: ctl_rules)
  ultimately show ?thesis
    unfolding dispatch_def process_tx_queue_def process_rx_queue_def process_ctrl_tx_queue_def
    by (intro ctl.keeps_rules ctl_update keeps_serve_queue [OF ctl.run_relation_axioms]
        ctl_ctrl_rx_queue assms) (simp_all add: ctl_balance_def)
qed

lemma gate_ctrl_rx_queue: "keeps terminal_gate (process_ctrl_rx_queue H vr)"
  unfolding process_ctrl_rx_queue_def process_ctrl_rx_requests_def process_ctrl_rx_chain_def
    serve_queue_def vhost_calls
  by (intro gate_rules) simp_all

lemma gate_dispatch: "keeps terminal_gate (dispatch H device_event vrings vr)"
proof -
  have "keeps terminal_gate (process_rx_requests H cs v)" for cs v
    unfolding process_rx_requests_def vhost_calls by (cases cs) (auto intro!: gate_rules)
  moreover have "keeps terminal_gate (process_tx_requests H cs v)" for cs v
    unfolding process_tx_requests_def process_tx_chain_def slice_to_def vhost_calls
    by (auto intro!: gate_rules)
  moreover have "keeps terminal_gate (process_ctrl_tx_requests H rx cs v)" for rx cs v
    unfolding process_ctrl_tx_requests_def process_ctrl_tx_chain_def handle_control_msg_def
      send_reply_def vhost_calls
    by (auto intro!: gate_rules gate_ctrl_rx_queue)
  moreover have "keeps terminal_gate (drain H fd)" for fd
    unfolding drain_def vhost_calls by (auto intro!: gate_rules)
  ultimately show ?thesis
    unfolding dispatch_def process_tx_queue_def process_rx_queue_def process_ctrl_tx_queue_def
    by (intro gate.keeps_rules gate_update keeps_serve_queue [OF gate.run_relation_axioms]
        gate_ctrl_rx_queue) (simp_all add: terminal_gate_def)
qed

lemma ctl_console_round: "keeps (ctl_balance contents) (console_round H)"
  unfolding console_round_def vhost_calls
  by (intro ctl_rules ctl.keeps_lock_read ctl.keeps_lock_write) (simp_all add: ctl_balance_def)

lemma gate_console_round: "keeps terminal_gate (console_round H)"
proof (rule keepsI)
  fix s :: "('a, 'b, 'c) console_device_scheme"
  show "post (console_round H) s (\<lambda>r s' es. terminal_gate s es s')"
    unfolding console_round_def vhost_calls update_backend_def
    by (auto simp: post_simps terminal_gate_def split: prod.split option.split)
qed

end
