(* ===== verification/VhuConsoleEvents.thy ===== *)
theory VhuConsoleEvents
  imports VhuConsoleRuns
begin

text \<open>
  \<open>handle_event\<close> of the console device (\<open>vhu_console.rs\<close>) as a whole, and the theorems about its
  handlers, each applied to a run on a concrete host.
\<close>

section \<open>A host\<close>

text \<open>
  Each virtqueue offers one chain of one descriptor of eight bytes, write-only on the queues
  to the guest; guest memory holds the given bytes, followed by zeros; all calls succeed.
\<close>

definition ring_chain :: "vring \<Rightarrow> desc_chain" where
  "ring_chain v = \<lparr>head_index = of_nat v, chain_handle = v\<rparr>"

definition ring_descriptor :: "vring \<Rightarrow> descriptor" where
  "ring_descriptor v = \<lparr>addr = 0x1000, len = 8, is_write_only = (v \<in> {0, 2})\<rparr>"

definition zero_fill :: "u8 list \<Rightarrow> nat \<Rightarrow> u8" where
  "zero_fill bytes i = (if i < length bytes then bytes ! i else 0)"

definition console_example_host :: "u8 list \<Rightarrow> (unit, VirtioConsoleControl list) console_host" where
  "console_example_host bytes =
     \<lparr>queue_iter = (\<lambda>v m w. (Some [ring_chain v], w)),
      chain_collect = (\<lambda>c w. ([ring_descriptor (chain_handle c)], w)),
      memory_read = (\<lambda>c a n w. (Some (zero_fill bytes), w)),
      memory_write = (\<lambda>c bs a w. (True, w)),
      vring_add_used = (\<lambda>v h n w. (True, w)),
      vring_signal_used_queue = (\<lambda>v w. (True, w)),
      vring_disable_notification = (\<lambda>v w. (True, w)),
      vring_enable_notification = (\<lambda>v w. (Some False, w)),
      vring_get_kick = (\<lambda>v w. (True, w)),
      eventfd_new = (\<lambda>w. (Some 9, w)),
      eventfd_write = (\<lambda>fd n w. (True, w)),
      eventfd_read = (\<lambda>fd w. (Some 1, w)),
      register_listener = (\<lambda>fd ev d w. (True, w)),
      daemon_new = (\<lambda>name w. (True, w)),
      daemon_epoll_handlers = (\<lambda>w. (1, w)),
      listener_new = (\<lambda>path unlink w. (True, w)),
      daemon_start = (\<lambda>w. (True, w)),
      daemon_wait = (\<lambda>w. (Stopped, w)),
      ctl_new = [],
      ctl_add = (\<lambda>m q. (True, q @ [m])),
      ctl_remove = (\<lambda>q. case q of [] \<Rightarrow> (None, []) | m # ms \<Rightarrow> (Some m, ms)),
      stdout_print = (\<lambda>text w. (True, w)),
      stdout_flush = (\<lambda>w. (True, w)),
      term_read_char = (\<lambda>w. (Some 0x78, w))\<rparr>"

lemma console_example_answers [simp]:
  "queue_iter (console_example_host bytes) v m w = (Some [ring_chain v], w)"
  "chain_collect (console_example_host bytes) c w = ([ring_descriptor (chain_handle c)], w)"
  "memory_read (console_example_host bytes) c a n w =
     (Some (zero_fill bytes), w)"
  "memory_write (console_example_host bytes) c bs a w = (True, w)"
  "vring_add_used (console_example_host bytes) v h l w = (True, w)"
  "vring_signal_used_queue (console_example_host bytes) v w = (True, w)"
  "vring_disable_notification (console_example_host bytes) v w = (True, w)"
  "vring_enable_notification (console_example_host bytes) v w = (Some False, w)"
  "vring_get_kick (console_example_host bytes) v w = (True, w)"
  "eventfd_new (console_example_host bytes) w = (Some 9, w)"
  "eventfd_write (console_example_host bytes) fd k w = (True, w)"
  "eventfd_read (console_example_host bytes) fd w = (Some 1, w)"
  "register_listener (console_example_host bytes) fd ev tag w = (True, w)"
  "daemon_new (console_example_host bytes) name w = (True, w)"
  "daemon_epoll_handlers (console_example_host bytes) w = (1, w)"
  "ctl_new (console_example_host bytes) = []"
  "ctl_add (console_example_host bytes) c' q = (True, q @ [c'])"
  "ctl_remove (console_example_host bytes) [] = (None, [])"
  "ctl_remove (console_example_host bytes) (c' # q) = (Some c', q)"
  "stdout_print (console_example_host bytes) text w = (True, w)"
  "stdout_flush (console_example_host bytes) w = (True, w)"
  "term_read_char (console_example_host bytes) w = (Some 0x78, w)"
  by (simp_all add: console_example_host_def)

definition example_console_more ::
  "VirtioConsoleControl list \<Rightarrow> 'z \<Rightarrow> (unit, VirtioConsoleControl list, 'z) console_device_scheme" where
  "example_console_more q z =
     \<lparr>world = (),
      controller = \<lparr>config = \<lparr>cols = 20, rows = 20, max_nr_ports = 1, emerg_wr = 64\<rparr>,
        console_name = str ''vconsole''\<rparr>,
      controller_poisoned = False,
      backend = \<lparr>acked_features = 0, event_idx = False, rx_fifo = q, ready = True,
        ready_to_write = True, output_buffer = str ''x'', rx_event = 9, rx_ctrl_event = 9,
        exit_event = 9, mem = Some 0\<rparr>,
      backend_poisoned = False, \<dots> = z\<rparr>"

abbreviation example_console :: "VirtioConsoleControl list \<Rightarrow> (unit, VirtioConsoleControl list) console_device" where
  "example_console q \<equiv> example_console_more q ()"

lemma console_example_ctl_laws: "ctl_laws (console_example_host bytes) (\<lambda>q. q)"
  by (auto simp: ctl_laws_def console_example_host_def split: list.splits)

lemma console_example_supply: "supply_laws (console_example_host bytes) (\<lambda>_. 0)"
  by (simp add: supply_laws_def console_example_host_def)

lemmas console_run_defs =
  vhost_calls bind_def ext_def get_def ret_def fail_def panic_def unwrap_def unwrap_ok_def ok_or_def
  ensure_def index_def of_sum_def attempt_def map_err_def lock_write_def lock_read_def bind_run_def
  then_ret_def serve_queue_def serve_event_def modify_def update_backend_def ring_descriptor_def
  ring_chain_def example_console_more_def

section \<open>The theorems\<close>

text \<open>
  C11: one chain of the transmit queue does what \<open>console_tx_spec\<close> says, on every path: what is
  printed is the text whose UTF-8 form the guest put into the descriptor; 4096 bytes are
  read whatever its length; a longer descriptor or bytes that are not UTF-8 make it panic.
\<close>

theorem console_tx_refines:
  assumes "process_tx_chain H vr c s = (r, s', es)"
  shows "console_tx_spec vr c r es"
  by (rule postD [OF console_tx_refines_post assms])


lemma example_port_open:
  "handle_control_msg (console_example_host []) 2 (control_reply VIRTIO_CONSOLE_DEVICE_READY)
     (example_console []) =
   (Ok (), example_console [],
    [Device (Ctl_Add (control_reply VIRTIO_CONSOLE_PORT_ADD) True), Queue_Iter 2 (Some [ring_chain 2]),
     Chain_Collect (ring_chain 2) [ring_descriptor 2],
     Device (Ctl_Remove (Some (control_reply VIRTIO_CONSOLE_PORT_ADD))),
     Memory_Write (ring_chain 2) (to_le_bytes (control_reply VIRTIO_CONSOLE_PORT_ADD)) 0x1000 True,
     Add_Used 2 2 8 True, Signal_Used 2 True])"
  by (simp add: handle_control_msg_def send_reply_def add_control_def process_ctrl_rx_queue_def
      process_ctrl_rx_requests_def process_ctrl_rx_chain_def remove_control_def control_reply_def
      control_event_defs size_of_control_def control_payload_def console_run_defs)


definition example_text :: rust_string where
  "example_text = str ''hi'' @ replicate 6 0"

lemma example_text_read:
  "take 8 (map (zero_fill [0x68, 0x69]) [0..<4096]) = [0x68, 0x69, 0, 0, 0, 0, 0, 0]"
proof -
  have "take 8 (map (zero_fill [0x68, 0x69]) [0..<4096]) = map (zero_fill [0x68, 0x69]) [0..<8]"
    by (simp add: take_map)
  also have "\<dots> = [0x68, 0x69, 0, 0, 0, 0, 0, 0]"
    by (simp add: zero_fill_def upt_rec)
  finally show ?thesis .
qed

lemma example_text_utf8: "from_utf8 [0x68, 0x69, 0, 0, 0, 0, 0, 0] = Some example_text"
  by (simp add: from_utf8_def example_text_def str_def utf8_chars.simps) (simp add: eval_nat_numeral)

definition example_print_trace :: console_trace where
  "example_print_trace =
    [Chain_Collect (ring_chain 1) [ring_descriptor 1],
     Memory_Read (ring_chain 1) 0x1000 4096 (Some (map (zero_fill [0x68, 0x69]) [0..<4096])),
     Device (Print example_text True), Device (Flush True), Add_Used 1 1 8 True]"

lemma example_print:
  "process_tx_chain (console_example_host [0x68, 0x69]) 1 (ring_chain 1) (example_console []) =
   (Ok (), example_console [], example_print_trace)"
  by (simp add: process_tx_chain_def slice_to_def buffer_size_def console_run_defs
      example_text_read example_text_utf8 example_print_trace_def)

theorem console_tx_refines_witness: "console_tx_spec 1 (ring_chain 1) (Ok ()) example_print_trace"
  by (rule console_tx_refines [OF example_print])

text \<open>
  C9: the control queue to the guest.  The chains are answered in order, each with the oldest
  message that is queued, in its encoding; when no message is left the rest of the chains
  stay untouched.  Only an error can lose a message, and it loses one.
\<close>

theorem control_messages_in_order:
  assumes "process_ctrl_rx_requests H cs vr s = (r, s', es)"
  shows "\<exists>k. used_on vr es = map head_index (take k cs)
    \<and> written es = map control_payload (take k (removed es))
    \<and> k \<le> length (removed es) \<and> length (removed es) \<le> Suc k
    \<and> ((\<exists>b. r = Ok b) \<longrightarrow> length (removed es) = k)"
proof (cases "cs = []")
  case True
  with assms show ?thesis by (auto simp: process_ctrl_rx_requests_def ret_def)
next
  case False
  with assms obtain r1 where run: "mfor_until (process_ctrl_rx_chain H vr) cs s = (r1, s', es)"
    and r: "(\<exists>b. r = Ok b) \<longrightarrow> (\<exists>v. r1 = Ok v)"
    by (auto simp: process_ctrl_rx_requests_def bind_def ret_def
        split: prod.splits outcome.splits option.splits)
  from ctrl_rx_loop.loop_used [OF run] obtain k where
    "k \<le> length cs" "used_on vr es = map head_index (take k cs)" by blast
  moreover from this have "length (used_on vr es) = k" by simp
  ultimately show ?thesis
    using ctrl_rx_loop_messages [OF run] r by (intro exI [of _ k]) auto
qed

lemma example_ctrl_rx:
  "process_ctrl_rx_requests (console_example_host []) [ring_chain 2, ring_chain 2] 2
     (example_console [control_reply VIRTIO_CONSOLE_PORT_NAME]) =
   (Ok False, example_console [],
    [Chain_Collect (ring_chain 2) [ring_descriptor 2],
     Device (Ctl_Remove (Some (control_reply VIRTIO_CONSOLE_PORT_NAME))),
     Memory_Write (ring_chain 2) (control_payload (control_reply VIRTIO_CONSOLE_PORT_NAME)) 0x1000 True,
     Add_Used 2 2 8 True, Chain_Collect (ring_chain 2) [ring_descriptor 2],
     Device (Ctl_Remove None)])"
  by (simp add: process_ctrl_rx_requests_def process_ctrl_rx_chain_def remove_control_def
      size_of_control_def console_run_defs)

theorem control_messages_in_order_witness:
  "\<exists>k. map control_payload (take k [control_reply VIRTIO_CONSOLE_PORT_NAME]) =
      [control_payload (control_reply VIRTIO_CONSOLE_PORT_NAME)] \<and> k = 1"
  using control_messages_in_order [OF example_ctrl_rx] by auto

section \<open>Which chains an event returns\<close>

lemma returns_ext: "(\<And>a h n ok. mk a \<noteq> Add_Used v h n ok) \<Longrightarrow> keeps (returns_offered v) (ext f mk)"
  by (rule keeps_ext) (simp add: returns_offered_def used_on_none)

lemma returns_fifo:
  "keeps (returns_offered v) (add_control H m)" "keeps (returns_offered v) (remove_control H)"
  "keeps (returns_offered v) (update_backend f)"
  by (rule keepsI; simp add: post_simps post_def add_control_def remove_control_def update_backend_def
      modify_def returns_offered_def split: prod.split)+

lemmas returns_rules = returns.keeps_rules returns_ext returns_fifo

lemma returns_ctrl_rx: "keeps (returns_offered v) (process_ctrl_rx_queue H vr)"
proof (cases "v = vr")
  case True
  show ?thesis
    unfolding True process_ctrl_rx_queue_def
    by (rule keepsI, rule post_run) (simp add: returns_offered_def ctrl_rx.serve_used)
next
  case False
  then show ?thesis
    unfolding process_ctrl_rx_queue_def process_ctrl_rx_requests_def process_ctrl_rx_chain_def
      serve_queue_def vhost_calls
    by (intro returns_rules) simp_all
qed

lemma returns_tx: "keeps (returns_offered v) (process_tx_queue H vr)"
proof (cases "v = vr")
  case True
  show ?thesis
    unfolding True process_tx_queue_def
    by (rule keepsI, rule post_run) (simp add: returns_offered_def console_tx.serve_used)
next
  case False
  then show ?thesis
    unfolding process_tx_queue_def process_tx_requests_def process_tx_chain_def slice_to_def
      serve_queue_def vhost_calls
    by (intro returns_rules) simp_all
qed

lemma returns_rx: "keeps (returns_offered v) (process_rx_queue H vr)"
proof (cases "v = vr")
  case True
  show ?thesis
    unfolding True process_rx_queue_def
    by (rule keepsI, rule post_run) (simp add: returns_offered_def console_rx.serve_used)
next
  case False
  have "keeps (returns_offered v) (process_rx_requests H cs vr)" for cs
    using False unfolding process_rx_requests_def vhost_calls by (cases cs) (auto intro!: returns_rules)
  then show ?thesis
    unfolding process_rx_queue_def serve_queue_def vhost_calls by (intro returns_rules) simp_all
qed

lemma returns_ctrl_tx:
  assumes "vr \<noteq> rx"
  shows "keeps (returns_offered v) (process_ctrl_tx_queue H vr rx)"
proof (cases "v = vr")
  case True
  show ?thesis
    unfolding True process_ctrl_tx_queue_def
    by (rule keepsI, rule post_run)
       (simp add: returns_offered_def chain_handler.chain_serve_used [OF ctrl_tx_handler [OF assms]])
next
  case False
  then show ?thesis
    unfolding process_ctrl_tx_queue_def process_ctrl_tx_requests_def process_ctrl_tx_chain_def
      handle_control_msg_def send_reply_def serve_queue_def vhost_calls
    by (intro returns_rules returns_ctrl_rx) simp_all
qed
lemma keeps_if: "(b \<Longrightarrow> keeps R m) \<Longrightarrow> (\<not> b \<Longrightarrow> keeps R n) \<Longrightarrow> keeps R (if b then m else n)"
  by simp

lemma returns_dispatch:
  assumes "distinct vrings" and "vring_index device_event < length vrings"
  shows "keeps (returns_offered v) (dispatch H device_event vrings (vrings ! vring_index device_event))"
proof -
  have ctrl_tx: "keeps (returns_offered v)
      (bind (index vrings (unat CTRL_RX_QUEUE)) (\<lambda>rx.
       process_ctrl_tx_queue H (vrings ! vring_index device_event) rx))"
    if "device_event = CTRL_TX_QUEUE"
  proof -
    have "vrings ! 3 \<noteq> vrings ! 2"
      using assms that by (simp add: vring_index_def console_queue_defs nth_eq_iff_index_eq)
    moreover have "2 < length vrings"
      using assms(2) that by (simp add: vring_index_def console_queue_defs)
    ultimately show ?thesis
      using that by (simp add: index_def vring_index_def console_queue_defs returns_ctrl_tx)
  qed
  have drain: "keeps (returns_offered v) (drain H fd)" for fd
    unfolding drain_def vhost_calls by (intro returns_rules) simp
  show ?thesis
    unfolding dispatch_def
    by (intro returns.keeps_map_err keeps_if;
        (rule ctrl_tx, assumption | intro returns_rules returns_tx returns_rx returns_ctrl_rx drain))
qed

lemma writes_serve:
  "(\<And>s r s' es. m s = (r, s', es) \<Longrightarrow> guarded_writes {} es) \<Longrightarrow> keeps writes_guarded m"
  by (rule keepsI, rule post_run) (simp add: writes_guarded_def)

lemma writes_other:
  "keeps writes_guarded (drain H fd)" "keeps writes_guarded (update_backend f)"
  by (rule keepsI; simp add: drain_def vhost_calls post_simps update_backend_def writes_guarded_def
      split: prod.split)+

lemma writes_dispatch:
  assumes "distinct vrings" and "vring_index device_event < length vrings"
  shows "keeps writes_guarded (dispatch H device_event vrings (vrings ! vring_index device_event))"
proof -
  have ctrl_tx: "keeps writes_guarded
      (bind (index vrings (unat CTRL_RX_QUEUE)) (\<lambda>rx.
       process_ctrl_tx_queue H (vrings ! vring_index device_event) rx))"
    if "device_event = CTRL_TX_QUEUE"
  proof -
    have ne: "vrings ! 3 \<noteq> vrings ! 2"
      using assms that by (simp add: vring_index_def console_queue_defs nth_eq_iff_index_eq)
    have "2 < length vrings"
      using assms(2) that by (simp add: vring_index_def console_queue_defs)
    then show ?thesis
      using that
      by (simp add: index_def vring_index_def console_queue_defs process_ctrl_tx_queue_def)
         (rule writes_serve, erule chain_handler.chain_serve_writes [OF ctrl_tx_handler [OF ne]])
  qed
  have tx: "keeps writes_guarded (process_tx_queue H v)" for v
    unfolding process_tx_queue_def by (rule writes_serve) (rule console_tx.serve_writes)
  have rx: "keeps writes_guarded (process_rx_queue H v)" for v
    unfolding process_rx_queue_def by (rule writes_serve) (rule console_rx.serve_writes)
  have ctrl_rx: "keeps writes_guarded (process_ctrl_rx_queue H v)" for v
    unfolding process_ctrl_rx_queue_def by (rule writes_serve) (rule ctrl_rx.serve_writes)
  show ?thesis
    unfolding dispatch_def
    by (intro writes.keeps_map_err keeps_if;
        (rule ctrl_tx, assumption | intro writes.keeps_rules writes_other tx rx ctrl_rx))
qed

lemma console_event_served:
  assumes "handle_event H device_event evset vrings s = Some (r, s', es)"
  obtains (ignored) "r = Ok False" "s' = s" "es = []"
  | (no_ring) "r = Panic Index_Out_Of_Bounds" "s' = s" "es = []" "length vrings \<le> vring_index device_event"
  | (served) r0 where "vring_index device_event < length vrings"
      "serve_event H (event_idx (backend s)) (vrings ! vring_index device_event)
         (dispatch H device_event vrings (vrings ! vring_index device_event)) s = Some (r0, s', es)"
      "r = Ok False \<longleftrightarrow> r0 = Ok ()"
proof (cases "device_event = RX_QUEUE \<or> (device_event = CTRL_RX_QUEUE \<and> \<not> ready (backend s))")
  case True
  with assms ignored show thesis
    by (auto simp: handle_event_def ret_def console_queue_defs split: if_splits)
next
  case False
  show thesis
  proof (cases "vring_index device_event < length vrings")
    case True
    with assms False obtain z where
      "then_ret (serve_event H (event_idx (backend s)) (vrings ! vring_index device_event)
         (dispatch H device_event vrings (vrings ! vring_index device_event)) s) False = Some z"
      "z = (r, s', es)"
      by (auto simp: handle_event_def bind_run_def index_def ret_def)
    with served True show thesis by (auto elim: then_ret_cases)
  next
    case out: False
    with assms False no_ring show thesis
      by (auto simp: handle_event_def bind_run_def index_def panic_def not_less)
  qed
qed
text \<open>
  C7: whatever event the console device handles, the chains it returns on any of its virtqueues
  are chains the guest offered there, in the order it offered them and none twice, and guest
  memory is written only at write-only descriptors of a chain that was taken.  The replies
  that the control queue sends on the other one while it is served are included.
\<close>

theorem console_events_sound:
  assumes "distinct vrings" and "handle_event H device_event evset vrings s = Some (r, s', es)"
  shows "subseq (used_on v es) (offered_on v es) \<and> guarded_writes {} es"
  using assms(2)
proof (cases rule: console_event_served)
  case (served r0)
  have "returns_offered v s es s'"
    by (rule keeps_serve_event [OF served(2) returns.run_relation_axioms
          returns_dispatch [OF assms(1) served(1)]]) (simp_all add: returns_offered_def)
  moreover have "writes_guarded s es s'"
    by (rule keeps_serve_event [OF served(2) writes.run_relation_axioms
          writes_dispatch [OF assms(1) served(1)]]) (simp_all add: writes_guarded_def)
  ultimately show ?thesis by (simp add: returns_offered_def writes_guarded_def)
qed simp_all

definition example_control_trace :: console_trace where
  "example_control_trace =
    [Queue_Iter 3 (Some [ring_chain 3]), Chain_Collect (ring_chain 3) [ring_descriptor 3],
     Memory_Read (ring_chain 3) 0x1000 8 (Some (to_le_bytes (control_reply VIRTIO_CONSOLE_DEVICE_READY))),
     Device (Ctl_Add (control_reply VIRTIO_CONSOLE_PORT_ADD) True), Queue_Iter 2 (Some [ring_chain 2]),
     Chain_Collect (ring_chain 2) [ring_descriptor 2],
     Device (Ctl_Remove (Some (control_reply VIRTIO_CONSOLE_PORT_ADD))),
     Memory_Write (ring_chain 2) (to_le_bytes (control_reply VIRTIO_CONSOLE_PORT_ADD)) 0x1000 True,
     Add_Used 2 2 8 True, Signal_Used 2 True, Get_Kick 2 True, Eventfd_Write 9 1 True,
     Add_Used 3 3 8 True, Signal_Used 3 True]"

lemma example_control_read:
  assumes "length bytes = 8"
  shows "map (zero_fill bytes) [0..<8] = bytes"
  by (rule nth_equalityI) (simp_all add: assms zero_fill_def)

lemma example_console_fields [simp]:
  "(example_console_more q z)\<lparr>world := w\<rparr> = example_console_more q z"
  "rx_ctrl_event (backend (example_console_more q z)) = 9"
  "mem (backend (example_console_more q z)) = Some 0"
  "event_idx (backend (example_console_more q z)) = False"
  "ready (backend (example_console_more q z)) = True"
  by (simp_all add: example_console_more_def)

lemma example_control_run:
  "handle_event (console_example_host (to_le_bytes (control_reply VIRTIO_CONSOLE_DEVICE_READY)))
     CTRL_TX_QUEUE EventSet_IN [0, 1, 2, 3] (example_console_more [] z) =
   Some (Ok False, example_console_more [] z, example_control_trace)"
proof -
  note example_control_read [of "to_le_bytes (control_reply VIRTIO_CONSOLE_DEVICE_READY)"]
  then have read: "map (zero_fill (to_le_bytes (control_reply VIRTIO_CONSOLE_DEVICE_READY))) [0..<size_of_control]
      = to_le_bytes (control_reply VIRTIO_CONSOLE_DEVICE_READY)"
    by (simp add: size_of_control_def)
  have reply: "handle_control_msg (console_example_host bytes) 2 (control_reply VIRTIO_CONSOLE_DEVICE_READY)
       (example_console_more [] z) =
     (Ok (), example_console_more [] z,
      [Device (Ctl_Add (control_reply VIRTIO_CONSOLE_PORT_ADD) True), Queue_Iter 2 (Some [ring_chain 2]),
       Chain_Collect (ring_chain 2) [ring_descriptor 2],
       Device (Ctl_Remove (Some (control_reply VIRTIO_CONSOLE_PORT_ADD))),
       Memory_Write (ring_chain 2) (to_le_bytes (control_reply VIRTIO_CONSOLE_PORT_ADD)) 0x1000 True,
       Add_Used 2 2 8 True, Signal_Used 2 True])" for bytes
    by (simp add: handle_control_msg_def send_reply_def add_control_def process_ctrl_rx_queue_def
        process_ctrl_rx_requests_def process_ctrl_rx_chain_def remove_control_def control_reply_def
        control_event_defs size_of_control_def control_payload_def console_run_defs)
  have chain: "process_ctrl_tx_chain
      (console_example_host (to_le_bytes (control_reply VIRTIO_CONSOLE_DEVICE_READY))) 2 3 (ring_chain 3)
      (example_console_more [] z) = (Ok (), example_console_more [] z, butlast (tl example_control_trace))"
    using read
    by (simp add: process_ctrl_tx_chain_def example_control_trace_def vhost_calls bind_def ext_def
        get_def ret_def ok_or_def ensure_def index_def attempt_def unwrap_ok_def reply
        ring_descriptor_def size_of_control_def)
       (simp add: ring_chain_def)
  show ?thesis
    by (simp add: handle_event_def vring_index_def dispatch_def process_ctrl_tx_queue_def
        process_ctrl_tx_requests_def console_queue_defs bind_run_def index_def ret_def then_ret_def
        serve_event_def map_err_def serve_queue_def bind_def get_def vhost_calls ext_def unwrap_def
        ok_or_def ensure_def chain)
       (simp add: example_control_trace_def)
qed

theorem console_events_sound_witness:
  "subseq (used_on 2 example_control_trace) (offered_on 2 example_control_trace)
    \<and> guarded_writes {} example_control_trace"
  using console_events_sound [OF _ example_control_run, of 2] by simp

text \<open>
  C8: an event of the transmit queue or of the control queue from the guest skips no chain: what
  it returns on its queue is a prefix of what was offered, and all of it when it succeeds.
\<close>

theorem console_in_order_events:
  assumes "distinct vrings" and "device_event \<in> {TX_QUEUE, CTRL_TX_QUEUE}"
    and "handle_event H device_event evset vrings s = Some (r, s', es)"
    and "v = vrings ! unat device_event"
  shows "prefix (used_on v es) (offered_on v es)
    \<and> (r = Ok False \<longrightarrow> es = [] \<or> used_on v es = offered_on v es)"
  using assms(3)
proof (cases rule: console_event_served)
  case (served r0)
  have index: "vring_index device_event = unat device_event"
    using assms(2) by (auto simp: vring_index_def console_queue_defs)
  have round: "prefix (used_on v es1) (offered_on v es1) \<and> (r1 = Ok () \<longrightarrow> used_on v es1 = offered_on v es1)"
    if run: "dispatch H device_event vrings v t = (r1, t', es1)" for t r1 t' es1
  proof (cases "device_event = TX_QUEUE")
    case True
    with run obtain r2 t1 where "process_tx_queue H v t1 = (r2, t', es1)" "r1 = Ok () \<longrightarrow> r2 = Ok ()"
      by (auto simp: dispatch_def map_err_def update_backend_def modify_def bind_def
          split: prod.splits outcome.splits)
    then show ?thesis
      unfolding process_tx_queue_def by (auto dest!: console_tx.serve_in_order)
  next
    case False
    then have ctrl: "device_event = CTRL_TX_QUEUE" using assms(2) by simp
    have "2 < length vrings" "vrings ! 3 \<noteq> vrings ! 2"
      using served(1) assms(1) by (simp_all add: ctrl vring_index_def console_queue_defs nth_eq_iff_index_eq)
    with run obtain r2 where run2: "process_ctrl_tx_queue H v (vrings ! 2) t = (r2, t', es1)"
      and "r1 = Ok () \<longrightarrow> r2 = Ok ()"
      by (auto simp: dispatch_def map_err_def bind_def index_def ret_def ctrl console_queue_defs
          split: prod.splits outcome.splits)
    moreover have "v \<noteq> vrings ! 2"
      using \<open>vrings ! 3 \<noteq> vrings ! 2\<close> assms(4) by (simp add: ctrl console_queue_defs)
    note chain_handler.chain_serve_in_order [OF ctrl_tx_handler [OF this]
        run2 [unfolded process_ctrl_tx_queue_def]]
    ultimately show ?thesis by auto
  qed
  have "prefix (used_on v es) (offered_on v es) \<and> (r0 = Ok () \<longrightarrow> used_on v es = offered_on v es)"
    by (rule serve_event_in_order [OF served(2) [unfolded index, folded assms(4)]]) (rule round)
  with served(3) show ?thesis by simp
qed simp_all

theorem console_in_order_events_witness:
  "used_on 3 example_control_trace = offered_on 3 example_control_trace"
  using console_in_order_events [OF _ _ example_control_run, of 3]
  by (simp add: console_queue_defs) (simp add: example_control_trace_def)


lemma example_typed:
  "console_round (console_example_host []) (example_console []) =
     ((Ok None :: (unit, unit option) outcome),
      (example_console [])\<lparr>backend := (backend (example_console []))\<lparr>output_buffer := [0x78]\<rparr>\<rparr>,
      [Device (Term_Read (Some 0x78)), Eventfd_Write 9 1 True])"
  by (simp add: console_round_def console_run_defs)

lemma example_typed_served:
  "process_rx_requests (console_example_host []) [ring_chain 0] 0
     ((example_console [])\<lparr>backend := (backend (example_console []))\<lparr>output_buffer := [0x78]\<rparr>\<rparr>) =
   (Ok True, (example_console [])\<lparr>backend := (backend (example_console []))\<lparr>output_buffer := [0x78]\<rparr>\<rparr>,
    [Chain_Collect (ring_chain 0) [ring_descriptor 0], Memory_Write (ring_chain 0) (as_bytes [0x78]) 0x1000 True,
     Add_Used 0 0 1 True])"
  by (simp add: process_rx_requests_def as_bytes_def utf8_encode_def console_run_defs)


text \<open>
  C28: events that do nothing.  The kick of the receive queue is ignored, that of the control queue
  to the guest too until the guest has sent \<open>DEVICE_READY\<close>; the kind of event is never looked at;
  and with four virtqueues every other number but those of the eventfds is a panic.
\<close>

theorem console_other_events:
  "handle_event H RX_QUEUE evset vrings s = Some (ret False s)
    \<and> (\<not> ready (backend s) \<longrightarrow> handle_event H CTRL_RX_QUEUE evset vrings s = Some (ret False s))
    \<and> handle_event H device_event evset vrings s = handle_event H device_event EventSet_IN vrings s
    \<and> (length vrings = 4 \<and> (device_event = 4 \<or> 6 < device_event) \<longrightarrow>
        handle_event H device_event evset vrings s = Some (Panic Index_Out_Of_Bounds, s, []))"
proof -
  have "\<not> unat device_event < 4 \<and> device_event \<notin> {RX_QUEUE, CTRL_RX_QUEUE, BACKEND_EFD, BACKEND_RX_EFD}"
    if "device_event = 4 \<or> 6 < device_event"
    using that by (auto simp: console_queue_defs word_less_nat_alt)
  then show ?thesis
    by (auto simp: handle_event_def vring_index_def bind_run_def index_def panic_def)
qed

theorem console_other_events_witness:
  "handle_event (console_example_host []) 4 EventSet_IN [0, 1, 2, 3] (example_console []) =
     Some (Panic Index_Out_Of_Bounds, example_console [], [])"
  using console_other_events [of "console_example_host []" EventSet_IN "[0, 1, 2, 3]" "example_console []" 4]
  by simp

section \<open>Events end\<close>

lemma shrink_fifo:
  "keeps (supply_shrinks \<mu>) (add_control H m)" "keeps (supply_shrinks \<mu>) (remove_control H)"
  "keeps (supply_shrinks \<mu>) (update_backend f)"
  by (rule keepsI; simp add: post_def add_control_def remove_control_def update_backend_def
      modify_def supply_shrinks_def split: prod.split)+

lemma console_dispatch_shrinks:
  assumes "supply_laws H \<mu>" and "\<And>text w. \<mu> (snd (stdout_print H text w)) \<le> \<mu> w"
    and "\<And>w. \<mu> (snd (stdout_flush H w)) \<le> \<mu> w"
  shows "keeps (supply_shrinks \<mu>) (dispatch H device_event vrings vr)"
proof -
  note rules = shrink.keeps_rules supply_vhost [OF assms(1)] supply_ext shrink_fifo
  have ctrl_rx: "keeps (supply_shrinks \<mu>) (process_ctrl_rx_queue H v)" for v
    unfolding process_ctrl_rx_queue_def serve_queue_def process_ctrl_rx_requests_def process_ctrl_rx_chain_def
    by (intro rules)
  have rx: "keeps (supply_shrinks \<mu>) (process_rx_requests H cs v)" for cs v
    unfolding process_rx_requests_def by (cases cs) (simp_all, (intro rules)+)
  have tx: "keeps (supply_shrinks \<mu>) (process_tx_queue H v)" for v
    unfolding process_tx_queue_def serve_queue_def process_tx_requests_def process_tx_chain_def slice_to_def
    by (intro rules assms(2,3))
  have ctrl_tx: "keeps (supply_shrinks \<mu>) (process_ctrl_tx_queue H v rx)" for v rx
    unfolding process_ctrl_tx_queue_def serve_queue_def process_ctrl_tx_requests_def
      process_ctrl_tx_chain_def handle_control_msg_def send_reply_def
    by (intro rules ctrl_rx)
  show ?thesis
    unfolding dispatch_def process_rx_queue_def serve_queue_def drain_def
    by (intro rules ctrl_rx rx tx ctrl_tx)
qed



end
