(* ===== verification/ConsoleSystem.thy ===== *)
theory ConsoleSystem
  imports VhuConsoleEvents
begin

text \<open>
  The console device with all that runs at the same time: the worker that calls
  \<open>handle_event\<close>, the terminal thread (\<open>start_console_thread\<close>) and the calls of the vhost-user
  frontend (\<open>vhu_console.rs\<close>).  A step is one event, one round of the terminal thread or one
  call of the frontend; \<open>console_run\<close> is any sequence of steps.  The worker holds the lock of
  the backend during an event, so a panic in it poisons the lock and the terminal thread ends
  at its next round.
\<close>

record ('w, 'q) console_threads = "('w, 'q) console_device" +
  terminal_alive :: bool

section \<open>Steps\<close>

inductive console_step ::
  "('w, 'q) console_host \<Rightarrow> vring list \<Rightarrow>
   ('w, 'q) console_threads \<Rightarrow> console_trace \<Rightarrow> ('w, 'q) console_threads \<Rightarrow> bool"
  for H :: "('w, 'q) console_host" and vrings :: "vring list"
where
  terminal: "terminal_alive s \<Longrightarrow>
    (console_round H :: (_, _, _, unit, _) console_comp) s = (r, s', es) \<Longrightarrow>
    console_step H vrings s es (s'\<lparr>terminal_alive := (r = Ok None)\<rparr>)"
| worker: "\<not> backend_poisoned s \<Longrightarrow> handle_event H device_event evset vrings s = Some (r, s', es) \<Longrightarrow>
    console_step H vrings s es (s'\<lparr>backend_poisoned := (\<exists>p. r = Panic p)\<rparr>)"
| acked_features: "(set_acked_features f :: (_, _, _, unit, unit) console_comp) s = (r, s', es) \<Longrightarrow>
    console_step H vrings s es s'"
| event_idx: "(set_event_idx enabled :: (_, _, _, unit, unit) console_comp) s = (r, s', es) \<Longrightarrow>
    console_step H vrings s es s'"
| memory: "(update_memory m :: (_, _, _, unit, unit) console_comp) s = (r, s', es) \<Longrightarrow>
    console_step H vrings s es s'"
| config: "(get_config offset n :: (_, _, _, unit, _) console_comp) s = (r, s', es) \<Longrightarrow>
    console_step H vrings s es s'"
| vring_worker: "(set_vring_worker H :: (_, _, _, unit, unit) console_comp) s = (r, s', es) \<Longrightarrow>
    console_step H vrings s es s'"

inductive console_run ::
  "('w, 'q) console_host \<Rightarrow> vring list \<Rightarrow>
   ('w, 'q) console_threads \<Rightarrow> console_trace \<Rightarrow> ('w, 'q) console_threads \<Rightarrow> bool"
  for H :: "('w, 'q) console_host" and vrings :: "vring list"
where
  start: "console_run H vrings s [] s"
| steps: "console_run H vrings s es t \<Longrightarrow> console_step H vrings t es' u \<Longrightarrow>
    console_run H vrings s (es @ es') u"

inductive_cases console_stepE: "console_step H vrings s es s'"

lemma console_run_step: "console_step H vrings s es s' \<Longrightarrow> console_run H vrings s es s'"
  using console_run.steps [OF console_run.start] by fastforce

section \<open>What every step keeps\<close>

locale console_relation = run_relation R
  for R :: "('w, 'q) console_threads \<Rightarrow> console_trace \<Rightarrow> ('w, 'q) console_threads \<Rightarrow> bool" +
  fixes H :: "('w, 'q) console_host"
  assumes R_call: "\<forall>x. e \<noteq> Device x \<Longrightarrow> R s [e] (s\<lparr>world := w\<rparr>)"
    and R_update: "R s [] (s\<lparr>backend := (backend s)\<lparr>acked_features := f\<rparr>\<rparr>)"
      "R s [] (s\<lparr>backend := (backend s)\<lparr>event_idx := i\<rparr>\<rparr>)"
      "R s [] (s\<lparr>backend := (backend s)\<lparr>mem := m\<rparr>\<rparr>)"
    and R_flags: "R s [] (s\<lparr>terminal_alive := a\<rparr>)" "R s [] (s\<lparr>backend_poisoned := p\<rparr>)"
      "R s [] (s\<lparr>controller_poisoned := c\<rparr>)"
    and R_dispatch: "keeps R (dispatch H device_event vrings vr)"
    and R_console_round: "keeps R (console_round H :: (_, _, _, unit, _) console_comp)"
begin

lemma R_ext: "(\<And>a. \<forall>x. mk a \<noteq> Device x) \<Longrightarrow> keeps R (ext f mk)"
  by (rule keeps_ext) (blast intro: R_call)

lemma event_keeps:
  assumes "handle_event H device_event evset vrings s = Some (r, s', es)"
  shows "R s es s'"
  using assms
proof (cases rule: console_event_served)
  case (served r0)
  show ?thesis
    by (rule keeps_serve_event [OF served(2) run_relation_axioms R_dispatch]) (simp_all add: R_call)
qed (simp_all add: R_refl)

lemma step_keeps: "console_step H vrings s es s' \<Longrightarrow> R s es s'"
proof (erule console_stepE)
  fix r t
  assume "(console_round H :: (_, _, _, unit, _) console_comp) s = (r, t, es)"
    and "s' = t\<lparr>terminal_alive := r = Ok None\<rparr>"
  then show "R s es s'"
    using R_trans [OF keepsD [OF R_console_round] R_flags(1)] by simp
next
  fix device_event evset r t
  assume "handle_event H device_event evset vrings s = Some (r, t, es)"
    and "s' = t\<lparr>backend_poisoned := \<exists>p. r = Panic p\<rparr>"
  then show "R s es s'"
    using R_trans [OF event_keeps R_flags(2)] by simp
next
  fix offset n r
  assume run: "(get_config offset n :: (_, _, _, unit, _) console_comp) s = (r, s', es)"
  have "keeps R (get_config offset n :: (_, _, _, unit, _) console_comp)"
    unfolding get_config_def by (intro keeps_lock_write keeps_rules R_flags)
  from keepsD [OF this run] show "R s es s'" .
next
  fix r
  assume run: "(set_vring_worker H :: (_, _, _, unit, unit) console_comp) s = (r, s', es)"
  have "keeps R (set_vring_worker H :: (_, _, _, unit, unit) console_comp)"
    unfolding set_vring_worker_def vhost_calls by (intro keeps_rules R_ext) simp_all
  from keepsD [OF this run] show "R s es s'" .
qed (auto simp: set_acked_features_def set_event_idx_def update_memory_def update_backend_def
      modify_def R_update)

lemma run_keeps: "console_run H vrings s es s' \<Longrightarrow> R s es s'"
  by (induction rule: console_run.induct) (auto intro: R_refl R_trans step_keeps)

end

lemma control_relation: "ctl_laws H contents \<Longrightarrow> console_relation (ctl_balance contents) H"
proof
  fix e :: "console_event event" and s :: "('a, 'b) console_threads" and w
  assume "\<forall>x. e \<noteq> Device x"
  then show "ctl_balance contents s [e] (s\<lparr>world := w\<rparr>)"
    by (cases e) (simp_all add: ctl_balance_def)
qed (simp_all add: ctl_balance_def ctl_dispatch ctl_console_round)

interpretation terminal: console_relation terminal_gate H for H
proof
  fix e :: "console_event event" and s :: "('a, 'b) console_threads" and w
  assume "\<forall>x. e \<noteq> Device x"
  then show "terminal_gate s [e] (s\<lparr>world := w\<rparr>)" by (simp add: terminal_gate_def)
qed (simp_all add: terminal_gate_def gate_dispatch gate_console_round)

section \<open>The theorems\<close>

text \<open>
  C12: over every interleaving of the worker, the terminal thread and the frontend, the queue of
  control messages loses nothing and makes nothing up: what was queued and is added is, in
  this order, what is taken out and what is left.
\<close>

theorem control_queue_in_order:
  assumes "ctl_laws H contents" and "console_run H vrings s es s'"
  shows "contents (rx_fifo (backend s)) @ added es = removed es @ contents (rx_fifo (backend s'))"
  using console_relation.run_keeps [OF control_relation [OF assms(1)] assms(2)]
  by (simp add: ctl_balance_def)


definition example_console_threads ::
  "bool \<Rightarrow> (unit, VirtioConsoleControl list) console_threads" where
  "example_console_threads go =
     (let s = example_console_more [] (console_threads.fields True)
      in s\<lparr>backend := (backend s)\<lparr>ready_to_write := go\<rparr>\<rparr>)"

lemma example_waiting_step:
  "console_step (console_example_host []) [0, 1, 2, 3] (example_console_threads False) []
     (example_console_threads False)"
  using console_step.terminal [of "example_console_threads False" "console_example_host []" "Ok None"
      "example_console_threads False" "[]" "[0, 1, 2, 3]"]
  by (simp add: example_console_threads_def Let_def console_threads.defs console_round_def console_run_defs)


lemma example_control_step:
  "console_step (console_example_host (to_le_bytes (control_reply VIRTIO_CONSOLE_DEVICE_READY)))
     [0, 1, 2, 3] (example_console_threads True) example_control_trace (example_console_threads True)"
proof -
  have s: "example_console_threads True = example_console_more [] (console_threads.fields True)"
    by (simp add: example_console_threads_def example_console_more_def Let_def)
  have "example_console_more [] (console_threads.fields True)\<lparr>backend_poisoned := \<exists>p. Ok False = (Panic p :: (console_io_error, bool) outcome)\<rparr>
      = example_console_more [] (console_threads.fields True)"
    by (simp add: example_console_more_def)
  with console_step.worker [OF _ example_control_run, of "console_threads.fields True"]
  show ?thesis by (simp add: s) (simp add: example_console_more_def)
qed

theorem control_queue_in_order_witness:
  "added example_control_trace = [control_reply VIRTIO_CONSOLE_PORT_ADD]
   \<and> removed example_control_trace = [control_reply VIRTIO_CONSOLE_PORT_ADD]"
  using control_queue_in_order [OF console_example_ctl_laws console_run_step [OF example_control_step]]
  by (simp add: example_control_trace_def)

end
