(* ===== verification/ConsoleBackend.thy ===== *)
theory ConsoleBackend
  imports ConsoleSystem Daemon
begin

text \<open>
  The program around the console device (\<open>backend.rs\<close>): its arguments, the thread of each guest
  and the main function, as for the CAN device; and what the device offers to a guest
  (\<open>features\<close> and \<open>get_config\<close> of \<open>vhu_console.rs\<close>).
\<close>

section \<open>Arguments and configuration\<close>

datatype console_start_error =
    SocketCountInvalid nat
  | FailedJoiningThreads
  | CouldNotCreateConsoleController console_error
  | CouldNotCreateBackend vhu_console_error
  | CouldNotCreateDaemon

record ConsoleArgs =
  arg_socket_path :: rust_string
  arg_console_path :: rust_string
  arg_socket_count :: u32

record ConsoleConfiguration =
  socket_path :: rust_string
  socket_count :: u32
  console_path :: rust_string

definition try_from :: "ConsoleArgs \<Rightarrow> console_start_error + ConsoleConfiguration" where
  "try_from args =
     (if arg_socket_count args = 0 then Inl (SocketCountInvalid 0)
      else Inr \<lparr>socket_path = arg_socket_path args, socket_count = arg_socket_count args,
                console_path = trim (arg_console_path args)\<rparr>)"

section \<open>One guest\<close>

definition guest_iteration ::
  "('w, 'q) console_host \<Rightarrow> ConsoleConfiguration \<Rightarrow>
   (('w, 'q, 'z) console_device_scheme, console_event event, console_start_error, unit option) comp" where
  "guest_iteration H conf =
     bind (map_err CouldNotCreateConsoleController (new_controller (console_path conf))) (\<lambda>c.
     bind (modify (\<lambda>s. s\<lparr>controller := c, controller_poisoned := False\<rparr>)) (\<lambda>_.
     bind (map_err CouldNotCreateBackend (new_backend H)) (\<lambda>b.
     bind (modify (\<lambda>s. s\<lparr>backend := b, backend_poisoned := False\<rparr>)) (\<lambda>_.
     bind (new_daemon H (str ''vhost-device-console-backend'')) (\<lambda>ok.
     bind (ensure ok CouldNotCreateDaemon) (\<lambda>_.
     bind (epoll_handlers H) (\<lambda>n.
     bind (first_handler n) (\<lambda>_.
     bind (set_vring_worker H) (\<lambda>_.
     bind spawn (\<lambda>_.
     bind (get (\<lambda>s. exit_event (backend s))) (\<lambda>exit_fd.
     bind (serve_guest H (socket_path conf) exit_fd) (\<lambda>_.
     ret None))))))))))))"

definition guest_thread_run ::
  "('w, 'q) console_host \<Rightarrow> ConsoleConfiguration \<Rightarrow> ('w, 'q, 'z) console_device_scheme \<Rightarrow>
   (('w, 'q, 'z) console_device_scheme, console_event event, console_start_error, unit) run" where
  "guest_thread_run H conf = rust_loop (guest_iteration H conf)"

section \<open>The main function\<close>

definition start_backend ::
  "('w, 'q) console_host \<Rightarrow> ConsoleArgs \<Rightarrow> (nat \<Rightarrow> ('w, 'q, 'z) console_device_scheme) \<Rightarrow>
   (console_start_error, unit) outcome option" where
  "start_backend H args starts =
     (case try_from args of
        Inl _ \<Rightarrow> Some (Panic Unwrap_Err)
      | Inr conf \<Rightarrow>
          join_all FailedJoiningThreads
            (map (\<lambda>i. map_option fst (guest_thread_run H conf (starts i)))
              [0..<unat (socket_count conf)]))"

definition console_init ::
  "('w, 'q) console_host \<Rightarrow> ConsoleArgs \<Rightarrow> (nat \<Rightarrow> ('w, 'q, 'z) console_device_scheme) \<Rightarrow> nat option" where
  "console_init H args starts = map_option exit_status (start_backend H args starts)"

section \<open>What the threads do\<close>

lemma listens_console_iteration:
  "keeps (emitting (listens_on (socket_path conf))) (guest_iteration H conf)"
  unfolding guest_iteration_def new_controller_def new_backend_def set_vring_worker_def daemon_calls
    vhost_calls
  by (auto intro!: emit.keeps_rules emit_ext emit_spawn emit_first_handler emit.keeps_modify
      listens_serve_guest simp: emitting_def)

lemma console_iteration_goes_on: "guest_iteration H conf s = (r, s', es) \<Longrightarrow> r \<noteq> Ok (Some ())"
  unfolding guest_iteration_def by (simp only: bind_assoc [symmetric]) (rule goes_round)

interpretation console: guest_thread "guest_iteration H conf" "socket_path conf" for H conf
  by unfold_locales (fact console_iteration_goes_on, fact listens_console_iteration)

section \<open>The theorems\<close>

text \<open>
  C25: the console program cannot end well either: the exit status of a run that ends is 101 when
  there are no guests to serve, and 1 otherwise; it is never 0.
\<close>

theorem console_exit_status:
  "console_init H args starts \<in> {None, Some (if arg_socket_count args = 0 then 101 else 1)}"
proof (cases "arg_socket_count args = 0")
  case True
  then show ?thesis by (simp add: console_init_def start_backend_def try_from_def exit_status_def)
next
  case False
  obtain conf where conf: "try_from args = Inr conf" "socket_count conf = arg_socket_count args"
    using False by (simp add: try_from_def)
  have "guest_thread_run H conf (starts i) = Some (r, s', es) \<Longrightarrow> r \<noteq> Ok ()" for i r s' es
    unfolding guest_thread_run_def by (rule console.thread_never_ok)
  then have "h \<noteq> Some (Ok ())"
    if "h \<in> set (map (\<lambda>i. map_option fst (guest_thread_run H conf (starts i)))
      [0..<unat (socket_count conf)])" for h
    using that by auto
  moreover have "[0..<unat (socket_count conf)] \<noteq> []"
    using False by (simp add: conf(2) unat_gt_0)
  ultimately have "start_backend H args starts = Some r \<Longrightarrow> \<exists>e. r = Err e" for r
    unfolding start_backend_def conf(1) by (simp only: sum.case) (drule join_all_bad; auto)
  with False show ?thesis
    by (cases "start_backend H args starts") (auto simp: console_init_def exit_status_def)
qed



text \<open>
  C36: the configuration a driver reads.  A controller made by \<open>new_controller\<close> answers the whole
  structure with twenty columns, twenty rows, one port and emergency write 64 in their
  little-endian order; a read is within the structure exactly when it ends by byte twelve.
\<close>

theorem console_config_read:
  assumes "\<not> controller_poisoned s"
    and "(new_controller name :: (unit, unit, _, _) comp) () = (Ok (controller s), (), [])"
  shows "(get_config offset n :: (_, _, _, unit, _) console_comp) s =
    (Ok (if unat offset + unat n \<le> 12
         then Some (take (unat n) (drop (unat offset) [20, 0, 20, 0, 1, 0, 0, 0, 64, 0, 0, 0]))
         else None), s, [])"
proof -
  have "config (controller s) = \<lparr>cols = 20, rows = 20, max_nr_ports = 1, emerg_wr = 64\<rparr>"
    using arg_cong [OF assms(2), of "\<lambda>x. case fst x of Ok c \<Rightarrow> config c"]
    by (simp add: new_controller_def ret_def)
  then have "console_config_bytes (config (controller s)) = [20, 0, 20, 0, 1, 0, 0, 0, 64, 0, 0, 0]"
    by (simp add: console_config_bytes_def le16_bytes_def le32_bytes_def)
  with assms(1) show ?thesis
    by (simp add: get_config_def lock_write_def get_def)
qed

theorem console_config_read_witness:
  "(get_config 4 4 :: (_, _, _, unit, _) console_comp) (example_console []) =
     (Ok (Some [1, 0, 0, 0]), example_console [], [])"
  using console_config_read [of "example_console []" "str ''vconsole''" 4 4]
  by (simp add: example_console_more_def new_controller_def ret_def)

end
